theory Spec2Isabelle
  imports Main
begin

section \<open>JavaScript values\<close>

text \<open>
  The search code receives values typed \<open>any\<close> and inspects them at run time
  (\<open>typeof value === "string"\<close>, \<open>Array.isArray(value)\<close>, \<open>!!value\<close>), so they are
  modelled as the JSON-shaped values they are: undefined, null, booleans, numbers, strings,
  arrays and plain objects. A plain object is the list of its own enumerable properties in
  the order \<open>Object.entries\<close> yields them. Numbers are the integers (the safe integers of
  the source); strings are byte strings holding UTF-8 text.
\<close>

datatype json =
    JUndefined
  | JNull
  | JBool bool
  | JNum int
  | JStr string
  | JArr "json list"
  | JObj "(string \<times> json) list"

text \<open>\<open>!!v\<close>: the falsy values are undefined, null, false, 0 and the empty string.\<close>

fun truthy :: "json \<Rightarrow> bool" where
  "truthy JUndefined = False"
| "truthy JNull = False"
| "truthy (JBool b) = b"
| "truthy (JNum n) = (n \<noteq> 0)"
| "truthy (JStr s) = (s \<noteq> [])"
| "truthy (JArr xs) = True"
| "truthy (JObj kvs) = True"

text \<open>
  \<open>v[k]\<close> for a string key: the own property of a plain object, undefined when there is
  none. The keys the modelled code reads (\<open>any\<close>, \<open>all\<close>, \<open>not\<close>, \<open>to\<close>, \<open>from\<close> and the
  segments of the metadata paths) name no built-in member of strings, numbers, booleans or
  arrays, so reading them from such a value gives undefined.
\<close>

fun js_prop :: "json \<Rightarrow> string \<Rightarrow> json" where
  "js_prop (JObj kvs) k = (case map_of kvs k of Some v \<Rightarrow> v | None \<Rightarrow> JUndefined)"
| "js_prop v k = JUndefined"

text \<open>
  The errors the modelled code can raise: the built-in \<open>TypeError\<close> and \<open>RangeError\<close>, the
  \<open>RemoteServerError\<close> of the request module (status text, URL, status), and the rejection
  of a call to a remote service, with its reason.
\<close>

datatype error = TypeError | RangeError | RemoteServerError string string int | Rejected string

text \<open>\<open>xs.join(sep)\<close> on strings.\<close>

fun join_strings :: "string \<Rightarrow> string list \<Rightarrow> string" where
  "join_strings sep [] = []"
| "join_strings sep [x] = x"
| "join_strings sep (x # y # ys) = x @ sep @ join_strings sep (y # ys)"

text \<open>
  Number to string, for the integers of magnitude below \<open>10^21\<close>, the safe integers among
  them: an optional sign and the decimal digits. Fractions and the larger magnitudes, which
  JavaScript prints in exponent form, are outside the values modelled.
\<close>

fun digits :: "nat \<Rightarrow> string" where
  "digits n =
     (if n < 10 then [''0123456789'' ! n]
      else digits (n div 10) @ [''0123456789'' ! (n mod 10)])"

definition numberToString :: "int \<Rightarrow> string" where
  "numberToString i = (if i < 0 then CHR ''-'' # digits (nat (- i)) else digits (nat i))"

text \<open>
  The string conversion a template literal \<open>`${v}`\<close> and \<open>encodeURIComponent(v)\<close> apply.
  An array converts as \<open>join(",")\<close> does: undefined and null elements give the empty string.
\<close>

fun ToString :: "json \<Rightarrow> string" where
  "ToString JUndefined = ''undefined''"
| "ToString JNull = ''null''"
| "ToString (JBool b) = (if b then ''true'' else ''false'')"
| "ToString (JNum n) = numberToString n"
| "ToString (JStr s) = s"
| "ToString (JArr xs) =
     join_strings '',''
       (map (\<lambda>x. case x of JUndefined \<Rightarrow> [] | JNull \<Rightarrow> [] | _ \<Rightarrow> ToString x) xs)"
| "ToString (JObj kvs) = ''[object Object]''"

text \<open>\<open>xs.join(sep)\<close> on an array of values.\<close>

definition json_join :: "string \<Rightarrow> json list \<Rightarrow> string" where
  "json_join sep xs =
     join_strings sep
       (map (\<lambda>x. case x of JUndefined \<Rightarrow> [] | JNull \<Rightarrow> [] | _ \<Rightarrow> ToString x) xs)"

text \<open>
  \<open>encodeURIComponent\<close> on UTF-8 text: every byte other than the unreserved characters
  \<open>A-Z a-z 0-9 - _ . ! ~ * ' ( )\<close> becomes \<open>%XX\<close> with upper-case hexadecimal digits.
\<close>

definition uriUnreserved :: "char \<Rightarrow> bool" where
  "uriUnreserved c =
     (c \<in> set ''ABCDEFGHIJKLMNOPQRSTUVWXYZabcdefghijklmnopqrstuvwxyz0123456789-_.!~*()''
      \<or> c = CHR 0x27)"

definition percentEncode :: "char \<Rightarrow> string" where
  "percentEncode c =
     [CHR ''%'', ''0123456789ABCDEF'' ! ((of_char c :: nat) div 16),
      ''0123456789ABCDEF'' ! ((of_char c :: nat) mod 16)]"

definition encodeURIComponent :: "string \<Rightarrow> string" where
  "encodeURIComponent s = concat (map (\<lambda>c. if uriUnreserved c then [c] else percentEncode c) s)"

section \<open>Query strings\<close>

text \<open>\<open>IQueryParams\<close>: the entries of the parameter object, as \<open>Object.entries\<close> lists them.\<close>

type_synonym IQueryParams = "(string \<times> json) list"

text \<open>\<open>getQueryString\<close> of search/_internal/hubSearchItems.ts.\<close>

definition getQueryString :: "IQueryParams \<Rightarrow> string" where
  "getQueryString queryParams =
     (let result =
        join_strings ''&''
          (map (\<lambda>(key, v). key @ ''='' @ ToString v)
             (filter (\<lambda>(key, v). truthy v) queryParams))
      in if result = [] then result else ''?'' @ result)"

text \<open>The second \<open>getQueryString\<close> (unnamed part 001), which encodes each value.\<close>

definition getQueryString_part_001 :: "IQueryParams \<Rightarrow> string" where
  "getQueryString_part_001 queryParams =
     (let result =
        join_strings ''&''
          (map (\<lambda>(key, v). key @ ''='' @ encodeURIComponent (ToString v))
             (filter (\<lambda>(key, v). truthy v) queryParams))
      in if result = [] then result else ''?'' @ result)"

text \<open>
  What the specification says both compute: nothing when no entry has a truthy value, and
  otherwise \<open>?\<close> followed by the \<open>key=value\<close> pairs of the truthy entries, in order, joined
  by \<open>&\<close>.
\<close>

definition getQueryString_spec :: "IQueryParams \<Rightarrow> string" where
  "getQueryString_spec queryParams =
     (if list_all (\<lambda>(key, v). \<not> truthy v) queryParams then ''''
      else ''?'' @ join_strings ''&''
             (map (\<lambda>(key, v). key @ ''='' @ ToString v)
                (filter (\<lambda>(key, v). truthy v) queryParams)))"

text \<open>An entry whose value, when truthy, \<open>encodeURIComponent\<close> leaves as it is.\<close>

definition unchangedByEncoding :: "string \<times> json \<Rightarrow> bool" where
  "unchangedByEncoding e = (truthy (snd e) \<longrightarrow> encodeURIComponent (ToString (snd e)) = ToString (snd e))"

section \<open>The filter compiler of hubSearchItems.ts\<close>

text \<open>
  \<open>IPredicate\<close> is an object of fields whose values are typed \<open>any\<close>; \<open>IFilter\<close> has an
  optional \<open>operation\<close> and its \<open>predicates\<close>; \<open>IQuery\<close> has its \<open>filters\<close>.
\<close>

type_synonym IPredicate = "(string \<times> json) list"

record IFilter =
  operation :: "string option"
  predicates :: "IPredicate list"

record IQuery =
  filters :: "IFilter list"

text \<open>\<open>xs.map(f)\<close> where \<open>f\<close> may throw: the first exception ends the map.\<close>

fun mapE :: "('a \<Rightarrow> error + 'b) \<Rightarrow> 'a list \<Rightarrow> error + 'b list" where
  "mapE f [] = Inr []"
| "mapE f (x # xs) =
     (case f x of
        Inl e \<Rightarrow> Inl e
      | Inr y \<Rightarrow> (case mapE f xs of Inl e \<Rightarrow> Inl e | Inr ys \<Rightarrow> Inr (y # ys)))"

text \<open>
  \<open>Array.isArray(m)\<close>, with the elements. Only an array has \<open>join\<close> and \<open>map\<close>: calling
  them on any other truthy value is a \<open>TypeError\<close>.
\<close>

definition arrayItems :: "json \<Rightarrow> json list option" where
  "arrayItems m = (case m of JArr xs \<Rightarrow> Some xs | _ \<Rightarrow> None)"

text \<open>
  \<open>m && `${field} IN (${m.join(", ")})`\<close> for \<open>value.any\<close>, and with \<open>NOT IN\<close> for
  \<open>value.not\<close>: a falsy \<open>m\<close> is the result itself.
\<close>

definition membershipSection :: "string \<Rightarrow> string \<Rightarrow> json \<Rightarrow> error + json" where
  "membershipSection field kw m =
     (if \<not> truthy m then Inr m
      else case arrayItems m of
          Some xs \<Rightarrow> Inr (JStr (field @ kw @ json_join '', '' xs @ '')''))
        | None \<Rightarrow> Inl TypeError)"

text \<open>\<open>m && m.map((v) => `${field}=${v}`).join(" AND ")\<close> for \<open>value.all\<close>.\<close>

definition allSection :: "string \<Rightarrow> json \<Rightarrow> error + json" where
  "allSection field m =
     (if \<not> truthy m then Inr m
      else case arrayItems m of
          Some xs \<Rightarrow> Inr (JStr (join_strings '' AND '' (map (\<lambda>v. field @ ''='' @ ToString v) xs)))
        | None \<Rightarrow> Inl TypeError)"

text \<open>
  The body of the \<open>reduce\<close> callback of \<open>formatPredicate\<close>: the section of one field. The
  last branch takes every value that is neither a string nor an array.
\<close>

definition formatSection :: "string \<Rightarrow> json \<Rightarrow> error + string" where
  "formatSection field v =
     (case v of
        JStr s \<Rightarrow> Inr (field @ ''='' @ s)
      | JArr xs \<Rightarrow> Inr (field @ '' IN ('' @ json_join '', '' xs @ '')'')
      | _ \<Rightarrow>
         (case membershipSection field '' IN ('' (js_prop v ''any'') of
            Inl e \<Rightarrow> Inl e
          | Inr anys \<Rightarrow>
             (case allSection field (js_prop v ''all'') of
                Inl e \<Rightarrow> Inl e
              | Inr alls \<Rightarrow>
                 (case membershipSection field '' NOT IN ('' (js_prop v ''not'') of
                    Inl e \<Rightarrow> Inl e
                  | Inr nots \<Rightarrow> Inr (json_join '' AND '' (filter truthy [anys, alls, nots]))))))"

text \<open>The \<open>reduce\<close> over the entries, pushing each section onto the accumulator.\<close>

fun collectSections :: "(string \<times> json) list \<Rightarrow> string list \<Rightarrow> error + string list" where
  "collectSections [] acc = Inr acc"
| "collectSections ((field, v) # es) acc =
     (case formatSection field v of
        Inl e \<Rightarrow> Inl e
      | Inr section \<Rightarrow> collectSections es (acc @ [section]))"

definition formatPredicate :: "IPredicate \<Rightarrow> error + string" where
  "formatPredicate predicate =
     (case collectSections (filter (\<lambda>(field, v). truthy v) predicate) [] of
        Inl e \<Rightarrow> Inl e
      | Inr acc \<Rightarrow> Inr (''('' @ join_strings '' AND '' acc @ '')''))"

definition formatFilterBlock :: "IFilter \<Rightarrow> error + string" where
  "formatFilterBlock f =
     (let operation = (case operation f of Some s \<Rightarrow> if s = [] then ''OR'' else s | None \<Rightarrow> ''OR'')
      in case mapE formatPredicate (predicates f) of
           Inl e \<Rightarrow> Inl e
         | Inr formatted \<Rightarrow> Inr (''('' @ join_strings ('' '' @ operation @ '' '') formatted @ '')''))"

definition getFilterQueryParam :: "IQuery \<Rightarrow> error + string" where
  "getFilterQueryParam query =
     (case mapE formatFilterBlock (filters query) of
        Inl e \<Rightarrow> Inl e
      | Inr blocks \<Rightarrow> Inr (join_strings '' AND '' blocks))"

subsection \<open>The format as the specification words it\<close>

text \<open>
  A string value becomes \<open>field=value\<close>; an array value becomes \<open>field IN (v1, v2, ...)\<close>;
  any other value contributes \<open>field IN (any...)\<close>, one \<open>field=v\<close> conjunct for each element
  of \<open>all\<close>, and \<open>field NOT IN (not...)\<close>, for those of \<open>any\<close>, \<open>all\<close> and \<open>not\<close> it has as
  arrays, joined by \<open>AND\<close>.
\<close>

definition spec_section :: "string \<Rightarrow> json \<Rightarrow> string" where
  "spec_section field v =
     (case v of
        JStr s \<Rightarrow> field @ ''='' @ s
      | JArr xs \<Rightarrow> field @ '' IN ('' @ json_join '', '' xs @ '')''
      | _ \<Rightarrow>
         join_strings '' AND ''
           ((case arrayItems (js_prop v ''any'') of
               Some xs \<Rightarrow> [field @ '' IN ('' @ json_join '', '' xs @ '')''] | None \<Rightarrow> [])
            @ (case arrayItems (js_prop v ''all'') of
               Some xs \<Rightarrow> map (\<lambda>x. field @ ''='' @ ToString x) xs | None \<Rightarrow> [])
            @ (case arrayItems (js_prop v ''not'') of
               Some xs \<Rightarrow> [field @ '' NOT IN ('' @ json_join '', '' xs @ '')''] | None \<Rightarrow> [])))"

text \<open>A predicate: the sections of its fields with truthy values, joined by \<open>AND\<close>, in parentheses.\<close>

definition spec_formatPredicate :: "IPredicate \<Rightarrow> string" where
  "spec_formatPredicate predicate =
     ''('' @ join_strings '' AND ''
              (map (\<lambda>(field, v). spec_section field v) (filter (\<lambda>(field, v). truthy v) predicate))
         @ '')''"

text \<open>A block: its predicates joined by the operation (\<open>OR\<close> when absent), in parentheses.\<close>

definition spec_formatFilterBlock :: "IFilter \<Rightarrow> string" where
  "spec_formatFilterBlock f =
     ''('' @ join_strings
              ('' '' @ (case operation f of Some s \<Rightarrow> if s = [] then ''OR'' else s | None \<Rightarrow> ''OR'') @ '' '')
              (map spec_formatPredicate (predicates f))
         @ '')''"

definition spec_getFilterQueryParam :: "IQuery \<Rightarrow> string" where
  "spec_getFilterQueryParam query = join_strings '' AND '' (map spec_formatFilterBlock (filters query))"

text \<open>
  The queries on which no \<open>join\<close> or \<open>map\<close> is called on a value that is not an array: in
  every truthy field value that is neither a string nor an array, each of \<open>any\<close>, \<open>all\<close> and
  \<open>not\<close> is an array or falsy.
\<close>

definition arrayOrFalsy :: "json \<Rightarrow> bool" where
  "arrayOrFalsy m = (arrayItems m \<noteq> None \<or> \<not> truthy m)"

definition matchArrays :: "json \<Rightarrow> bool" where
  "matchArrays v =
     (case v of
        JStr s \<Rightarrow> True
      | JArr xs \<Rightarrow> True
      | _ \<Rightarrow> arrayOrFalsy (js_prop v ''any'') \<and> arrayOrFalsy (js_prop v ''all'')
             \<and> arrayOrFalsy (js_prop v ''not''))"

definition predicateArrays :: "IPredicate \<Rightarrow> bool" where
  "predicateArrays predicate =
     list_all (\<lambda>(field, v). matchArrays v) (filter (\<lambda>(field, v). truthy v) predicate)"

definition queryArrays :: "IQuery \<Rightarrow> bool" where
  "queryArrays query = list_all (\<lambda>f. list_all predicateArrays (predicates f)) (filters query)"

section \<open>The item search of hubSearchItems.ts\<close>

text \<open>
  \<open>IHubSearchOptions\<close>, with the members the search reads: \<open>aggFields\<close>, the URL of
  \<open>api\<close>, \<open>num\<close>, \<open>start\<close>, and the token \<open>getProp\<close> finds under
  \<open>requestOptions.authentication.token\<close>.
\<close>

record IHubSearchOptions =
  aggFields :: "string list option"
  api_url :: string
  num :: json
  start :: json
  requestOptions_authentication_token :: json

text \<open>The response of \<open>fetch\<close>: \<open>ok\<close>, \<open>statusText\<close>, \<open>status\<close> (here \<open>response_status\<close>) and what \<open>json()\<close> resolves to.\<close>

record IOgcLink =
  rel :: string
  href :: string

record IOgcItem =
  properties :: json

record IOgcResponse =
  features :: "IOgcItem list"
  numberMatched :: int
  links :: "IOgcLink list"

record FetchResponse =
  ok :: bool
  statusText :: string
  response_status :: int
  json_body :: "error + IOgcResponse"

text \<open>
  What the search calls outside this file: the \<open>fetch\<close> in effect
  (\<open>options.requestOptions?.fetch || fetch\<close>) and \<open>itemToSearchResult\<close> of
  portalSearchItems, called with the pseudo item, no includes and no request options.
\<close>

record 'r SearchServices =
  fetch :: "string \<Rightarrow> error + FetchResponse"
  itemToSearchResult :: "json \<Rightarrow> error + 'r"

text \<open>
  The \<open>next\<close> callback of a response, as the closure it is: the one returning null, or the
  one that searches the original query again from the \<open>startindex\<close> of the next link.
\<close>

datatype NextCallback = ReturnsNull | SearchFromStartindexOf string

record 'r IHubSearchResponse =
  total :: int
  results :: "'r list"
  hasNext :: bool
  next_callback :: NextCallback

definition getOgcItemQueryParams :: "IQuery \<Rightarrow> IHubSearchOptions \<Rightarrow> error + IQueryParams" where
  "getOgcItemQueryParams query options =
     (case getFilterQueryParam query of
        Inl e \<Rightarrow> Inl e
      | Inr filter_param \<Rightarrow>
          Inr [(''filter'', JStr filter_param),
               (''token'', requestOptions_authentication_token options),
               (''limit'', num options),
               (''startindex'', start options)])"

definition ogcApiRequest ::
  "'r SearchServices \<Rightarrow> string \<Rightarrow> IQueryParams \<Rightarrow> IHubSearchOptions \<Rightarrow> error + IOgcResponse" where
  "ogcApiRequest services url queryParams options =
     (let withQueryString = url @ getQueryString queryParams
      in case fetch services withQueryString of
           Inl e \<Rightarrow> Inl e
         | Inr response \<Rightarrow>
             if \<not> ok response
             then Inl (RemoteServerError (statusText response) withQueryString (response_status response))
             else json_body response)"

definition getNextOgcCallback :: "IOgcResponse \<Rightarrow> IQuery \<Rightarrow> IHubSearchOptions \<Rightarrow> NextCallback" where
  "getNextOgcCallback response originalQuery originalOptions =
     (case find (\<lambda>l. rel l = ''next'') (links response) of
        None \<Rightarrow> ReturnsNull
      | Some nextLink \<Rightarrow> SearchFromStartindexOf (href nextLink))"

definition ogcItemToSearchResult :: "'r SearchServices \<Rightarrow> IOgcItem \<Rightarrow> error + 'r" where
  "ogcItemToSearchResult services ogcItem = itemToSearchResult services (properties ogcItem)"

definition formatOgcSearchResponse ::
  "'r SearchServices \<Rightarrow> IOgcResponse \<Rightarrow> IQuery \<Rightarrow> IHubSearchOptions \<Rightarrow> error + 'r IHubSearchResponse" where
  "formatOgcSearchResponse services response originalQuery originalOptions =
     (case mapE (ogcItemToSearchResult services) (features response) of
        Inl e \<Rightarrow> Inl e
      | Inr formattedResults \<Rightarrow>
          Inr \<lparr>total = numberMatched response,
               results = formattedResults,
               hasNext = (find (\<lambda>l. rel l = ''next'') (links response) \<noteq> None),
               next_callback = getNextOgcCallback response originalQuery originalOptions\<rparr>)"

text \<open>
  The search functions are \<open>async\<close>: an exception inside is a rejection. A resolved value is
  a response or null (\<open>None\<close>).
\<close>

definition searchOgcItems ::
  "'r SearchServices \<Rightarrow> IQuery \<Rightarrow> IHubSearchOptions \<Rightarrow> error + 'r IHubSearchResponse option" where
  "searchOgcItems services query options =
     (let url = api_url options @ ''/items''
      in case getOgcItemQueryParams query options of
           Inl e \<Rightarrow> Inl e
         | Inr queryParams \<Rightarrow>
             (case ogcApiRequest services url queryParams options of
                Inl e \<Rightarrow> Inl e
              | Inr rawResponse \<Rightarrow>
                  (case formatOgcSearchResponse services rawResponse query options of
                     Inl e \<Rightarrow> Inl e
                   | Inr response \<Rightarrow> Inr (Some response))))"

definition searchOgcAggregations ::
  "IQuery \<Rightarrow> IHubSearchOptions \<Rightarrow> error + 'r IHubSearchResponse option" where
  "searchOgcAggregations query options = Inr None"

text \<open>\<open>options.aggFields?.length\<close> is truthy exactly for a non-empty array.\<close>

definition hubSearchItems ::
  "'r SearchServices \<Rightarrow> IQuery \<Rightarrow> IHubSearchOptions \<Rightarrow> error + 'r IHubSearchResponse option" where
  "hubSearchItems services query options =
     (if (case aggFields options of None \<Rightarrow> False | Some fs \<Rightarrow> length fs \<noteq> 0)
      then searchOgcAggregations query options
      else searchOgcItems services query options)"

section \<open>Content records (content.ts)\<close>

text \<open>
  A \<open>Date\<close> object, as \<open>new Date(v)\<close> made it; and a value read from an object literal by
  key: the value of an own property (undefined when the literal has none), or, for a key
  that names a member of \<open>Object.prototype\<close>, that inherited member.
\<close>

datatype jsdate = NewDate json

datatype member = Value json | Inherited string

text \<open>
  \<open>IHubContent\<close>, with the members content.ts reads or writes. \<open>data\<close>, \<open>metadata\<close> and
  \<open>layer\<close> hold JSON (undefined when absent); \<open>orgId\<close> and \<open>typeKeywords\<close> are optional.
\<close>

record IHubContent =
  content_id :: string
  owner :: string
  content_type :: string
  typeKeywords :: "string list option"
  hubType :: string
  content_data :: json
  orgId :: "string option"
  metadata :: json
  layer :: json
  updateFrequency :: member
  updatedDate :: jsdate
  updatedDateSource :: string
  publishedDate :: jsdate
  publishedDateSource :: string

text \<open>
  Modelled from the spec: \<open>includes\<close>, \<open>cloneObject\<close> and \<open>getProp\<close> are imported from
  hub-common and their source is not part of src. \<open>includes\<close> tells whether an array holds a
  value. \<open>cloneObject\<close> returns a clone: a new object with the contents of its argument
  (as a value, the argument; the allocation is modelled in the section on the store).
  \<open>getProp\<close> is the path lookup: it walks the dot-separated path from the object, each step
  reading a property of the previous value when that is truthy and yielding undefined
  otherwise. On a content record it is modelled for the paths through the JSON members
  \<open>metadata\<close>, \<open>layer\<close> and \<open>data\<close>; content.ts reads below the first two only.
\<close>

definition hub_includes :: "'a list \<Rightarrow> 'a \<Rightarrow> bool" where
  "hub_includes xs x = (x \<in> set xs)"

definition cloneObject :: "'a \<Rightarrow> 'a" where
  "cloneObject obj = obj"

fun split_on :: "char \<Rightarrow> string \<Rightarrow> string \<Rightarrow> string list" where
  "split_on sep cur [] = [cur]"
| "split_on sep cur (c # cs) =
     (if c = sep then cur # split_on sep [] cs else split_on sep (cur @ [c]) cs)"

fun getPath :: "json \<Rightarrow> string list \<Rightarrow> json" where
  "getPath prev [] = prev"
| "getPath prev (seg # rest) = getPath (if truthy prev then js_prop prev seg else JUndefined) rest"

definition rootProperty :: "IHubContent \<Rightarrow> string \<Rightarrow> json" where
  "rootProperty obj seg =
     (if seg = ''metadata'' then metadata obj
      else if seg = ''layer'' then layer obj
      else if seg = ''data'' then content_data obj
      else JUndefined)"

definition getProp :: "IHubContent \<Rightarrow> string \<Rightarrow> json" where
  "getProp obj path =
     (case split_on CHR ''.'' [] path of
        [] \<Rightarrow> JUndefined
      | seg # rest \<Rightarrow> getPath (rootProperty obj seg) rest)"

subsection \<open>Deciding what to fetch\<close>

definition truthy_string :: "string option \<Rightarrow> bool" where
  "truthy_string s = (case s of None \<Rightarrow> False | Some t \<Rightarrow> t \<noteq> [])"

definition shouldFetchData :: "string \<Rightarrow> bool" where
  "shouldFetchData hubType' = hub_includes [''template'', ''solution''] hubType'"

definition isHubCreatedContent :: "IHubContent \<Rightarrow> bool" where
  "isHubCreatedContent content =
     (let hubTypeKeywords = [''Enterprise Sites'', ''ArcGIS Hub''];
          contentTypeKeywords = (case typeKeywords content of None \<Rightarrow> [] | Some ks \<Rightarrow> ks)
      in content_type content = ''Web Map''
         \<and> list_ex (\<lambda>typeKeyword. typeKeyword \<in> set hubTypeKeywords) contentTypeKeywords)"

definition shouldFetchOrgId :: "IHubContent \<Rightarrow> bool" where
  "shouldFetchOrgId content = (\<not> truthy_string (orgId content) \<and> isHubCreatedContent content)"

subsection \<open>The metadata paths and the dates\<close>

datatype IMetadataPaths_key = Key_updateFrequency | Key_reviseDate | Key_pubDate | Key_createDate

datatype UpdateFrequency =
    Continual | Daily | Weekly | Fortnightly | Monthly | Quarterly | Biannually
  | Annually | AsNeeded | Irregular | NotPlanned | Unknown | Semimonthly

fun UpdateFrequency_string :: "UpdateFrequency \<Rightarrow> string" where
  "UpdateFrequency_string Continual = ''continual''"
| "UpdateFrequency_string Daily = ''daily''"
| "UpdateFrequency_string Weekly = ''weekly''"
| "UpdateFrequency_string Fortnightly = ''fortnightly''"
| "UpdateFrequency_string Monthly = ''monthly''"
| "UpdateFrequency_string Quarterly = ''quarterly''"
| "UpdateFrequency_string Biannually = ''biannually''"
| "UpdateFrequency_string Annually = ''annually''"
| "UpdateFrequency_string AsNeeded = ''as-needed''"
| "UpdateFrequency_string Irregular = ''irregular''"
| "UpdateFrequency_string NotPlanned = ''not-planned''"
| "UpdateFrequency_string Unknown = ''unknown''"
| "UpdateFrequency_string Semimonthly = ''semimonthly''"

fun getMetadataPath :: "IMetadataPaths_key \<Rightarrow> string" where
  "getMetadataPath Key_updateFrequency =
     ''metadata.metadata.dataIdInfo.resMaint.maintFreq.MaintFreqCd.@_value''"
| "getMetadataPath Key_reviseDate = ''metadata.metadata.dataIdInfo.idCitation.date.reviseDate''"
| "getMetadataPath Key_pubDate = ''metadata.metadata.dataIdInfo.idCitation.date.pubDate''"
| "getMetadataPath Key_createDate = ''metadata.metadata.dataIdInfo.idCitation.date.createDate''"

text \<open>\<open>path && getProp(content, path)\<close>.\<close>

definition getValueFromMetadata :: "IHubContent \<Rightarrow> IMetadataPaths_key \<Rightarrow> json" where
  "getValueFromMetadata content identifier =
     (let path = getMetadataPath identifier
      in if path = [] then JStr path else getProp content path)"

text \<open>
  \<open>updateFrequencyMap[key]\<close>: the thirteen entries of the literal; for any other key the
  member of \<open>Object.prototype\<close> of that name, if there is one, and undefined otherwise.
\<close>

definition updateFrequencyEntries :: "(string \<times> UpdateFrequency) list" where
  "updateFrequencyEntries =
     [(''001'', Continual), (''002'', Daily), (''003'', Weekly), (''004'', Fortnightly),
      (''005'', Monthly), (''006'', Quarterly), (''007'', Biannually), (''008'', Annually),
      (''009'', AsNeeded), (''010'', Irregular), (''011'', NotPlanned), (''012'', Unknown),
      (''013'', Semimonthly)]"

definition objectPrototypeMembers :: "string list" where
  "objectPrototypeMembers =
     [''constructor'', ''hasOwnProperty'', ''isPrototypeOf'', ''propertyIsEnumerable'',
      ''toLocaleString'', ''toString'', ''valueOf'', ''__proto__'', ''__defineGetter__'',
      ''__defineSetter__'', ''__lookupGetter__'', ''__lookupSetter__'']"

definition updateFrequencyMap :: "string \<Rightarrow> member" where
  "updateFrequencyMap k =
     (case map_of updateFrequencyEntries k of
        Some frequency \<Rightarrow> Value (JStr (UpdateFrequency_string frequency))
      | None \<Rightarrow> if k \<in> set objectPrototypeMembers then Inherited k else Value JUndefined)"

text \<open>
  \<open>_enrichDates\<close> works on \<open>newContent\<close>, the clone, in three blocks, each a definition here
  taking the clone as the block finds it and giving it as the block leaves it: the update
  frequency, the updated date with its source, the published date with its source.
\<close>

definition enrichUpdateFrequency :: "IHubContent \<Rightarrow> IHubContent" where
  "enrichUpdateFrequency newContent =
     (let updatedFrequencyValue = getValueFromMetadata newContent Key_updateFrequency
      in if truthy updatedFrequencyValue
         then newContent\<lparr>updateFrequency := updateFrequencyMap (ToString updatedFrequencyValue)\<rparr>
         else newContent)"

definition enrichUpdatedDate :: "IHubContent \<Rightarrow> IHubContent" where
  "enrichUpdatedDate newContent =
     (let reviseDate = getValueFromMetadata newContent Key_reviseDate;
          lastEditDate = getProp newContent ''layer.editingInfo.lastEditDate''
      in if truthy reviseDate
         then newContent\<lparr>updatedDate := NewDate reviseDate,
                          updatedDateSource := getMetadataPath Key_reviseDate\<rparr>
         else if truthy lastEditDate
         then newContent\<lparr>updatedDate := NewDate lastEditDate,
                          updatedDateSource := ''layer.editingInfo.lastEditDate''\<rparr>
         else newContent)"

definition enrichPublishedDate :: "IHubContent \<Rightarrow> IHubContent" where
  "enrichPublishedDate newContent =
     (let pubDate = getValueFromMetadata newContent Key_pubDate;
          createDate = getValueFromMetadata newContent Key_createDate
      in if truthy pubDate
         then newContent\<lparr>publishedDate := NewDate pubDate,
                          publishedDateSource := getMetadataPath Key_pubDate\<rparr>
         else if truthy createDate
         then newContent\<lparr>publishedDate := NewDate createDate,
                          publishedDateSource := getMetadataPath Key_createDate\<rparr>
         else newContent)"

definition enrichDates :: "IHubContent \<Rightarrow> IHubContent" where
  "enrichDates content =
     (let newContent = cloneObject content
      in enrichPublishedDate (enrichUpdatedDate (enrichUpdateFrequency newContent)))"

subsection \<open>The store: objects by reference\<close>

text \<open>
  To tell a clone from its original, objects live in a store and are passed by address; the
  store is the list of the objects allocated so far, an address an index into it.
  \<open>cloneObject\<close> allocates: the clone is a new object at the next address. The three
  blocks of \<open>_enrichDates\<close> are the same statements as above, reading the object at the
  address \<open>newContent\<close> and assigning to its members through that address.
\<close>

type_synonym store = "IHubContent list"

definition cloneObject_store :: "store \<Rightarrow> nat \<Rightarrow> nat \<times> store" where
  "cloneObject_store h obj = (length h, h @ [cloneObject (h ! obj)])"

definition enrichUpdateFrequency_store :: "store \<Rightarrow> nat \<Rightarrow> store" where
  "enrichUpdateFrequency_store h newContent =
     (let updatedFrequencyValue = getValueFromMetadata (h ! newContent) Key_updateFrequency
      in if truthy updatedFrequencyValue
         then h[newContent := (h ! newContent)
                  \<lparr>updateFrequency := updateFrequencyMap (ToString updatedFrequencyValue)\<rparr>]
         else h)"

definition enrichUpdatedDate_store :: "store \<Rightarrow> nat \<Rightarrow> store" where
  "enrichUpdatedDate_store h newContent =
     (let reviseDate = getValueFromMetadata (h ! newContent) Key_reviseDate;
          lastEditDate = getProp (h ! newContent) ''layer.editingInfo.lastEditDate''
      in if truthy reviseDate
         then h[newContent := (h ! newContent)
                  \<lparr>updatedDate := NewDate reviseDate,
                    updatedDateSource := getMetadataPath Key_reviseDate\<rparr>]
         else if truthy lastEditDate
         then h[newContent := (h ! newContent)
                  \<lparr>updatedDate := NewDate lastEditDate,
                    updatedDateSource := ''layer.editingInfo.lastEditDate''\<rparr>]
         else h)"

definition enrichPublishedDate_store :: "store \<Rightarrow> nat \<Rightarrow> store" where
  "enrichPublishedDate_store h newContent =
     (let pubDate = getValueFromMetadata (h ! newContent) Key_pubDate;
          createDate = getValueFromMetadata (h ! newContent) Key_createDate
      in if truthy pubDate
         then h[newContent := (h ! newContent)
                  \<lparr>publishedDate := NewDate pubDate,
                    publishedDateSource := getMetadataPath Key_pubDate\<rparr>]
         else if truthy createDate
         then h[newContent := (h ! newContent)
                  \<lparr>publishedDate := NewDate createDate,
                    publishedDateSource := getMetadataPath Key_createDate\<rparr>]
         else h)"

definition enrichDates_store :: "store \<Rightarrow> nat \<Rightarrow> nat \<times> store" where
  "enrichDates_store h content =
     (let (newContent, h1) = cloneObject_store h content;
          h2 = enrichUpdateFrequency_store h1 newContent;
          h3 = enrichUpdatedDate_store h2 newContent;
          h4 = enrichPublishedDate_store h3 newContent
      in (newContent, h4))"

subsection \<open>Fetching and enriching content\<close>

text \<open>
  \<open>IGetContentOptions\<close> with the member this file reads; the \<open>options\<close> arguments are
  optional, so they are \<open>None\<close> when left out.
\<close>

record IGetContentOptions =
  isPortal :: bool

text \<open>
  What content.ts calls outside itself: \<open>getContentFromHub\<close> (hub.ts),
  \<open>getContentFromPortal\<close> and \<open>_fetchContentProperties\<close> (portal.ts), \<open>isSlug\<close> and the
  \<open>itemId\<close> of \<open>parseDatasetId\<close> (slugs.ts), and \<open>getUser\<close> and \<open>getItemData\<close> of the REST
  client. Each promise is the value it settles to: \<open>Inl\<close> a rejection, \<open>Inr\<close> the result.
\<close>

type_synonym ContentPropertyRequest =
  "IHubContent \<Rightarrow> IGetContentOptions option \<Rightarrow> error + json"

record ContentServices =
  getContentFromHub :: "string \<Rightarrow> IGetContentOptions option \<Rightarrow> error + IHubContent"
  getContentFromPortal :: "string \<Rightarrow> IGetContentOptions option \<Rightarrow> error + IHubContent"
  fetchContentProperties ::
    "(string \<times> ContentPropertyRequest) list \<Rightarrow> IHubContent \<Rightarrow> IGetContentOptions option
      \<Rightarrow> error + IHubContent"
  isSlug :: "string \<Rightarrow> bool"
  parseDatasetId_itemId :: "string \<Rightarrow> string"
  getUser :: "string \<Rightarrow> IGetContentOptions option \<Rightarrow> error + json"
  getItemData :: "string \<Rightarrow> IGetContentOptions option \<Rightarrow> error + json"

text \<open>
  The calls made to the content services, in order, each with its arguments: a function
  of this section returns them beside the value its promise settles to.
\<close>

datatype ContentCall =
    CallGetContentFromHub string "IGetContentOptions option"
  | CallGetContentFromPortal string "IGetContentOptions option"
  | CallFetchContentProperties
      "(string \<times> ContentPropertyRequest) list" IHubContent "IGetContentOptions option"

definition getOwnerOrgId :: "ContentServices \<Rightarrow> ContentPropertyRequest" where
  "getOwnerOrgId services content requestOptions =
     (case getUser services (owner content) requestOptions of
        Inl e \<Rightarrow> Inl e
      | Inr user \<Rightarrow> Inr (js_prop user ''orgId''))"

definition getContentData :: "ContentServices \<Rightarrow> ContentPropertyRequest" where
  "getContentData services content requestOptions =
     getItemData services (content_id content) requestOptions"

text \<open>
  \<open>propertiesToFetch\<close> as \<open>enrichContent\<close> fills it: the keys in the order of assignment,
  each with the function that fetches the property.
\<close>

definition propertiesToFetch :: "ContentServices \<Rightarrow> IHubContent \<Rightarrow> (string \<times> ContentPropertyRequest) list" where
  "propertiesToFetch services content =
     (if \<not> truthy (content_data content) \<and> shouldFetchData (hubType content)
      then [(''data'', getContentData services)] else [])
     @ (if shouldFetchOrgId content then [(''orgId'', getOwnerOrgId services)] else [])"

definition enrichContent ::
  "ContentServices \<Rightarrow> IHubContent \<Rightarrow> IGetContentOptions option
    \<Rightarrow> ContentCall list \<times> (error + IHubContent)" where
  "enrichContent services content options =
     (let requests = propertiesToFetch services content;
          (calls, fetched) =
            (if length requests = 0 then ([], Inr content)
             else ([CallFetchContentProperties requests content options],
                   fetchContentProperties services requests content options))
      in (calls, case fetched of Inl e \<Rightarrow> Inl e | Inr c \<Rightarrow> Inr (enrichDates c)))"

definition getContentById ::
  "ContentServices \<Rightarrow> string \<Rightarrow> IGetContentOptions option
    \<Rightarrow> ContentCall list \<times> (error + IHubContent)" where
  "getContentById services identifier options =
     (let (calls, getContentPromise) =
        (if (case options of None \<Rightarrow> False | Some opts \<Rightarrow> isPortal opts)
         then (let itemId = parseDatasetId_itemId services identifier
               in ([CallGetContentFromPortal itemId options],
                   getContentFromPortal services itemId options))
         else (case getContentFromHub services identifier options of
                 Inr content \<Rightarrow> ([CallGetContentFromHub identifier options], Inr content)
               | Inl e \<Rightarrow>
                   if \<not> isSlug services identifier
                   then ([CallGetContentFromHub identifier options,
                          CallGetContentFromPortal identifier options],
                         getContentFromPortal services identifier options)
                   else ([CallGetContentFromHub identifier options], Inl e)))
      in case getContentPromise of
           Inl e \<Rightarrow> (calls, Inl e)
         | Inr content \<Rightarrow>
             (let (more_calls, enriched) = enrichContent services content options
              in (calls @ more_calls, enriched)))"

definition isPortalCall :: "ContentCall \<Rightarrow> bool" where
  "isPortalCall c = (case c of CallGetContentFromPortal i opts \<Rightarrow> True | _ \<Rightarrow> False)"

text \<open>
  The property requests handed to \<open>_fetchContentProperties\<close> in a list of calls: each
  key with the function that fetches it.
\<close>

definition requestedProperties :: "ContentCall list \<Rightarrow> (string \<times> ContentPropertyRequest) list" where
  "requestedProperties calls =
     concat (map (\<lambda>c. case c of
                        CallFetchContentProperties requests content opts \<Rightarrow> requests
                      | _ \<Rightarrow> []) calls)"

subsection \<open>Sample records\<close>

text \<open>
  A web map created by Hub, with no organisation id and no data, whose metadata gives a
  maintenance frequency code and a publication date and whose layer has a last edit date;
  and a template whose data and organisation id are present.
\<close>

definition sampleWebMap :: IHubContent where
  "sampleWebMap =
     \<lparr>content_id = ''7a153563b0c74f7eb2b3eae8a66f2fbb'',
      owner = ''jdoe'',
      content_type = ''Web Map'',
      typeKeywords = Some [''Map'', ''ArcGIS Hub''],
      hubType = ''map'',
      content_data = JUndefined,
      orgId = None,
      metadata =
        JObj [(''metadata'',
          JObj [(''dataIdInfo'',
            JObj [(''idCitation'', JObj [(''date'', JObj [(''pubDate'', JStr ''2019-05-01'')])]),
                  (''resMaint'',
                   JObj [(''maintFreq'', JObj [(''MaintFreqCd'', JObj [(''@_value'', JStr ''003'')])])])])])],
      layer = JObj [(''editingInfo'', JObj [(''lastEditDate'', JNum 1557000000000)])],
      updateFrequency = Value JUndefined,
      updatedDate = NewDate (JNum 1556000000000),
      updatedDateSource = ''item.modified'',
      publishedDate = NewDate (JNum 1555000000000),
      publishedDateSource = ''item.created''\<rparr>"

definition sampleTemplate :: IHubContent where
  "sampleTemplate =
     \<lparr>content_id = ''3ef0a1c2d4b54e6f8a7b9c0d1e2f3a4b'',
      owner = ''jdoe'',
      content_type = ''Hub Initiative Template'',
      typeKeywords = Some [''Hub''],
      hubType = ''template'',
      content_data = JObj [(''values'', JObj [])],
      orgId = Some ''Xj56SBi2udA78cC9'',
      metadata = JUndefined,
      layer = JUndefined,
      updateFrequency = Value JUndefined,
      updatedDate = NewDate (JNum 1556000000000),
      updatedDateSource = ''item.modified'',
      publishedDate = NewDate (JNum 1555000000000),
      publishedDateSource = ''item.created''\<rparr>"

text \<open>
  Sample services: the Hub index knows no dataset, the portal has the web map under every
  id, a slug is an identifier holding a colon, and the property fetch resolves to the
  content it was given.
\<close>

definition sampleServices :: ContentServices where
  "sampleServices =
     \<lparr>getContentFromHub = (\<lambda>identifier opts. Inl (Rejected ''not found'')),
      getContentFromPortal = (\<lambda>identifier opts. Inr sampleWebMap),
      fetchContentProperties = (\<lambda>requests content opts. Inr content),
      isSlug = (\<lambda>identifier. CHR '':'' \<in> set identifier),
      parseDatasetId_itemId = (\<lambda>identifier. takeWhile (\<lambda>c. c \<noteq> CHR ''_'') identifier),
      getUser = (\<lambda>username opts. Inr (JObj [(''orgId'', JStr ''Xj56SBi2udA78cC9'')])),
      getItemData = (\<lambda>itemId opts. Inr (JObj []))\<rparr>"

section \<open>The UI schema of a followers group (unnamed part 000)\<close>

text \<open>
  \<open>EntityEditorOptions\<close>, read as an \<open>IHubGroup\<close>: the builder reads its optional flag
  \<open>isSharedUpdate\<close>, \<open>buildDefaults\<close> its \<open>name\<close>; the other members of the entity are the
  extension of the record. \<open>UiSchemaRuleEffects\<close> is an imported enumeration, of which
  the builder uses two members; the values they stand for are not in this file, so the
  builder takes them as the parameter \<open>effects\<close>. The context argument is not used.
\<close>

record EntityEditorOptions =
  name :: string
  isSharedUpdate :: "bool option"

datatype UiSchemaRuleEffects = DISABLE | HIDE

definition optionalBool :: "bool option \<Rightarrow> json" where
  "optionalBool b = (case b of None \<Rightarrow> JUndefined | Some v \<Rightarrow> JBool v)"

text \<open>
  The object literal \<open>buildUiSchema\<close> returns, as a JSON value of the scope and the entity.
\<close>

definition buildUiSchema ::
  "(UiSchemaRuleEffects \<Rightarrow> json) \<Rightarrow> string \<Rightarrow> 'a EntityEditorOptions_scheme \<Rightarrow> 'c \<Rightarrow> json" where
  "buildUiSchema effects i18nScope options context =
     (let entity = options in
      JObj [
        (''type'', JStr ''Layout''),
        (''elements'', JArr [
          JObj [
            (''type'', JStr ''Section''),
            (''options'', JObj [
              (''section'', JStr ''stepper''),
              (''scale'', JStr ''l'')]),
            (''elements'', JArr [
              JObj [
                (''type'', JStr ''Section''),
                (''labelKey'', JStr (i18nScope @ ''.sections.details.label'')),
                (''options'', JObj [
                  (''section'', JStr ''step'')]),
                (''elements'', JArr [
                  JObj [
                    (''labelKey'', JStr (i18nScope @ ''.fields.name.label'')),
                    (''scope'', JStr ''/properties/name''),
                    (''type'', JStr ''Control''),
                    (''options'', JObj [
                      (''messages'', JArr [
                        JObj [
                          (''type'', JStr ''ERROR''),
                          (''keyword'', JStr ''required''),
                          (''icon'', JBool True),
                          (''labelKey'', JStr (i18nScope @ ''.fields.name.requiredError''))],
                        JObj [
                          (''type'', JStr ''ERROR''),
                          (''keyword'', JStr ''maxLength''),
                          (''icon'', JBool True),
                          (''labelKey'', JStr (i18nScope @ ''.fields.name.maxLengthError''))]])])],
                  JObj [
                    (''labelKey'', JStr (i18nScope @ ''.fields.summary.label'')),
                    (''scope'', JStr ''/properties/summary''),
                    (''type'', JStr ''Control''),
                    (''options'', JObj [
                      (''control'', JStr ''hub-field-input-input''),
                      (''type'', JStr ''textarea''),
                      (''rows'', JNum 4),
                      (''messages'', JArr [
                        JObj [
                          (''type'', JStr ''ERROR''),
                          (''keyword'', JStr ''maxLength''),
                          (''icon'', JBool True),
                          (''labelKey'', JStr (i18nScope @ ''.fields.summary.maxLengthError''))]])])]])],
              JObj [
                (''type'', JStr ''Section''),
                (''labelKey'', JStr (i18nScope @ ''.sections.membershipAccess.label'')),
                (''options'', JObj [
                  (''section'', JStr ''step'')]),
                (''rule'', JObj [
                  (''effect'', effects DISABLE),
                  (''condition'', JObj [
                    (''scope'', JStr ''/properties/name''),
                    (''schema'', JObj [
                      (''const'', JStr '''')])])]),
                (''elements'', JArr [
                  JObj [
                    (''scope'', JStr ''/properties/isSharedUpdate''),
                    (''type'', JStr ''Control''),
                    (''rule'', JObj [
                      (''effect'', effects HIDE),
                      (''condition'', JObj [
                        (''scope'', JStr ''/properties/isSharedUpdate''),
                        (''schema'', JObj [
                          (''const'', JBool False)])])])],
                  JObj [
                    (''labelKey'', JStr (i18nScope @ ''.fields.membershipAccess.label'')),
                    (''scope'', JStr ''/properties/membershipAccess''),
                    (''type'', JStr ''Control''),
                    (''options'', JObj [
                      (''control'', JStr ''hub-field-input-radio''),
                      (''labels'', JArr [
                        JStr (''{{'' @ i18nScope @ ''.fields.membershipAccess.org.description:translate}}''),
                        JStr (''{{'' @ i18nScope @ ''.fields.membershipAccess.collab.description:translate}}''),
                        JStr (''{{'' @ i18nScope @ ''.fields.membershipAccess.createFollowers.any:translate}}'')]),
                      (''disabled'', JArr [
                        JBool False,
                        JBool False,
                        optionalBool (isSharedUpdate entity)])])],
                  JObj [
                    (''labelKey'', JStr (i18nScope @ ''.fields.contributeContent.label'')),
                    (''scope'', JStr ''/properties/isViewOnly''),
                    (''type'', JStr ''Control''),
                    (''options'', JObj [
                      (''control'', JStr ''hub-field-input-radio''),
                      (''labels'', JArr [
                        JStr (''{{'' @ i18nScope @ ''.fields.contributeContent.members.description:translate}}''),
                        JStr (''{{'' @ i18nScope @ ''.fields.contributeContent.createFollowers.admins:translate}}'')])])]])]])]])])"

text \<open>
  The call with its arguments by reference. The options, the context and whatever else
  exists live in a store, the list of the objects allocated so far, an address being an
  index into it. The function reads the entity at the address \<open>options\<close>, assigns to
  nothing, and evaluates the object literal, which allocates the document; its promise
  resolves to the address of the document. \<open>None\<close> stands for an \<open>options\<close> argument that is
  not an entity, which the types of the source exclude.
\<close>

datatype ('a, 'c) EditorObject =
    Options "'a EntityEditorOptions_scheme"
  | Context 'c
  | Schema json

definition buildUiSchema_store ::
  "(UiSchemaRuleEffects \<Rightarrow> json) \<Rightarrow> string \<Rightarrow> nat \<Rightarrow> nat \<Rightarrow> ('a, 'c) EditorObject list
    \<Rightarrow> (nat \<times> ('a, 'c) EditorObject list) option" where
  "buildUiSchema_store effects i18nScope options context h =
     (case h ! options of
        Options entity \<Rightarrow>
          Some (length h, h @ [Schema (buildUiSchema effects i18nScope entity (h ! context))])
      | _ \<Rightarrow> None)"

text \<open>
  For reading a document: the value found by following a path of member names and array
  positions, undefined where the path leaves the document.
\<close>

datatype step = Key string | Index nat

fun navigate :: "json \<Rightarrow> step list \<Rightarrow> json" where
  "navigate v [] = v"
| "navigate v (Key k # rest) = navigate (js_prop v k) rest"
| "navigate v (Index i # rest) =
     navigate (case v of JArr xs \<Rightarrow> if i < length xs then xs ! i else JUndefined | _ \<Rightarrow> JUndefined) rest"

text \<open>A sample store: a followers group being edited, and a context.\<close>

definition sampleEditorStore :: "(unit, string) EditorObject list" where
  "sampleEditorStore =
     [Context ''portal'',
      Options \<lparr>name = ''Followers'', isSharedUpdate = Some False\<rparr>]"

section \<open>Event filters (unnamed part 000, processFilters)\<close>

text \<open>
  \<open>Partial<GetEventsParams>\<close>: every member is optional, \<open>None\<close> until it is assigned.
  \<open>title\<close> and \<open>orgId\<close> (here \<open>events_orgId\<close>) receive a predicate value as it is; the
  other members receive strings.
\<close>

record GetEventsParams =
  access :: "string option"
  canEdit :: "string option"
  entityIds :: "string option"
  entityTypes :: "string option"
  eventIds :: "string option"
  title :: "json option"
  events_orgId :: "json option"
  categories :: "string option"
  tags :: "string option"
  sharedToGroups :: "string option"
  readGroups :: "string option"
  editGroups :: "string option"
  withoutReadGroups :: "string option"
  withoutEditGroups :: "string option"
  attendanceTypes :: "string option"
  createdByIds :: "string option"
  status :: "string option"
  startDateTimeBefore :: "string option"
  startDateTimeAfter :: "string option"
  endDateTimeBefore :: "string option"
  endDateTimeAfter :: "string option"

definition noParams :: GetEventsParams where
  "noParams =
     \<lparr>access = None, canEdit = None, entityIds = None, entityTypes = None, eventIds = None,
      title = None, events_orgId = None, categories = None, tags = None, sharedToGroups = None,
      readGroups = None, editGroups = None, withoutReadGroups = None, withoutEditGroups = None,
      attendanceTypes = None, createdByIds = None, status = None, startDateTimeBefore = None,
      startDateTimeAfter = None, endDateTimeBefore = None, endDateTimeAfter = None\<rparr>"

text \<open>A group as \<open>searchGroups\<close> returns it, with the member read here.\<close>

record IGroup =
  group_id :: string

text \<open>
  What \<open>processFilters\<close> uses from outside the file, taken as parameters:
  \<open>getOptionalPredicateStringsByKey\<close> (a string, or undefined: \<open>None\<close>) and
  \<open>getPredicateValuesByKey\<close> (an array of values), whose sources are not in src;
  \<open>searchGroups\<close> of the REST client, given \<open>q\<close>, \<open>num\<close> and the request options and
  settling to the \<open>results\<close> or a rejection; \<open>isUpdateGroup\<close>;
  \<open>new Date(v).toISOString()\<close> as \<open>toISOString v\<close>, \<open>None\<close> when the date is invalid and
  the call throws a \<open>RangeError\<close>; and the clock, \<open>now i\<close> being what the \<open>i\<close>-th
  \<open>new Date().toISOString()\<close> of a call returns.
\<close>

record 'q FilterServices =
  getOptionalPredicateStringsByKey :: "IFilter list \<Rightarrow> string \<Rightarrow> string option"
  getPredicateValuesByKey :: "IFilter list \<Rightarrow> string \<Rightarrow> json list"
  searchGroups :: "string \<Rightarrow> nat \<Rightarrow> 'q \<Rightarrow> error + IGroup list"
  isUpdateGroup :: "IGroup \<Rightarrow> bool"
  toISOString :: "json \<Rightarrow> string option"
  now :: "nat \<Rightarrow> string"

text \<open>
  Modelled from the spec: the members \<open>PLANNED\<close> and \<open>CANCELED\<close> of \<open>EventStatus\<close> come from
  the generated events client, which is not in src; lower-cased and joined by a comma they
  are the default status \<open>planned,canceled\<close>.
\<close>

definition EventStatus_PLANNED :: string where
  "EventStatus_PLANNED = ''PLANNED''"

definition EventStatus_CANCELED :: string where
  "EventStatus_CANCELED = ''CANCELED''"

text \<open>\<open>toLowerCase\<close> on the letters A to Z.\<close>

definition toLowerCase :: "string \<Rightarrow> string" where
  "toLowerCase s =
     map (\<lambda>c. case map_of (zip ''ABCDEFGHIJKLMNOPQRSTUVWXYZ'' ''abcdefghijklmnopqrstuvwxyz'') c of
                Some l \<Rightarrow> l
              | None \<Rightarrow> c) s"

text \<open>\<open>s?.length\<close> is truthy for a string that is not empty.\<close>

definition hasLength :: "string option \<Rightarrow> bool" where
  "hasLength s = (case s of None \<Rightarrow> False | Some t \<Rightarrow> length t \<noteq> 0)"

text \<open>\<open>v.k\<close> where \<open>v\<close> may be null or undefined: reading a member of those throws.\<close>

definition js_member :: "json \<Rightarrow> string \<Rightarrow> error + json" where
  "js_member v k = (if v = JUndefined \<or> v = JNull then Inl TypeError else Inr (js_prop v k))"

definition newDateISO :: "'q FilterServices \<Rightarrow> json \<Rightarrow> error + string" where
  "newDateISO services v = (case toISOString services v of None \<Rightarrow> Inl RangeError | Some s \<Rightarrow> Inr s)"

text \<open>Sequencing: the next statement runs when the previous one has not thrown.\<close>

definition andThen :: "error + 'a \<Rightarrow> ('a \<Rightarrow> error + 'b) \<Rightarrow> error + 'b" where
  "andThen m f = (case m of Inl e \<Rightarrow> Inl e | Inr x \<Rightarrow> f x)"

text \<open>
  The statements of \<open>processFilters\<close>, in order, each taking \<open>processedFilters\<close> as it is
  and giving it back as the statement leaves it. First the members set from one predicate
  each: access, canEdit, entityIds, entityTypes, eventIds, title, orgId, categories, tags.
\<close>

definition setMembers ::
  "'q FilterServices \<Rightarrow> IFilter list \<Rightarrow> GetEventsParams \<Rightarrow> error + GetEventsParams" where
  "setMembers services filters' p0 =
     (let access' = getOptionalPredicateStringsByKey services filters' ''access'';
          p1 = (if hasLength access' then p0\<lparr>access := access'\<rparr> else p0);
          canEdit' = getPredicateValuesByKey services filters' ''canEdit''
      in andThen
           (if length canEdit' \<noteq> 0
            then (if hd canEdit' = JUndefined \<or> hd canEdit' = JNull then Inl TypeError
                  else Inr (p1\<lparr>canEdit := Some (ToString (hd canEdit'))\<rparr>))
            else Inr p1)
           (\<lambda>p2.
             let entityIds' = getOptionalPredicateStringsByKey services filters' ''entityId'';
                 p3 = (if hasLength entityIds' then p2\<lparr>entityIds := entityIds'\<rparr> else p2);
                 entityTypes' = getOptionalPredicateStringsByKey services filters' ''entityType'';
                 p4 = (if hasLength entityTypes' then p3\<lparr>entityTypes := entityTypes'\<rparr> else p3);
                 eventIds' = getOptionalPredicateStringsByKey services filters' ''id'';
                 p5 = (if hasLength eventIds' then p4\<lparr>eventIds := eventIds'\<rparr> else p4);
                 term' = getPredicateValuesByKey services filters' ''term'';
                 p6 = (if length term' \<noteq> 0 then p5\<lparr>title := Some (hd term')\<rparr> else p5);
                 orgId' = getPredicateValuesByKey services filters' ''orgId'';
                 p7 = (if length orgId' \<noteq> 0 then p6\<lparr>events_orgId := Some (hd orgId')\<rparr> else p6);
                 categories' = getOptionalPredicateStringsByKey services filters' ''categories'';
                 p8 = (if hasLength categories' then p7\<lparr>categories := categories'\<rparr> else p7);
                 tags' = getOptionalPredicateStringsByKey services filters' ''tags'';
                 p9 = (if hasLength tags' then p8\<lparr>tags := tags'\<rparr> else p8)
             in Inr p9))"

text \<open>The group: \<open>group\<close> before \<open>readGroupId\<close> and \<open>editGroupId\<close>.\<close>

definition setGroups :: "'q FilterServices \<Rightarrow> IFilter list \<Rightarrow> GetEventsParams \<Rightarrow> GetEventsParams" where
  "setGroups services filters' p0 =
     (let groupIds = getOptionalPredicateStringsByKey services filters' ''group''
      in if hasLength groupIds then p0\<lparr>sharedToGroups := groupIds\<rparr>
         else
           (let readGroupIds = getOptionalPredicateStringsByKey services filters' ''readGroupId'';
                p1 = (if hasLength readGroupIds then p0\<lparr>readGroups := readGroupIds\<rparr> else p0);
                editGroupIds = getOptionalPredicateStringsByKey services filters' ''editGroupId'';
                p2 = (if hasLength editGroupIds then p1\<lparr>editGroups := editGroupIds\<rparr> else p1)
            in p2))"

text \<open>
  The excluded groups: \<open>notGroup\<close>, resolved by a group search and split by
  \<open>isUpdateGroup\<close>, before \<open>notReadGroupId\<close> and \<open>notEditGroupId\<close>.
\<close>

definition setWithoutGroups ::
  "'q FilterServices \<Rightarrow> IFilter list \<Rightarrow> 'q \<Rightarrow> GetEventsParams \<Rightarrow> error + GetEventsParams" where
  "setWithoutGroups services filters' requestOptions p0 =
     (let notGroupIds = getPredicateValuesByKey services filters' ''notGroup''
      in if length notGroupIds \<noteq> 0
         then andThen
                (searchGroups services (''id:('' @ json_join '' OR '' notGroupIds @ '')'')
                   (length notGroupIds) requestOptions)
                (\<lambda>results.
                  let notReadGroupIds = map group_id (filter (\<lambda>g. \<not> isUpdateGroup services g) results);
                      notEditGroupIds = map group_id (filter (\<lambda>g. isUpdateGroup services g) results);
                      p1 = (if length notReadGroupIds \<noteq> 0
                            then p0\<lparr>withoutReadGroups := Some (join_strings '','' notReadGroupIds)\<rparr>
                            else p0);
                      p2 = (if length notEditGroupIds \<noteq> 0
                            then p1\<lparr>withoutEditGroups := Some (join_strings '','' notEditGroupIds)\<rparr>
                            else p1)
                  in Inr p2)
         else
           (let notReadGroupIds = getOptionalPredicateStringsByKey services filters' ''notReadGroupId'';
                p1 = (if hasLength notReadGroupIds then p0\<lparr>withoutReadGroups := notReadGroupIds\<rparr> else p0);
                notEditGroupIds = getOptionalPredicateStringsByKey services filters' ''notEditGroupId'';
                p2 = (if hasLength notEditGroupIds then p1\<lparr>withoutEditGroups := notEditGroupIds\<rparr> else p1)
            in Inr p2))"

text \<open>The attendance types, the owners, and the status with its default.\<close>

definition setStatus :: "'q FilterServices \<Rightarrow> IFilter list \<Rightarrow> GetEventsParams \<Rightarrow> GetEventsParams" where
  "setStatus services filters' p0 =
     (let attendanceType = getOptionalPredicateStringsByKey services filters' ''attendanceType'';
          p1 = (if hasLength attendanceType then p0\<lparr>attendanceTypes := attendanceType\<rparr> else p0);
          createdByIds' = getOptionalPredicateStringsByKey services filters' ''owner'';
          p2 = (if hasLength createdByIds' then p1\<lparr>createdByIds := createdByIds'\<rparr> else p1);
          status' = getOptionalPredicateStringsByKey services filters' ''status''
      in p2\<lparr>status :=
            (if hasLength status' then status'
             else Some (join_strings '','' (map toLowerCase [EventStatus_PLANNED, EventStatus_CANCELED])))\<rparr>)"

text \<open>
  The start dates: \<open>startDateRange\<close>, of which \<open>to\<close> and \<open>from\<close> are used when truthy,
  before \<open>startDateBefore\<close> and \<open>startDateAfter\<close>.
\<close>

definition setStartDates ::
  "'q FilterServices \<Rightarrow> IFilter list \<Rightarrow> GetEventsParams \<Rightarrow> error + GetEventsParams" where
  "setStartDates services filters' p0 =
     (let startDateRange = getPredicateValuesByKey services filters' ''startDateRange''
      in if length startDateRange \<noteq> 0
         then andThen (js_member (hd startDateRange) ''to'')
                (\<lambda>to.
                  andThen (if truthy to
                           then andThen (newDateISO services to)
                                  (\<lambda>iso. Inr (p0\<lparr>startDateTimeBefore := Some iso\<rparr>))
                           else Inr p0)
                    (\<lambda>p1.
                      andThen (js_member (hd startDateRange) ''from'')
                        (\<lambda>from.
                          if truthy from
                          then andThen (newDateISO services from)
                                 (\<lambda>iso. Inr (p1\<lparr>startDateTimeAfter := Some iso\<rparr>))
                          else Inr p1)))
         else
           (let startDateBefore = getPredicateValuesByKey services filters' ''startDateBefore''
            in andThen (if length startDateBefore \<noteq> 0
                        then andThen (newDateISO services (hd startDateBefore))
                               (\<lambda>iso. Inr (p0\<lparr>startDateTimeBefore := Some iso\<rparr>))
                        else Inr p0)
                 (\<lambda>p1.
                   let startDateAfter = getPredicateValuesByKey services filters' ''startDateAfter''
                   in if length startDateAfter \<noteq> 0
                      then andThen (newDateISO services (hd startDateAfter))
                             (\<lambda>iso. Inr (p1\<lparr>startDateTimeAfter := Some iso\<rparr>))
                      else Inr p1)))"

text \<open>The end dates, likewise.\<close>

definition setEndDates ::
  "'q FilterServices \<Rightarrow> IFilter list \<Rightarrow> GetEventsParams \<Rightarrow> error + GetEventsParams" where
  "setEndDates services filters' p0 =
     (let endDateRange = getPredicateValuesByKey services filters' ''endDateRange''
      in if length endDateRange \<noteq> 0
         then andThen (js_member (hd endDateRange) ''to'')
                (\<lambda>to.
                  andThen (if truthy to
                           then andThen (newDateISO services to)
                                  (\<lambda>iso. Inr (p0\<lparr>endDateTimeBefore := Some iso\<rparr>))
                           else Inr p0)
                    (\<lambda>p1.
                      andThen (js_member (hd endDateRange) ''from'')
                        (\<lambda>from.
                          if truthy from
                          then andThen (newDateISO services from)
                                 (\<lambda>iso. Inr (p1\<lparr>endDateTimeAfter := Some iso\<rparr>))
                          else Inr p1)))
         else
           (let endDateBefore = getPredicateValuesByKey services filters' ''endDateBefore''
            in andThen (if length endDateBefore \<noteq> 0
                        then andThen (newDateISO services (hd endDateBefore))
                               (\<lambda>iso. Inr (p0\<lparr>endDateTimeBefore := Some iso\<rparr>))
                        else Inr p0)
                 (\<lambda>p1.
                   let endDateAfter = getPredicateValuesByKey services filters' ''endDateAfter''
                   in if length endDateAfter \<noteq> 0
                      then andThen (newDateISO services (hd endDateAfter))
                             (\<lambda>iso. Inr (p1\<lparr>endDateTimeAfter := Some iso\<rparr>))
                      else Inr p1)))"

text \<open>
  The occurrences, each overriding dates with the time of the clock; \<open>i\<close> counts the
  readings of the clock made so far.
\<close>

fun applyOccurrences ::
  "'q FilterServices \<Rightarrow> json list \<Rightarrow> nat \<Rightarrow> GetEventsParams \<Rightarrow> GetEventsParams" where
  "applyOccurrences services [] i p = p"
| "applyOccurrences services (occ # rest) i p =
     (if occ = JStr ''upcoming''
      then applyOccurrences services rest (i + 1) (p\<lparr>startDateTimeAfter := Some (now services i)\<rparr>)
      else if occ = JStr ''past''
      then applyOccurrences services rest (i + 1) (p\<lparr>endDateTimeBefore := Some (now services i)\<rparr>)
      else if occ = JStr ''inProgress''
      then applyOccurrences services rest (i + 2)
             (p\<lparr>startDateTimeBefore := Some (now services i),
                endDateTimeAfter := Some (now services (i + 1))\<rparr>)
      else applyOccurrences services rest i p)"

text \<open>\<open>processFilters\<close>: what its promise settles to.\<close>

definition processFilters ::
  "'q FilterServices \<Rightarrow> IFilter list \<Rightarrow> 'q \<Rightarrow> error + GetEventsParams" where
  "processFilters services filters' requestOptions =
     andThen (setMembers services filters' noParams)
       (\<lambda>p1. andThen (setWithoutGroups services filters' requestOptions (setGroups services filters' p1))
         (\<lambda>p2. andThen (setStartDates services filters' (setStatus services filters' p2))
           (\<lambda>p3. andThen (setEndDates services filters' p3)
             (\<lambda>p4. Inr (applyOccurrences services
                          (getPredicateValuesByKey services filters' ''occurrence'') 0 p4)))))"

subsection \<open>Sample helpers\<close>

text \<open>
  Helpers for the examples: the values of a key are those of every predicate of every
  filter that has the key, in order; the optional string is those values joined by commas,
  undefined when there are none. The dates are given as ISO strings, valid when 24
  characters long; the clock stands at noon on 3 November 2026.
\<close>

definition sampleValuesByKey :: "IFilter list \<Rightarrow> string \<Rightarrow> json list" where
  "sampleValuesByKey fs key =
     concat (map (\<lambda>f. concat (map (\<lambda>p. map snd (filter (\<lambda>(k, v). k = key) p)) (predicates f))) fs)"

definition sampleFilterServices :: "unit FilterServices" where
  "sampleFilterServices =
     \<lparr>getOptionalPredicateStringsByKey =
        (\<lambda>fs key. if sampleValuesByKey fs key = [] then None
                   else Some (json_join '','' (sampleValuesByKey fs key))),
      getPredicateValuesByKey = sampleValuesByKey,
      searchGroups = (\<lambda>q n opts. Inr []),
      isUpdateGroup = (\<lambda>g. False),
      toISOString = (\<lambda>v. case v of JStr s \<Rightarrow> if length s = 24 then Some s else None | _ \<Rightarrow> None),
      now = (\<lambda>i. ''2026-11-03T12:00:00.000Z'')\<rparr>"

text \<open>
  Filters for the examples: one with \<open>access\<close>, \<open>term\<close> and \<open>startDateBefore\<close> predicates and
  no \<open>status\<close>; one with a \<open>startDateRange\<close> next to a \<open>startDateBefore\<close> and an
  \<open>endDateRange\<close> that has only \<open>from\<close>; and one with a \<open>startDateRange\<close> next to the
  occurrence \<open>upcoming\<close>.
\<close>

definition sampleStatusFilters :: "IFilter list" where
  "sampleStatusFilters =
     [\<lparr>operation = None,
       predicates = [[(''access'', JStr ''public''), (''term'', JStr ''picnic'')],
                     [(''startDateBefore'', JStr ''2026-06-30T00:00:00.000Z'')]]\<rparr>]"

definition sampleRangeFilters :: "IFilter list" where
  "sampleRangeFilters =
     [\<lparr>operation = None,
       predicates = [[(''startDateRange'', JObj [(''from'', JStr ''2026-01-01T00:00:00.000Z''),
                                               (''to'', JStr ''2026-12-31T00:00:00.000Z'')]),
                      (''startDateBefore'', JStr ''2026-06-30T00:00:00.000Z''),
                      (''endDateRange'', JObj [(''from'', JStr ''2026-02-01T00:00:00.000Z'')])]]\<rparr>]"

definition sampleUpcomingFilters :: "IFilter list" where
  "sampleUpcomingFilters =
     [\<lparr>operation = None,
       predicates = [[(''startDateRange'', JObj [(''from'', JStr ''2026-01-01T00:00:00.000Z''),
                                               (''to'', JStr ''2026-12-31T00:00:00.000Z'')]),
                      (''occurrence'', JStr ''upcoming'')]]\<rparr>]"

section \<open>Properties of the query strings\<close>

lemma join_strings_Cons_nonempty: "x \<noteq> [] \<Longrightarrow> join_strings sep (x # xs) \<noteq> []"
  by (cases xs) simp_all

lemma join_strings_pairs_empty:
  "(join_strings sep (map (\<lambda>(key, v). key @ ''='' @ f v) es) = []) = (es = [])"
proof (cases es)
  case Nil
  then show ?thesis by simp
next
  case (Cons e es')
  obtain k v where e: "e = (k, v)" by (cases e)
  have "join_strings sep ((k @ ''='' @ f v) # map (\<lambda>(key, v). key @ ''='' @ f v) es') \<noteq> []"
    by (rule join_strings_Cons_nonempty) simp
  with Cons e show ?thesis by simp
qed

lemma filter_truthy_empty:
  "(filter (\<lambda>(key, v). truthy v) es = []) = list_all (\<lambda>(key, v). \<not> truthy v) es"
  by (induction es) auto

lemma getQueryString_meets_spec: "getQueryString queryParams = getQueryString_spec queryParams"
  unfolding getQueryString_def getQueryString_spec_def Let_def
  by (simp only: join_strings_pairs_empty filter_truthy_empty split: if_splits) simp

lemma encoded_pairs_eq:
  "list_all unchangedByEncoding es \<Longrightarrow>
   map (\<lambda>(key, v). key @ ''='' @ encodeURIComponent (ToString v)) (filter (\<lambda>(key, v). truthy v) es)
   = map (\<lambda>(key, v). key @ ''='' @ ToString v) (filter (\<lambda>(key, v). truthy v) es)"
  by (induction es) (auto simp: unchangedByEncoding_def)

text \<open>
  C10. The two \<open>getQueryString\<close> implementations agree on every parameter object whose
  truthy values \<open>encodeURIComponent\<close> leaves unchanged: both give the empty string when no
  entry is truthy and otherwise \<open>?\<close> and the \<open>&\<close>-joined \<open>key=value\<close> pairs of the truthy
  entries in order. On an input holding the reserved character \<open>&\<close> they differ.
\<close>

theorem getQueryString_agree:
  "(list_all unchangedByEncoding queryParams \<longrightarrow>
      getQueryString queryParams = getQueryString_part_001 queryParams
      \<and> getQueryString queryParams = getQueryString_spec queryParams)
   \<and> getQueryString [(''q'', JStr ''a&b'')] \<noteq> getQueryString_part_001 [(''q'', JStr ''a&b'')]"
proof -
  have agree: "getQueryString queryParams = getQueryString_part_001 queryParams"
    if "list_all unchangedByEncoding queryParams"
    unfolding getQueryString_def getQueryString_part_001_def
    by (simp only: encoded_pairs_eq [OF that])
  have differ: "getQueryString [(''q'', JStr ''a&b'')] \<noteq> getQueryString_part_001 [(''q'', JStr ''a&b'')]"
    by (simp add: getQueryString_def getQueryString_part_001_def encodeURIComponent_def
        uriUnreserved_def percentEncode_def)
  from agree differ show ?thesis
    by (simp add: getQueryString_meets_spec)
qed

theorem getQueryString_agree_witness:
  "list_all unchangedByEncoding [(''token'', JStr ''abc''), (''limit'', JNum 10), (''startindex'', JUndefined)]
   \<and> getQueryString [(''token'', JStr ''abc''), (''limit'', JNum 10), (''startindex'', JUndefined)]
       = getQueryString_part_001 [(''token'', JStr ''abc''), (''limit'', JNum 10), (''startindex'', JUndefined)]
   \<and> getQueryString [(''token'', JStr ''abc''), (''limit'', JNum 10), (''startindex'', JUndefined)]
       = ''?token=abc&limit=10''"
proof -
  let ?qp = "[(''token'', JStr ''abc''), (''limit'', JNum 10), (''startindex'', JUndefined)]"
  have h: "list_all unchangedByEncoding ?qp"
    by (simp add: unchangedByEncoding_def encodeURIComponent_def uriUnreserved_def numberToString_def)
  have v: "getQueryString_spec ?qp = ''?token=abc&limit=10''"
    by (simp add: getQueryString_spec_def numberToString_def)
  have a: "getQueryString ?qp = getQueryString_part_001 ?qp"
    and b: "getQueryString ?qp = getQueryString_spec ?qp"
    using getQueryString_agree [of ?qp] h by blast+
  from h a b [unfolded v] show ?thesis by (intro conjI)
qed

section \<open>Properties of the filter compiler\<close>

lemma join_strings_Cons:
  "join_strings sep (x # ys) = (if ys = [] then x else x @ sep @ join_strings sep ys)"
  by (cases ys) simp_all

lemma join_strings_append:
  "join_strings sep (xs @ ys) =
     (if xs = [] then join_strings sep ys
      else if ys = [] then join_strings sep xs
      else join_strings sep xs @ sep @ join_strings sep ys)"
  by (induction sep xs rule: join_strings.induct) (auto simp: join_strings_Cons)

lemma join_strings_eq_Nil:
  "list_all (\<lambda>x. x \<noteq> []) xs \<Longrightarrow> (join_strings sep xs = []) = (xs = [])"
  by (cases xs) (auto simp: join_strings_Cons_nonempty)

lemma arrayItems_truthy: "arrayItems m = Some xs \<Longrightarrow> truthy m"
  by (cases m) (simp_all add: arrayItems_def)

lemma membershipSection_cases:
  "membershipSection field kw m =
     (if arrayOrFalsy m
      then Inr (case arrayItems m of Some xs \<Rightarrow> JStr (field @ kw @ json_join '', '' xs @ '')'') | None \<Rightarrow> m)
      else Inl TypeError)"
  by (auto simp: membershipSection_def arrayOrFalsy_def arrayItems_truthy split: option.splits)

lemma allSection_cases:
  "allSection field m =
     (if arrayOrFalsy m
      then Inr (case arrayItems m of
                  Some xs \<Rightarrow> JStr (join_strings '' AND '' (map (\<lambda>v. field @ ''='' @ ToString v) xs))
                | None \<Rightarrow> m)
      else Inl TypeError)"
  by (auto simp: allSection_def arrayOrFalsy_def arrayItems_truthy split: option.splits)

lemma join_all_empty:
  "(join_strings sep (map (\<lambda>v. field @ CHR ''='' # f v) xs) = []) = (xs = [])"
  by (cases xs) (auto simp: join_strings_Cons)

lemma object_section:
  assumes "arrayOrFalsy a" "arrayOrFalsy l" "arrayOrFalsy n"
  shows "json_join sep
           (filter truthy
              [case arrayItems a of Some xs \<Rightarrow> JStr (field @ k1 @ json_join '', '' xs @ '')'') | None \<Rightarrow> a,
               case arrayItems l of Some xs \<Rightarrow> JStr (join_strings sep (map (\<lambda>v. field @ ''='' @ ToString v) xs)) | None \<Rightarrow> l,
               case arrayItems n of Some xs \<Rightarrow> JStr (field @ k2 @ json_join '', '' xs @ '')'') | None \<Rightarrow> n])
         = join_strings sep
           ((case arrayItems a of Some xs \<Rightarrow> [field @ k1 @ json_join '', '' xs @ '')''] | None \<Rightarrow> [])
            @ (case arrayItems l of Some xs \<Rightarrow> map (\<lambda>x. field @ ''='' @ ToString x) xs | None \<Rightarrow> [])
            @ (case arrayItems n of Some xs \<Rightarrow> [field @ k2 @ json_join '', '' xs @ '')''] | None \<Rightarrow> []))"
  using assms
  by (auto simp: arrayOrFalsy_def json_join_def join_strings_append join_all_empty join_strings_Cons
      split: option.splits)

lemma formatSection_cases:
  "formatSection field v = (if matchArrays v then Inr (spec_section field v) else Inl TypeError)"
proof (cases "matchArrays v")
  case False
  then show ?thesis
    by (cases v) (auto simp: formatSection_def matchArrays_def membershipSection_cases allSection_cases)
next
  case True
  then show ?thesis
    by (cases v)
      (simp_all add: formatSection_def matchArrays_def spec_section_def membershipSection_cases
        allSection_cases object_section del: filter.simps)
qed

lemma collectSections_cases:
  "collectSections es acc =
     (if list_all (\<lambda>(field, v). matchArrays v) es
      then Inr (acc @ map (\<lambda>(field, v). spec_section field v) es) else Inl TypeError)"
  by (induction es acc rule: collectSections.induct) (simp_all add: formatSection_cases)

lemma formatPredicate_cases:
  "formatPredicate p = (if predicateArrays p then Inr (spec_formatPredicate p) else Inl TypeError)"
  by (simp add: formatPredicate_def predicateArrays_def spec_formatPredicate_def collectSections_cases)

lemma mapE_cases:
  "(\<And>x. f x = (if P x then Inr (g x) else Inl TypeError)) \<Longrightarrow>
   mapE f xs = (if list_all P xs then Inr (map g xs) else Inl TypeError)"
  by (induction xs) simp_all

lemma formatFilterBlock_cases:
  "formatFilterBlock f =
     (if list_all predicateArrays (predicates f) then Inr (spec_formatFilterBlock f) else Inl TypeError)"
  by (simp add: formatFilterBlock_def spec_formatFilterBlock_def mapE_cases [OF formatPredicate_cases])

text \<open>
  C2, as the code has it. \<open>getFilterQueryParam\<close> returns the filter blocks joined by \<open>AND\<close>,
  each block the parenthesised join of its predicates by the operation (\<open>OR\<close> when absent),
  each predicate the parenthesised \<open>AND\<close>-join of the sections of its truthy fields, on
  every query in which \<open>any\<close>, \<open>all\<close> and \<open>not\<close> are arrays wherever they are truthy. On
  every other query it throws a \<open>TypeError\<close>.
\<close>

theorem getFilterQueryParam_cases:
  "getFilterQueryParam query =
     (if queryArrays query then Inr (spec_getFilterQueryParam query) else Inl TypeError)"
  by (simp add: getFilterQueryParam_def spec_getFilterQueryParam_def queryArrays_def
      mapE_cases [OF formatFilterBlock_cases])

theorem getFilterQueryParam_cases_witness:
  "queryArrays
     \<lparr>filters =
        [\<lparr>operation = None,
          predicates =
            [[(''type'', JArr [JStr ''Web Map'', JStr ''Feature Service'']),
              (''tags'', JObj [(''any'', JArr [JStr ''a'', JStr ''b'']), (''all'', JArr [JStr ''c'', JStr ''d''])]),
              (''owner'', JStr ''me''), (''group'', JNull)],
             [(''q'', JStr ''water'')]]\<rparr>,
         \<lparr>operation = Some ''AND'', predicates = [[(''access'', JObj [(''not'', JArr [JStr ''private''])])]]\<rparr>]\<rparr>
   \<and> getFilterQueryParam
     \<lparr>filters =
        [\<lparr>operation = None,
          predicates =
            [[(''type'', JArr [JStr ''Web Map'', JStr ''Feature Service'']),
              (''tags'', JObj [(''any'', JArr [JStr ''a'', JStr ''b'']), (''all'', JArr [JStr ''c'', JStr ''d''])]),
              (''owner'', JStr ''me''), (''group'', JNull)],
             [(''q'', JStr ''water'')]]\<rparr>,
         \<lparr>operation = Some ''AND'', predicates = [[(''access'', JObj [(''not'', JArr [JStr ''private''])])]]\<rparr>]\<rparr>
     = Inr ''((type IN (Web Map, Feature Service) AND tags IN (a, b) AND tags=c AND tags=d AND owner=me) OR (q=water)) AND ((access NOT IN (private)))''"
proof -
  let ?q = "\<lparr>filters =
        [\<lparr>operation = None,
          predicates =
            [[(''type'', JArr [JStr ''Web Map'', JStr ''Feature Service'']),
              (''tags'', JObj [(''any'', JArr [JStr ''a'', JStr ''b'']), (''all'', JArr [JStr ''c'', JStr ''d''])]),
              (''owner'', JStr ''me''), (''group'', JNull)],
             [(''q'', JStr ''water'')]]\<rparr>,
         \<lparr>operation = Some ''AND'', predicates = [[(''access'', JObj [(''not'', JArr [JStr ''private''])])]]\<rparr>]\<rparr>"
  have h: "queryArrays ?q"
    by (simp add: queryArrays_def predicateArrays_def matchArrays_def arrayOrFalsy_def arrayItems_def)
  have v: "spec_getFilterQueryParam ?q
      = ''((type IN (Web Map, Feature Service) AND tags IN (a, b) AND tags=c AND tags=d AND owner=me) OR (q=water)) AND ((access NOT IN (private)))''"
    by (simp add: spec_getFilterQueryParam_def spec_formatFilterBlock_def spec_formatPredicate_def
        spec_section_def arrayItems_def json_join_def)
  have "getFilterQueryParam ?q = Inr (spec_getFilterQueryParam ?q)"
    using getFilterQueryParam_cases [of ?q] h by simp
  with h v show ?thesis by simp
qed

text \<open>
  C2 as stated fails: a field whose \<open>any\<close> is a string makes \<open>formatPredicate\<close> call \<open>join\<close>
  on it, and no string is returned.
\<close>

theorem getFilterQueryParam_string_any:
  "getFilterQueryParam
     \<lparr>filters = [\<lparr>operation = None, predicates = [[(''type'', JObj [(''any'', JStr ''Web Map'')])]]\<rparr>]\<rparr>
   = Inl TypeError"
  by (simp add: getFilterQueryParam_def formatFilterBlock_def formatPredicate_def formatSection_def
      membershipSection_def arrayItems_def)

section \<open>Properties of the item search\<close>

text \<open>
  C8. \<open>searchOgcAggregations\<close> resolves to null whatever its query and options are, so
  \<open>hubSearchItems\<close> resolves to null, and to no search response, on every call whose
  \<open>options.aggFields\<close> is a non-empty array.
\<close>

theorem hubSearchItems_aggFields_null:
  "searchOgcAggregations query options = (Inr None :: error + 'r IHubSearchResponse option)
   \<and> (aggFields options = Some fs \<and> fs \<noteq> [] \<longrightarrow>
        hubSearchItems services query options = (Inr None :: error + 'r IHubSearchResponse option))"
  by (simp add: searchOgcAggregations_def hubSearchItems_def)

theorem hubSearchItems_aggFields_null_witness:
  "aggFields \<lparr>aggFields = Some [''type'', ''tags''], api_url = ''https://hub.arcgis.com/api/search/v1'',
       num = JNum 10, start = JNum 1, requestOptions_authentication_token = JUndefined\<rparr>
     = Some [''type'', ''tags'']
   \<and> [''type'', ''tags''] \<noteq> []
   \<and> hubSearchItems
        \<lparr>fetch = (\<lambda>url. Inl (Rejected ''offline'')), itemToSearchResult = (\<lambda>item. Inr item)\<rparr>
        \<lparr>filters = [\<lparr>operation = None, predicates = [[(''type'', JStr ''Web Map'')]]\<rparr>]\<rparr>
        \<lparr>aggFields = Some [''type'', ''tags''], api_url = ''https://hub.arcgis.com/api/search/v1'',
          num = JNum 10, start = JNum 1, requestOptions_authentication_token = JUndefined\<rparr>
     = Inr None"
  using hubSearchItems_aggFields_null
    [of "\<lparr>filters = [\<lparr>operation = None, predicates = [[(''type'', JStr ''Web Map'')]]\<rparr>]\<rparr>"
        "\<lparr>aggFields = Some [''type'', ''tags''], api_url = ''https://hub.arcgis.com/api/search/v1'',
          num = JNum 10, start = JNum 1, requestOptions_authentication_token = JUndefined\<rparr>"
        "[''type'', ''tags'']"
        "\<lparr>fetch = (\<lambda>url. Inl (Rejected ''offline'')), itemToSearchResult = (\<lambda>item. Inr item)\<rparr>"]
  by simp

section \<open>Properties of the content functions\<close>

lemma getProp_updateFrequency:
  "getProp c (getMetadataPath Key_updateFrequency)
   = getPath (metadata c) [''metadata'', ''dataIdInfo'', ''resMaint'', ''maintFreq'', ''MaintFreqCd'', ''@_value'']"
  by (simp add: getProp_def rootProperty_def)

lemma getProp_reviseDate:
  "getProp c (getMetadataPath Key_reviseDate)
   = getPath (metadata c) [''metadata'', ''dataIdInfo'', ''idCitation'', ''date'', ''reviseDate'']"
  by (simp add: getProp_def rootProperty_def)

lemma getProp_pubDate:
  "getProp c (getMetadataPath Key_pubDate)
   = getPath (metadata c) [''metadata'', ''dataIdInfo'', ''idCitation'', ''date'', ''pubDate'']"
  by (simp add: getProp_def rootProperty_def)

lemma getProp_createDate:
  "getProp c (getMetadataPath Key_createDate)
   = getPath (metadata c) [''metadata'', ''dataIdInfo'', ''idCitation'', ''date'', ''createDate'']"
  by (simp add: getProp_def rootProperty_def)

lemma getProp_lastEditDate:
  "getProp c ''layer.editingInfo.lastEditDate'' = getPath (layer c) [''editingInfo'', ''lastEditDate'']"
  by (simp add: getProp_def rootProperty_def)

lemma getMetadataPath_nonempty: "getMetadataPath k \<noteq> []"
  by (cases k) simp_all

lemma getValueFromMetadata_getProp:
  "getValueFromMetadata c k = getProp c (getMetadataPath k)"
  by (simp add: getValueFromMetadata_def Let_def getMetadataPath_nonempty)

lemmas metadata_reads =
  getValueFromMetadata_getProp getProp_updateFrequency getProp_reviseDate getProp_pubDate
  getProp_createDate getProp_lastEditDate

lemma enrichUpdateFrequency_fields:
  "enrichUpdateFrequency x =
     x\<lparr>updateFrequency :=
        (if truthy (getPath (metadata x) [''metadata'', ''dataIdInfo'', ''resMaint'', ''maintFreq'', ''MaintFreqCd'', ''@_value''])
         then updateFrequencyMap (ToString (getPath (metadata x) [''metadata'', ''dataIdInfo'', ''resMaint'', ''maintFreq'', ''MaintFreqCd'', ''@_value'']))
         else updateFrequency x)\<rparr>"
  unfolding enrichUpdateFrequency_def Let_def metadata_reads
  by (simp del: getPath.simps)

lemma enrichUpdatedDate_fields:
  "enrichUpdatedDate x =
     x\<lparr>updatedDate :=
        (if truthy (getPath (metadata x) [''metadata'', ''dataIdInfo'', ''idCitation'', ''date'', ''reviseDate''])
         then NewDate (getPath (metadata x) [''metadata'', ''dataIdInfo'', ''idCitation'', ''date'', ''reviseDate''])
         else if truthy (getPath (layer x) [''editingInfo'', ''lastEditDate''])
         then NewDate (getPath (layer x) [''editingInfo'', ''lastEditDate''])
         else updatedDate x),
       updatedDateSource :=
        (if truthy (getPath (metadata x) [''metadata'', ''dataIdInfo'', ''idCitation'', ''date'', ''reviseDate''])
         then ''metadata.metadata.dataIdInfo.idCitation.date.reviseDate''
         else if truthy (getPath (layer x) [''editingInfo'', ''lastEditDate''])
         then ''layer.editingInfo.lastEditDate''
         else updatedDateSource x)\<rparr>"
  unfolding enrichUpdatedDate_def Let_def metadata_reads
  by (simp del: getPath.simps)

lemma enrichPublishedDate_fields:
  "enrichPublishedDate x =
     x\<lparr>publishedDate :=
        (if truthy (getPath (metadata x) [''metadata'', ''dataIdInfo'', ''idCitation'', ''date'', ''pubDate''])
         then NewDate (getPath (metadata x) [''metadata'', ''dataIdInfo'', ''idCitation'', ''date'', ''pubDate''])
         else if truthy (getPath (metadata x) [''metadata'', ''dataIdInfo'', ''idCitation'', ''date'', ''createDate''])
         then NewDate (getPath (metadata x) [''metadata'', ''dataIdInfo'', ''idCitation'', ''date'', ''createDate''])
         else publishedDate x),
       publishedDateSource :=
        (if truthy (getPath (metadata x) [''metadata'', ''dataIdInfo'', ''idCitation'', ''date'', ''pubDate''])
         then ''metadata.metadata.dataIdInfo.idCitation.date.pubDate''
         else if truthy (getPath (metadata x) [''metadata'', ''dataIdInfo'', ''idCitation'', ''date'', ''createDate''])
         then ''metadata.metadata.dataIdInfo.idCitation.date.createDate''
         else publishedDateSource x)\<rparr>"
  unfolding enrichPublishedDate_def Let_def metadata_reads
  by (simp del: getPath.simps)

lemma enrichDates_fields:
  "enrichDates c =
     (let code = getPath (metadata c) [''metadata'', ''dataIdInfo'', ''resMaint'', ''maintFreq'', ''MaintFreqCd'', ''@_value''];
          reviseDate = getPath (metadata c) [''metadata'', ''dataIdInfo'', ''idCitation'', ''date'', ''reviseDate''];
          lastEditDate = getPath (layer c) [''editingInfo'', ''lastEditDate''];
          pubDate = getPath (metadata c) [''metadata'', ''dataIdInfo'', ''idCitation'', ''date'', ''pubDate''];
          createDate = getPath (metadata c) [''metadata'', ''dataIdInfo'', ''idCitation'', ''date'', ''createDate'']
      in c\<lparr>updateFrequency := (if truthy code then updateFrequencyMap (ToString code) else updateFrequency c),
           updatedDate := (if truthy reviseDate then NewDate reviseDate
                           else if truthy lastEditDate then NewDate lastEditDate else updatedDate c),
           updatedDateSource := (if truthy reviseDate then ''metadata.metadata.dataIdInfo.idCitation.date.reviseDate''
                           else if truthy lastEditDate then ''layer.editingInfo.lastEditDate'' else updatedDateSource c),
           publishedDate := (if truthy pubDate then NewDate pubDate
                           else if truthy createDate then NewDate createDate else publishedDate c),
           publishedDateSource := (if truthy pubDate then ''metadata.metadata.dataIdInfo.idCitation.date.pubDate''
                           else if truthy createDate then ''metadata.metadata.dataIdInfo.idCitation.date.createDate''
                           else publishedDateSource c)\<rparr>)"
  unfolding enrichDates_def cloneObject_def Let_def
    enrichUpdateFrequency_fields enrichUpdatedDate_fields enrichPublishedDate_fields
  by (simp del: getPath.simps split del: if_split cong: if_cong)

text \<open>
  C5. \<open>_enrichDates\<close> changes five members and nothing else, by fixed precedence, reading
  the metadata through the path table; a value is present when it is truthy. \<open>updatedDate\<close>
  and \<open>updatedDateSource\<close> come from the metadata \<open>reviseDate\<close> when present, else from
  \<open>layer.editingInfo.lastEditDate\<close> when present, else stay; \<open>publishedDate\<close> and
  \<open>publishedDateSource\<close> come from the metadata \<open>pubDate\<close> when present, else from
  \<open>createDate\<close> when present, else stay; \<open>updateFrequency\<close> is set through the map from the
  \<open>maintFreq\<close> code when that is present and stays otherwise; and the map sends \<open>001\<close> to
  \<open>013\<close> to continual, daily, weekly and so on.
\<close>

theorem enrichDates_precedence:
  "enrichDates c =
     (let code = getPath (metadata c) [''metadata'', ''dataIdInfo'', ''resMaint'', ''maintFreq'', ''MaintFreqCd'', ''@_value''];
          reviseDate = getPath (metadata c) [''metadata'', ''dataIdInfo'', ''idCitation'', ''date'', ''reviseDate''];
          lastEditDate = getPath (layer c) [''editingInfo'', ''lastEditDate''];
          pubDate = getPath (metadata c) [''metadata'', ''dataIdInfo'', ''idCitation'', ''date'', ''pubDate''];
          createDate = getPath (metadata c) [''metadata'', ''dataIdInfo'', ''idCitation'', ''date'', ''createDate'']
      in c\<lparr>updateFrequency := (if truthy code then updateFrequencyMap (ToString code) else updateFrequency c),
           updatedDate := (if truthy reviseDate then NewDate reviseDate
                           else if truthy lastEditDate then NewDate lastEditDate else updatedDate c),
           updatedDateSource := (if truthy reviseDate then ''metadata.metadata.dataIdInfo.idCitation.date.reviseDate''
                           else if truthy lastEditDate then ''layer.editingInfo.lastEditDate'' else updatedDateSource c),
           publishedDate := (if truthy pubDate then NewDate pubDate
                           else if truthy createDate then NewDate createDate else publishedDate c),
           publishedDateSource := (if truthy pubDate then ''metadata.metadata.dataIdInfo.idCitation.date.pubDate''
                           else if truthy createDate then ''metadata.metadata.dataIdInfo.idCitation.date.createDate''
                           else publishedDateSource c)\<rparr>)
   \<and> map updateFrequencyMap
         [''001'', ''002'', ''003'', ''004'', ''005'', ''006'', ''007'', ''008'', ''009'', ''010'',
          ''011'', ''012'', ''013'']
       = map (\<lambda>s. Value (JStr s))
         [''continual'', ''daily'', ''weekly'', ''fortnightly'', ''monthly'', ''quarterly'',
          ''biannually'', ''annually'', ''as-needed'', ''irregular'', ''not-planned'', ''unknown'',
          ''semimonthly'']"
proof -
  have table: "map updateFrequencyMap
         [''001'', ''002'', ''003'', ''004'', ''005'', ''006'', ''007'', ''008'', ''009'', ''010'',
          ''011'', ''012'', ''013'']
       = map (\<lambda>s. Value (JStr s))
         [''continual'', ''daily'', ''weekly'', ''fortnightly'', ''monthly'', ''quarterly'',
          ''biannually'', ''annually'', ''as-needed'', ''irregular'', ''not-planned'', ''unknown'',
          ''semimonthly'']"
    by (simp add: updateFrequencyMap_def updateFrequencyEntries_def)
  show ?thesis
    by (rule conjI [OF enrichDates_fields table])
qed

text \<open>On the sample web map: weekly, the last edit date, the publication date.\<close>

lemma enrichDates_sampleWebMap:
  "enrichDates sampleWebMap =
     sampleWebMap
       \<lparr>updateFrequency := Value (JStr ''weekly''),
        updatedDate := NewDate (JNum 1557000000000),
        updatedDateSource := ''layer.editingInfo.lastEditDate'',
        publishedDate := NewDate (JStr ''2019-05-01''),
        publishedDateSource := ''metadata.metadata.dataIdInfo.idCitation.date.pubDate''\<rparr>"
  by (simp add: enrichDates_fields sampleWebMap_def updateFrequencyMap_def updateFrequencyEntries_def Let_def)

lemma enrichUpdateFrequency_store_eq:
  "n < length h \<Longrightarrow> enrichUpdateFrequency_store h n = h[n := enrichUpdateFrequency (h ! n)]"
  by (simp add: enrichUpdateFrequency_store_def enrichUpdateFrequency_def Let_def)

lemma enrichUpdatedDate_store_eq:
  "n < length h \<Longrightarrow> enrichUpdatedDate_store h n = h[n := enrichUpdatedDate (h ! n)]"
  by (simp add: enrichUpdatedDate_store_def enrichUpdatedDate_def Let_def del: getMetadataPath.simps)

lemma enrichPublishedDate_store_eq:
  "n < length h \<Longrightarrow> enrichPublishedDate_store h n = h[n := enrichPublishedDate (h ! n)]"
  by (simp add: enrichPublishedDate_store_def enrichPublishedDate_def Let_def del: getMetadataPath.simps)

lemma enrichDates_store_eq:
  "content < length h \<Longrightarrow> enrichDates_store h content = (length h, h @ [enrichDates (h ! content)])"
  by (simp add: enrichDates_store_def cloneObject_store_def enrichDates_def Let_def
      enrichUpdateFrequency_store_eq enrichUpdatedDate_store_eq enrichPublishedDate_store_eq
      nth_append)

text \<open>
  C7. \<open>_enrichDates\<close> never mutates its argument: called on the address of an object of
  the store, it returns a new address, every object the store held before the call, the
  argument among them, is as it was, and the enrichment is on the clone at the new address.
\<close>

theorem enrichDates_argument_unchanged:
  "content < length h \<Longrightarrow>
   (case enrichDates_store h content of
      (newContent, h') \<Rightarrow>
        newContent = length h \<and> newContent \<noteq> content
        \<and> take (length h) h' = h
        \<and> h' ! content = h ! content
        \<and> h' ! newContent = enrichDates (h ! content))"
  by (simp add: enrichDates_store_eq nth_append)

theorem enrichDates_argument_unchanged_witness:
  "(0::nat) < length [sampleWebMap]
   \<and> (case enrichDates_store [sampleWebMap] 0 of
        (newContent, h') \<Rightarrow>
          newContent = 1 \<and> h' ! 0 = sampleWebMap \<and> h' ! newContent = enrichDates sampleWebMap)
   \<and> updatedDate (enrichDates sampleWebMap) \<noteq> updatedDate sampleWebMap"
proof -
  have h: "(0::nat) < length [sampleWebMap]" by simp
  have changed: "updatedDate (enrichDates sampleWebMap) \<noteq> updatedDate sampleWebMap"
    by (simp add: enrichDates_sampleWebMap) (simp add: sampleWebMap_def)
  from enrichDates_argument_unchanged [OF h] h changed show ?thesis
    by (auto split: prod.splits)
qed

section \<open>Properties of fetching and enriching\<close>

lemma shouldFetchData_iff:
  "shouldFetchData t = (t = ''template'' \<or> t = ''solution'')"
  by (auto simp: shouldFetchData_def hub_includes_def)

lemma shouldFetchOrgId_iff:
  "shouldFetchOrgId content =
     (\<not> truthy_string (orgId content) \<and> content_type content = ''Web Map''
      \<and> (case typeKeywords content of
            None \<Rightarrow> False
          | Some ks \<Rightarrow> list_ex (\<lambda>k. k = ''Enterprise Sites'' \<or> k = ''ArcGIS Hub'') ks))"
  by (auto simp: shouldFetchOrgId_def isHubCreatedContent_def Let_def list_ex_iff split: option.splits)

lemma propertiesToFetch_empty:
  "(propertiesToFetch services content = []) =
     (\<not> (\<not> truthy (content_data content) \<and> shouldFetchData (hubType content))
      \<and> \<not> shouldFetchOrgId content)"
  by (simp add: propertiesToFetch_def)

lemma requestedProperties_enrichContent:
  "requestedProperties (fst (enrichContent services content options))
   = propertiesToFetch services content"
  by (simp add: enrichContent_def requestedProperties_def Let_def split: prod.splits)

lemma enrichContent_result:
  "enrichContent services content options =
     (if propertiesToFetch services content = [] then ([], Inr (enrichDates content))
      else ([CallFetchContentProperties (propertiesToFetch services content) content options],
            case fetchContentProperties services (propertiesToFetch services content) content options of
              Inl e \<Rightarrow> Inl e
            | Inr c \<Rightarrow> Inr (enrichDates c)))"
  by (simp add: enrichContent_def Let_def)

text \<open>
  C4. A property is fetched by the function \<open>enrichContent\<close> binds to its key and hands
  to \<open>_fetchContentProperties\<close>; a member is absent when it is falsy. With \<open>needsData\<close>
  for: \<open>content.data\<close> is absent and the hub type is template or solution, and
  \<open>needsOrgId\<close> for: \<open>content.orgId\<close> is absent and the content is a web map with the type
  keyword Enterprise Sites or ArcGIS Hub, the requests handed over are exactly \<open>data\<close>
  bound to \<open>getContentData\<close> when \<open>needsData\<close>, followed by \<open>orgId\<close> bound to
  \<open>getOwnerOrgId\<close> when \<open>needsOrgId\<close>; \<open>getContentData\<close> is \<open>getItemData\<close> on the id of the
  content, and \<open>getOwnerOrgId\<close> is \<open>getUser\<close> on its owner, giving the \<open>orgId\<close> of the user.
  When neither holds nothing is called and the content goes to \<open>_enrichDates\<close> as it is.
  In every case \<open>_enrichDates\<close> is applied to what the fetch resolves to (a rejected fetch
  has no result and is passed on).
\<close>

theorem enrichContent_fetches:
  "(let needsData = (\<not> truthy (content_data content)
                     \<and> (hubType content = ''template'' \<or> hubType content = ''solution''));
        needsOrgId = (\<not> truthy_string (orgId content) \<and> content_type content = ''Web Map''
                      \<and> (case typeKeywords content of
                            None \<Rightarrow> False
                          | Some ks \<Rightarrow> list_ex (\<lambda>k. k = ''Enterprise Sites'' \<or> k = ''ArcGIS Hub'') ks));
        requests = (if needsData then [(''data'', getContentData services)] else [])
                   @ (if needsOrgId then [(''orgId'', getOwnerOrgId services)] else [])
    in requestedProperties (fst (enrichContent services content options)) = requests
       \<and> getContentData services content options
           = getItemData services (content_id content) options
       \<and> getOwnerOrgId services content options
           = (case getUser services (owner content) options of
                Inl e \<Rightarrow> Inl e
              | Inr user \<Rightarrow> Inr (js_prop user ''orgId''))
       \<and> (\<not> needsData \<and> \<not> needsOrgId \<longrightarrow>
             enrichContent services content options = ([], Inr (enrichDates content)))
       \<and> enrichContent services content options
           = (if \<not> needsData \<and> \<not> needsOrgId then ([], Inr (enrichDates content))
              else ([CallFetchContentProperties requests content options],
                    case fetchContentProperties services requests content options of
                      Inl e \<Rightarrow> Inl e
                    | Inr c \<Rightarrow> Inr (enrichDates c))))"
proof -
  have requests: "propertiesToFetch services content
      = (if \<not> truthy (content_data content)
            \<and> (hubType content = ''template'' \<or> hubType content = ''solution'')
         then [(''data'', getContentData services)] else [])
        @ (if \<not> truthy_string (orgId content) \<and> content_type content = ''Web Map''
              \<and> (case typeKeywords content of
                    None \<Rightarrow> False
                  | Some ks \<Rightarrow> list_ex (\<lambda>k. k = ''Enterprise Sites'' \<or> k = ''ArcGIS Hub'') ks)
           then [(''orgId'', getOwnerOrgId services)] else [])"
    unfolding propertiesToFetch_def shouldFetchData_iff shouldFetchOrgId_iff ..
  have empty: "(propertiesToFetch services content = [])
      = (\<not> (\<not> truthy (content_data content)
              \<and> (hubType content = ''template'' \<or> hubType content = ''solution''))
         \<and> \<not> (\<not> truthy_string (orgId content) \<and> content_type content = ''Web Map''
              \<and> (case typeKeywords content of
                    None \<Rightarrow> False
                  | Some ks \<Rightarrow> list_ex (\<lambda>k. k = ''Enterprise Sites'' \<or> k = ''ArcGIS Hub'') ks)))"
    unfolding propertiesToFetch_empty shouldFetchData_iff shouldFetchOrgId_iff ..
  have data: "getContentData services content options
      = getItemData services (content_id content) options"
    by (simp add: getContentData_def)
  have org: "getOwnerOrgId services content options
      = (case getUser services (owner content) options of
           Inl e \<Rightarrow> Inl e
         | Inr user \<Rightarrow> Inr (js_prop user ''orgId''))"
    by (simp add: getOwnerOrgId_def)
  have result: "enrichContent services content options
      = (if propertiesToFetch services content = [] then ([], Inr (enrichDates content))
         else ([CallFetchContentProperties (propertiesToFetch services content) content options],
               case fetchContentProperties services (propertiesToFetch services content) content options of
                 Inl e \<Rightarrow> Inl e
               | Inr c \<Rightarrow> Inr (enrichDates c)))"
    by (rule enrichContent_result)
  show ?thesis
    unfolding Let_def requestedProperties_enrichContent
    using data org result
    unfolding empty
    unfolding requests
    by (simp split del: if_split cong: if_cong)
qed

theorem enrichContent_fetches_witness:
  "enrichContent sampleServices sampleTemplate None = ([], Inr (enrichDates sampleTemplate))
   \<and> requestedProperties (fst (enrichContent sampleServices sampleWebMap None))
       = [(''orgId'', getOwnerOrgId sampleServices)]
   \<and> getOwnerOrgId sampleServices sampleWebMap None = Inr (JStr ''Xj56SBi2udA78cC9'')"
proof -
  have ft: "content_data sampleTemplate = JObj [(''values'', JObj [])]"
    "hubType sampleTemplate = ''template''" "orgId sampleTemplate = Some ''Xj56SBi2udA78cC9''"
    by (simp_all add: sampleTemplate_def)
  have fw: "content_data sampleWebMap = JUndefined" "hubType sampleWebMap = ''map''"
    "orgId sampleWebMap = None" "content_type sampleWebMap = ''Web Map''"
    "typeKeywords sampleWebMap = Some [''Map'', ''ArcGIS Hub'']" "owner sampleWebMap = ''jdoe''"
    by (simp_all add: sampleWebMap_def)
  have u: "getUser sampleServices ''jdoe'' None = Inr (JObj [(''orgId'', JStr ''Xj56SBi2udA78cC9'')])"
    by (simp add: sampleServices_def)
  have t: "enrichContent sampleServices sampleTemplate None = ([], Inr (enrichDates sampleTemplate))"
    using enrichContent_fetches [of sampleTemplate sampleServices None]
    by (simp add: ft truthy_string_def Let_def)
  have w: "requestedProperties (fst (enrichContent sampleServices sampleWebMap None))
       = [(''orgId'', getOwnerOrgId sampleServices)]"
    using enrichContent_fetches [of sampleWebMap sampleServices None]
    by (simp add: fw truthy_string_def Let_def requestedProperties_def)
  have o: "getOwnerOrgId sampleServices sampleWebMap None = Inr (JStr ''Xj56SBi2udA78cC9'')"
    using enrichContent_fetches [of sampleWebMap sampleServices None]
    by (simp add: fw u truthy_string_def Let_def)
  from t w o show ?thesis by (intro conjI)
qed

lemma enrichContent_no_portal_call:
  "filter isPortalCall (fst (enrichContent services content options)) = []"
  by (simp add: enrichContent_result isPortalCall_def)

text \<open>
  C1. Without \<open>options.isPortal\<close>, when \<open>getContentFromHub(identifier, options)\<close> rejects,
  \<open>getContentById\<close> calls \<open>getContentFromPortal(identifier, options)\<close>, once and as its only
  portal fetch, if and only if \<open>isSlug(identifier)\<close> is false; for a slug the only call is
  the one to the Hub and the promise is rejected with the original error.
\<close>

theorem getContentById_fallback:
  assumes "\<not> (case options of None \<Rightarrow> False | Some opts \<Rightarrow> isPortal opts)"
    and "getContentFromHub services identifier options = Inl e"
  shows "filter isPortalCall (fst (getContentById services identifier options))
           = (if isSlug services identifier then []
              else [CallGetContentFromPortal identifier options])
         \<and> (CallGetContentFromPortal identifier options
               \<in> set (fst (getContentById services identifier options)))
             = (\<not> isSlug services identifier)
         \<and> (isSlug services identifier \<longrightarrow>
               getContentById services identifier options
                 = ([CallGetContentFromHub identifier options], Inl e))"
proof (cases "isSlug services identifier")
  case True
  with assms show ?thesis
    by (simp add: getContentById_def isPortalCall_def)
next
  case False
  have calls: "filter isPortalCall (fst (getContentById services identifier options))
      = [CallGetContentFromPortal identifier options]"
  proof (cases "getContentFromPortal services identifier options")
    case (Inl e')
    with assms False show ?thesis
      by (simp add: getContentById_def isPortalCall_def)
  next
    case (Inr c)
    obtain cs r where ec: "enrichContent services c options = (cs, r)"
      by (cases "enrichContent services c options")
    have "filter isPortalCall cs = []"
      using enrichContent_no_portal_call [of services c options] ec by simp
    with assms False Inr ec show ?thesis
      by (simp add: getContentById_def isPortalCall_def)
  qed
  have "CallGetContentFromPortal identifier options
      \<in> set (filter isPortalCall (fst (getContentById services identifier options)))"
    unfolding calls by simp
  then have "CallGetContentFromPortal identifier options
      \<in> set (fst (getContentById services identifier options))"
    by simp
  with calls False show ?thesis by simp
qed

theorem getContentById_fallback_witness:
  "\<not> (case (None :: IGetContentOptions option) of None \<Rightarrow> False | Some opts \<Rightarrow> isPortal opts)
   \<and> getContentFromHub sampleServices ''7a153563b0c74f7eb2b3eae8a66f2fbb'' None = Inl (Rejected ''not found'')
   \<and> filter isPortalCall (fst (getContentById sampleServices ''7a153563b0c74f7eb2b3eae8a66f2fbb'' None))
       = [CallGetContentFromPortal ''7a153563b0c74f7eb2b3eae8a66f2fbb'' None]
   \<and> getContentFromHub sampleServices ''dc::trees'' None = Inl (Rejected ''not found'')
   \<and> getContentById sampleServices ''dc::trees'' None
       = ([CallGetContentFromHub ''dc::trees'' None], Inl (Rejected ''not found''))"
proof -
  have p: "\<not> (case (None :: IGetContentOptions option) of None \<Rightarrow> False | Some opts \<Rightarrow> isPortal opts)"
    by simp
  have h1: "getContentFromHub sampleServices ''7a153563b0c74f7eb2b3eae8a66f2fbb'' None = Inl (Rejected ''not found'')"
    and h2: "getContentFromHub sampleServices ''dc::trees'' None = Inl (Rejected ''not found'')"
    by (simp_all add: sampleServices_def)
  have s1: "\<not> isSlug sampleServices ''7a153563b0c74f7eb2b3eae8a66f2fbb''"
    and s2: "isSlug sampleServices ''dc::trees''"
    by (simp_all add: sampleServices_def)
  from getContentById_fallback [OF p h1] s1
  have a: "filter isPortalCall (fst (getContentById sampleServices ''7a153563b0c74f7eb2b3eae8a66f2fbb'' None))
       = [CallGetContentFromPortal ''7a153563b0c74f7eb2b3eae8a66f2fbb'' None]"
    by simp
  from getContentById_fallback [OF p h2] s2
  have b: "getContentById sampleServices ''dc::trees'' None
       = ([CallGetContentFromHub ''dc::trees'' None], Inl (Rejected ''not found''))"
    by blast
  from p h1 a h2 b show ?thesis by (intro conjI)
qed

section \<open>Properties of the UI schema builder\<close>

lemma optionalBool_inject: "(optionalBool a = optionalBool b) = (a = b)"
  by (cases a; cases b) (simp_all add: optionalBool_def)

lemma buildUiSchema_same:
  "(buildUiSchema effects i18nScope entity c = buildUiSchema effects i18nScope' entity' c')
   = (i18nScope = i18nScope' \<and> isSharedUpdate entity = isSharedUpdate entity')"
  by (auto simp: buildUiSchema_def Let_def optionalBool_inject)

lemma buildUiSchema_leaves:
  "navigate (buildUiSchema effects i18nScope entity c) [Key ''type''] = JStr ''Layout''
   \<and> map (navigate (buildUiSchema effects i18nScope entity c))
         [[Key ''elements'', Index 0, Key ''elements'', Index 0, Key ''labelKey''],
          [Key ''elements'', Index 0, Key ''elements'', Index 0, Key ''elements'', Index 0, Key ''labelKey''],
          [Key ''elements'', Index 0, Key ''elements'', Index 0, Key ''elements'', Index 0, Key ''options'', Key ''messages'', Index 0, Key ''labelKey''],
          [Key ''elements'', Index 0, Key ''elements'', Index 0, Key ''elements'', Index 0, Key ''options'', Key ''messages'', Index 1, Key ''labelKey''],
          [Key ''elements'', Index 0, Key ''elements'', Index 0, Key ''elements'', Index 1, Key ''labelKey''],
          [Key ''elements'', Index 0, Key ''elements'', Index 0, Key ''elements'', Index 1, Key ''options'', Key ''messages'', Index 0, Key ''labelKey''],
          [Key ''elements'', Index 0, Key ''elements'', Index 1, Key ''labelKey''],
          [Key ''elements'', Index 0, Key ''elements'', Index 1, Key ''elements'', Index 1, Key ''labelKey''],
          [Key ''elements'', Index 0, Key ''elements'', Index 1, Key ''elements'', Index 2, Key ''labelKey'']]
       = map (\<lambda>key. JStr (i18nScope @ key))
         [''.sections.details.label'',
          ''.fields.name.label'',
          ''.fields.name.requiredError'',
          ''.fields.name.maxLengthError'',
          ''.fields.summary.label'',
          ''.fields.summary.maxLengthError'',
          ''.sections.membershipAccess.label'',
          ''.fields.membershipAccess.label'',
          ''.fields.contributeContent.label'']
   \<and> map (navigate (buildUiSchema effects i18nScope entity c))
         [[Key ''elements'', Index 0, Key ''elements'', Index 1, Key ''elements'', Index 1, Key ''options'', Key ''labels'', Index 0],
          [Key ''elements'', Index 0, Key ''elements'', Index 1, Key ''elements'', Index 1, Key ''options'', Key ''labels'', Index 1],
          [Key ''elements'', Index 0, Key ''elements'', Index 1, Key ''elements'', Index 1, Key ''options'', Key ''labels'', Index 2],
          [Key ''elements'', Index 0, Key ''elements'', Index 1, Key ''elements'', Index 2, Key ''options'', Key ''labels'', Index 0],
          [Key ''elements'', Index 0, Key ''elements'', Index 1, Key ''elements'', Index 2, Key ''options'', Key ''labels'', Index 1]]
       = map (\<lambda>key. JStr (''{{'' @ i18nScope @ key @ '':translate}}''))
         [''.fields.membershipAccess.org.description'',
          ''.fields.membershipAccess.collab.description'',
          ''.fields.membershipAccess.createFollowers.any'',
          ''.fields.contributeContent.members.description'',
          ''.fields.contributeContent.createFollowers.admins'']
   \<and> navigate (buildUiSchema effects i18nScope entity c) [Key ''elements'', Index 0, Key ''elements'', Index 1, Key ''elements'', Index 1, Key ''options'', Key ''disabled'']
       = JArr [JBool False, JBool False, optionalBool (isSharedUpdate entity)]
   \<and> navigate (buildUiSchema effects i18nScope entity c) [Key ''elements'', Index 0, Key ''elements'', Index 1, Key ''rule'', Key ''effect''] = effects DISABLE
   \<and> navigate (buildUiSchema effects i18nScope entity c) [Key ''elements'', Index 0, Key ''elements'', Index 1, Key ''elements'', Index 0, Key ''rule'', Key ''effect''] = effects HIDE"
  by (simp add: buildUiSchema_def Let_def)

lemma buildUiSchema_store_frame:
  assumes "optionsRef < length h" and "h ! optionsRef = Options entity"
  shows "case buildUiSchema_store effects i18nScope optionsRef contextRef h of
           None \<Rightarrow> False
         | Some (schema, h') \<Rightarrow>
             schema = length h \<and> take (length h) h' = h
             \<and> h' ! optionsRef = h ! optionsRef \<and> (contextRef < length h \<longrightarrow> h' ! contextRef = h ! contextRef)
             \<and> h' ! schema = Schema (buildUiSchema effects i18nScope entity (h ! contextRef))"
  using assms by (simp add: buildUiSchema_store_def nth_append)

text \<open>
  C6. \<open>buildUiSchema\<close> is pure. Called with its arguments in a store, it resolves, it
  modifies nothing: every object the store held, the options and the context among them,
  is as it was, and the document is a new object. The document is a function of the
  scope and of the \<open>isSharedUpdate\<close> flag of the entity alone: the store, the context and
  the other members of the options make no difference, and scope and flag both do, two
  calls giving equal documents exactly when they agree on both. And it is the nested
  layout of the source: a \<open>Layout\<close> whose label keys and translated labels are the scope
  followed by fixed suffixes, whose third \<open>disabled\<close> entry is the flag, and whose rules
  carry the two effects.
\<close>

theorem buildUiSchema_pure:
  "(optionsRef < length h \<and> h ! optionsRef = Options entity \<longrightarrow>
      (case buildUiSchema_store effects i18nScope optionsRef contextRef h of
         None \<Rightarrow> False
       | Some (schema, h') \<Rightarrow>
           schema = length h \<and> take (length h) h' = h
           \<and> h' ! optionsRef = h ! optionsRef \<and> (contextRef < length h \<longrightarrow> h' ! contextRef = h ! contextRef)
           \<and> h' ! schema = Schema (buildUiSchema effects i18nScope entity (h ! contextRef))))
   \<and> (buildUiSchema effects i18nScope entity c = buildUiSchema effects i18nScope' entity' c')
       = (i18nScope = i18nScope' \<and> isSharedUpdate entity = isSharedUpdate entity')
   \<and> navigate (buildUiSchema effects i18nScope entity c) [Key ''type''] = JStr ''Layout''
   \<and> map (navigate (buildUiSchema effects i18nScope entity c))
         [[Key ''elements'', Index 0, Key ''elements'', Index 0, Key ''labelKey''],
          [Key ''elements'', Index 0, Key ''elements'', Index 0, Key ''elements'', Index 0, Key ''labelKey''],
          [Key ''elements'', Index 0, Key ''elements'', Index 0, Key ''elements'', Index 0, Key ''options'', Key ''messages'', Index 0, Key ''labelKey''],
          [Key ''elements'', Index 0, Key ''elements'', Index 0, Key ''elements'', Index 0, Key ''options'', Key ''messages'', Index 1, Key ''labelKey''],
          [Key ''elements'', Index 0, Key ''elements'', Index 0, Key ''elements'', Index 1, Key ''labelKey''],
          [Key ''elements'', Index 0, Key ''elements'', Index 0, Key ''elements'', Index 1, Key ''options'', Key ''messages'', Index 0, Key ''labelKey''],
          [Key ''elements'', Index 0, Key ''elements'', Index 1, Key ''labelKey''],
          [Key ''elements'', Index 0, Key ''elements'', Index 1, Key ''elements'', Index 1, Key ''labelKey''],
          [Key ''elements'', Index 0, Key ''elements'', Index 1, Key ''elements'', Index 2, Key ''labelKey'']]
       = map (\<lambda>key. JStr (i18nScope @ key))
         [''.sections.details.label'',
          ''.fields.name.label'',
          ''.fields.name.requiredError'',
          ''.fields.name.maxLengthError'',
          ''.fields.summary.label'',
          ''.fields.summary.maxLengthError'',
          ''.sections.membershipAccess.label'',
          ''.fields.membershipAccess.label'',
          ''.fields.contributeContent.label'']
   \<and> map (navigate (buildUiSchema effects i18nScope entity c))
         [[Key ''elements'', Index 0, Key ''elements'', Index 1, Key ''elements'', Index 1, Key ''options'', Key ''labels'', Index 0],
          [Key ''elements'', Index 0, Key ''elements'', Index 1, Key ''elements'', Index 1, Key ''options'', Key ''labels'', Index 1],
          [Key ''elements'', Index 0, Key ''elements'', Index 1, Key ''elements'', Index 1, Key ''options'', Key ''labels'', Index 2],
          [Key ''elements'', Index 0, Key ''elements'', Index 1, Key ''elements'', Index 2, Key ''options'', Key ''labels'', Index 0],
          [Key ''elements'', Index 0, Key ''elements'', Index 1, Key ''elements'', Index 2, Key ''options'', Key ''labels'', Index 1]]
       = map (\<lambda>key. JStr (''{{'' @ i18nScope @ key @ '':translate}}''))
         [''.fields.membershipAccess.org.description'',
          ''.fields.membershipAccess.collab.description'',
          ''.fields.membershipAccess.createFollowers.any'',
          ''.fields.contributeContent.members.description'',
          ''.fields.contributeContent.createFollowers.admins'']
   \<and> navigate (buildUiSchema effects i18nScope entity c) [Key ''elements'', Index 0, Key ''elements'', Index 1, Key ''elements'', Index 1, Key ''options'', Key ''disabled'']
       = JArr [JBool False, JBool False, optionalBool (isSharedUpdate entity)]
   \<and> navigate (buildUiSchema effects i18nScope entity c) [Key ''elements'', Index 0, Key ''elements'', Index 1, Key ''rule'', Key ''effect''] = effects DISABLE
   \<and> navigate (buildUiSchema effects i18nScope entity c) [Key ''elements'', Index 0, Key ''elements'', Index 1, Key ''elements'', Index 0, Key ''rule'', Key ''effect''] = effects HIDE"
proof -
  have frame: "(optionsRef < length h \<and> h ! optionsRef = Options entity \<longrightarrow>
      (case buildUiSchema_store effects i18nScope optionsRef contextRef h of
         None \<Rightarrow> False
       | Some (schema, h') \<Rightarrow>
           schema = length h \<and> take (length h) h' = h
           \<and> h' ! optionsRef = h ! optionsRef \<and> (contextRef < length h \<longrightarrow> h' ! contextRef = h ! contextRef)
           \<and> h' ! schema = Schema (buildUiSchema effects i18nScope entity (h ! contextRef))))"
    using buildUiSchema_store_frame by blast
  show ?thesis
    by (rule conjI [OF frame conjI [OF buildUiSchema_same buildUiSchema_leaves]])
qed

theorem buildUiSchema_pure_witness:
  "(1::nat) < length sampleEditorStore
   \<and> sampleEditorStore ! 1 = Options \<lparr>name = ''Followers'', isSharedUpdate = Some False\<rparr>
   \<and> (case buildUiSchema_store (\<lambda>e. JStr ''HIDE'') ''group'' 1 0 sampleEditorStore of
        None \<Rightarrow> False
      | Some (schema, h') \<Rightarrow>
          schema = 2 \<and> take 2 h' = sampleEditorStore
          \<and> h' ! schema
              = Schema (buildUiSchema (\<lambda>e. JStr ''HIDE'') ''group''
                  \<lparr>name = ''Followers'', isSharedUpdate = Some False\<rparr>
                  (Context ''portal'' :: (unit, string) EditorObject)))"
proof -
  have l: "(1::nat) < length sampleEditorStore"
    and o: "sampleEditorStore ! 1 = Options \<lparr>name = ''Followers'', isSharedUpdate = Some False\<rparr>"
    and c: "sampleEditorStore ! 0 = Context ''portal''"
    and n: "length sampleEditorStore = 2"
    by (simp_all add: sampleEditorStore_def)
  have "case buildUiSchema_store (\<lambda>e. JStr ''HIDE'') ''group'' 1 0 sampleEditorStore of
          None \<Rightarrow> False
        | Some (schema, h') \<Rightarrow>
            schema = length sampleEditorStore \<and> take (length sampleEditorStore) h' = sampleEditorStore
            \<and> h' ! 1 = sampleEditorStore ! 1
            \<and> (0 < length sampleEditorStore \<longrightarrow> h' ! 0 = sampleEditorStore ! 0)
            \<and> h' ! schema
                = Schema (buildUiSchema (\<lambda>e. JStr ''HIDE'') ''group''
                    \<lparr>name = ''Followers'', isSharedUpdate = Some False\<rparr> (sampleEditorStore ! 0))"
    by (rule mp [OF buildUiSchema_pure
          [where optionsRef = 1 and h = sampleEditorStore
             and entity = "\<lparr>name = ''Followers'', isSharedUpdate = Some False\<rparr>"
             and effects = "\<lambda>e. JStr ''HIDE''" and i18nScope = "''group''" and contextRef = 0,
           THEN conjunct1]
        conjI [OF l o]])
  then have "case buildUiSchema_store (\<lambda>e. JStr ''HIDE'') ''group'' 1 0 sampleEditorStore of
        None \<Rightarrow> False
      | Some (schema, h') \<Rightarrow>
          schema = 2 \<and> take 2 h' = sampleEditorStore
          \<and> h' ! schema
              = Schema (buildUiSchema (\<lambda>e. JStr ''HIDE'') ''group''
                  \<lparr>name = ''Followers'', isSharedUpdate = Some False\<rparr>
                  (Context ''portal'' :: (unit, string) EditorObject))"
    unfolding n c by (simp split: option.splits prod.splits)
  with l o show ?thesis by (intro conjI)
qed

section \<open>Properties of the event filters\<close>

lemma andThen_Inr: "(andThen m f = Inr r) = (\<exists>x. m = Inr x \<and> f x = Inr r)"
  by (cases m) (simp_all add: andThen_def)

lemma cond_update_access:
  "(if c then p\<lparr>access := v\<rparr> else p) = p\<lparr>access := (if c then v else access p)\<rparr>"
  by (cases c) simp_all

lemma cond_update_canEdit:
  "(if c then p\<lparr>canEdit := v\<rparr> else p) = p\<lparr>canEdit := (if c then v else canEdit p)\<rparr>"
  by (cases c) simp_all

lemma cond_update_entityIds:
  "(if c then p\<lparr>entityIds := v\<rparr> else p) = p\<lparr>entityIds := (if c then v else entityIds p)\<rparr>"
  by (cases c) simp_all

lemma cond_update_entityTypes:
  "(if c then p\<lparr>entityTypes := v\<rparr> else p) = p\<lparr>entityTypes := (if c then v else entityTypes p)\<rparr>"
  by (cases c) simp_all

lemma cond_update_eventIds:
  "(if c then p\<lparr>eventIds := v\<rparr> else p) = p\<lparr>eventIds := (if c then v else eventIds p)\<rparr>"
  by (cases c) simp_all

lemma cond_update_title:
  "(if c then p\<lparr>title := v\<rparr> else p) = p\<lparr>title := (if c then v else title p)\<rparr>"
  by (cases c) simp_all

lemma cond_update_events_orgId:
  "(if c then p\<lparr>events_orgId := v\<rparr> else p) = p\<lparr>events_orgId := (if c then v else events_orgId p)\<rparr>"
  by (cases c) simp_all

lemma cond_update_categories:
  "(if c then p\<lparr>categories := v\<rparr> else p) = p\<lparr>categories := (if c then v else categories p)\<rparr>"
  by (cases c) simp_all

lemma cond_update_tags:
  "(if c then p\<lparr>tags := v\<rparr> else p) = p\<lparr>tags := (if c then v else tags p)\<rparr>"
  by (cases c) simp_all

lemma cond_update_sharedToGroups:
  "(if c then p\<lparr>sharedToGroups := v\<rparr> else p) = p\<lparr>sharedToGroups := (if c then v else sharedToGroups p)\<rparr>"
  by (cases c) simp_all

lemma cond_update_readGroups:
  "(if c then p\<lparr>readGroups := v\<rparr> else p) = p\<lparr>readGroups := (if c then v else readGroups p)\<rparr>"
  by (cases c) simp_all

lemma cond_update_editGroups:
  "(if c then p\<lparr>editGroups := v\<rparr> else p) = p\<lparr>editGroups := (if c then v else editGroups p)\<rparr>"
  by (cases c) simp_all

lemma cond_update_withoutReadGroups:
  "(if c then p\<lparr>withoutReadGroups := v\<rparr> else p) = p\<lparr>withoutReadGroups := (if c then v else withoutReadGroups p)\<rparr>"
  by (cases c) simp_all

lemma cond_update_withoutEditGroups:
  "(if c then p\<lparr>withoutEditGroups := v\<rparr> else p) = p\<lparr>withoutEditGroups := (if c then v else withoutEditGroups p)\<rparr>"
  by (cases c) simp_all

lemma cond_update_attendanceTypes:
  "(if c then p\<lparr>attendanceTypes := v\<rparr> else p) = p\<lparr>attendanceTypes := (if c then v else attendanceTypes p)\<rparr>"
  by (cases c) simp_all

lemma cond_update_createdByIds:
  "(if c then p\<lparr>createdByIds := v\<rparr> else p) = p\<lparr>createdByIds := (if c then v else createdByIds p)\<rparr>"
  by (cases c) simp_all

lemma cond_update_status:
  "(if c then p\<lparr>status := v\<rparr> else p) = p\<lparr>status := (if c then v else status p)\<rparr>"
  by (cases c) simp_all

lemma cond_update_startDateTimeBefore:
  "(if c then p\<lparr>startDateTimeBefore := v\<rparr> else p) = p\<lparr>startDateTimeBefore := (if c then v else startDateTimeBefore p)\<rparr>"
  by (cases c) simp_all

lemma cond_update_startDateTimeAfter:
  "(if c then p\<lparr>startDateTimeAfter := v\<rparr> else p) = p\<lparr>startDateTimeAfter := (if c then v else startDateTimeAfter p)\<rparr>"
  by (cases c) simp_all

lemma cond_update_endDateTimeBefore:
  "(if c then p\<lparr>endDateTimeBefore := v\<rparr> else p) = p\<lparr>endDateTimeBefore := (if c then v else endDateTimeBefore p)\<rparr>"
  by (cases c) simp_all

lemma cond_update_endDateTimeAfter:
  "(if c then p\<lparr>endDateTimeAfter := v\<rparr> else p) = p\<lparr>endDateTimeAfter := (if c then v else endDateTimeAfter p)\<rparr>"
  by (cases c) simp_all

lemmas cond_updates =
  cond_update_access
  cond_update_canEdit
  cond_update_entityIds
  cond_update_entityTypes
  cond_update_eventIds
  cond_update_title
  cond_update_events_orgId
  cond_update_categories
  cond_update_tags
  cond_update_sharedToGroups
  cond_update_readGroups
  cond_update_editGroups
  cond_update_withoutReadGroups
  cond_update_withoutEditGroups
  cond_update_attendanceTypes
  cond_update_createdByIds
  cond_update_status
  cond_update_startDateTimeBefore
  cond_update_startDateTimeAfter
  cond_update_endDateTimeBefore
  cond_update_endDateTimeAfter

lemma setMembers_cases:
  "setMembers services fs p0 =
    (if getPredicateValuesByKey services fs ''canEdit'' \<noteq> []
        \<and> (hd (getPredicateValuesByKey services fs ''canEdit'') = JUndefined \<or> hd (getPredicateValuesByKey services fs ''canEdit'') = JNull)
     then Inl TypeError
     else Inr (p0
     \<lparr>access := (if hasLength (getOptionalPredicateStringsByKey services fs ''access'')
                 then getOptionalPredicateStringsByKey services fs ''access'' else access p0),
      canEdit := (if getPredicateValuesByKey services fs ''canEdit'' \<noteq> []
                 then Some (ToString (hd (getPredicateValuesByKey services fs ''canEdit''))) else canEdit p0),
      entityIds := (if hasLength (getOptionalPredicateStringsByKey services fs ''entityId'')
                 then getOptionalPredicateStringsByKey services fs ''entityId'' else entityIds p0),
      entityTypes := (if hasLength (getOptionalPredicateStringsByKey services fs ''entityType'')
                 then getOptionalPredicateStringsByKey services fs ''entityType'' else entityTypes p0),
      eventIds := (if hasLength (getOptionalPredicateStringsByKey services fs ''id'')
                 then getOptionalPredicateStringsByKey services fs ''id'' else eventIds p0),
      title := (if getPredicateValuesByKey services fs ''term'' \<noteq> []
                 then Some (hd (getPredicateValuesByKey services fs ''term'')) else title p0),
      events_orgId := (if getPredicateValuesByKey services fs ''orgId'' \<noteq> []
                 then Some (hd (getPredicateValuesByKey services fs ''orgId'')) else events_orgId p0),
      categories := (if hasLength (getOptionalPredicateStringsByKey services fs ''categories'')
                 then getOptionalPredicateStringsByKey services fs ''categories'' else categories p0),
      tags := (if hasLength (getOptionalPredicateStringsByKey services fs ''tags'')
                 then getOptionalPredicateStringsByKey services fs ''tags'' else tags p0)\<rparr>))"
proof (cases "getPredicateValuesByKey services fs ''canEdit'' = []")
  case True
  then show ?thesis
    by (simp add: setMembers_def Let_def andThen_def cond_updates split del: if_split cong: if_cong)
next
  case False
  then show ?thesis
    by (cases "hd (getPredicateValuesByKey services fs ''canEdit'') = JUndefined \<or> hd (getPredicateValuesByKey services fs ''canEdit'') = JNull")
      (simp_all add: setMembers_def Let_def andThen_def cond_updates split del: if_split cong: if_cong)
qed

lemma setMembers_Inr:
  assumes "setMembers services fs p0 = Inr p"
  shows "p = p0
     \<lparr>access := (if hasLength (getOptionalPredicateStringsByKey services fs ''access'')
                 then getOptionalPredicateStringsByKey services fs ''access'' else access p0),
      canEdit := (if getPredicateValuesByKey services fs ''canEdit'' \<noteq> []
                 then Some (ToString (hd (getPredicateValuesByKey services fs ''canEdit''))) else canEdit p0),
      entityIds := (if hasLength (getOptionalPredicateStringsByKey services fs ''entityId'')
                 then getOptionalPredicateStringsByKey services fs ''entityId'' else entityIds p0),
      entityTypes := (if hasLength (getOptionalPredicateStringsByKey services fs ''entityType'')
                 then getOptionalPredicateStringsByKey services fs ''entityType'' else entityTypes p0),
      eventIds := (if hasLength (getOptionalPredicateStringsByKey services fs ''id'')
                 then getOptionalPredicateStringsByKey services fs ''id'' else eventIds p0),
      title := (if getPredicateValuesByKey services fs ''term'' \<noteq> []
                 then Some (hd (getPredicateValuesByKey services fs ''term'')) else title p0),
      events_orgId := (if getPredicateValuesByKey services fs ''orgId'' \<noteq> []
                 then Some (hd (getPredicateValuesByKey services fs ''orgId'')) else events_orgId p0),
      categories := (if hasLength (getOptionalPredicateStringsByKey services fs ''categories'')
                 then getOptionalPredicateStringsByKey services fs ''categories'' else categories p0),
      tags := (if hasLength (getOptionalPredicateStringsByKey services fs ''tags'')
                 then getOptionalPredicateStringsByKey services fs ''tags'' else tags p0)\<rparr>"
  using assms unfolding setMembers_cases
  by (cases "getPredicateValuesByKey services fs ''canEdit'' \<noteq> []
        \<and> (hd (getPredicateValuesByKey services fs ''canEdit'') = JUndefined \<or> hd (getPredicateValuesByKey services fs ''canEdit'') = JNull)")
    (simp_all split del: if_split)

lemma setGroups_eq:
  "setGroups services fs p0 = p0
     \<lparr>sharedToGroups := (if hasLength (getOptionalPredicateStringsByKey services fs ''group'') then getOptionalPredicateStringsByKey services fs ''group'' else sharedToGroups p0),
      readGroups := (if \<not> hasLength (getOptionalPredicateStringsByKey services fs ''group'') \<and> hasLength (getOptionalPredicateStringsByKey services fs ''readGroupId'')
                 then getOptionalPredicateStringsByKey services fs ''readGroupId'' else readGroups p0),
      editGroups := (if \<not> hasLength (getOptionalPredicateStringsByKey services fs ''group'') \<and> hasLength (getOptionalPredicateStringsByKey services fs ''editGroupId'')
                 then getOptionalPredicateStringsByKey services fs ''editGroupId'' else editGroups p0)\<rparr>"
  by (cases "hasLength (getOptionalPredicateStringsByKey services fs ''group'')")
    (simp_all add: setGroups_def Let_def cond_updates split del: if_split cong: if_cong)

lemma setStatus_eq:
  "setStatus services fs p0 = p0
     \<lparr>attendanceTypes := (if hasLength (getOptionalPredicateStringsByKey services fs ''attendanceType'') then getOptionalPredicateStringsByKey services fs ''attendanceType''
                          else attendanceTypes p0),
      createdByIds := (if hasLength (getOptionalPredicateStringsByKey services fs ''owner'') then getOptionalPredicateStringsByKey services fs ''owner'' else createdByIds p0),
      status := (if hasLength (getOptionalPredicateStringsByKey services fs ''status'') then getOptionalPredicateStringsByKey services fs ''status'' else Some ''planned,canceled'')\<rparr>"
  by (simp add: setStatus_def Let_def cond_updates toLowerCase_def EventStatus_PLANNED_def
      EventStatus_CANCELED_def split del: if_split cong: if_cong)

lemma setWithoutGroups_Inr:
  assumes "setWithoutGroups services fs requestOptions p0 = Inr p"
  shows "\<exists>a b. p = p0\<lparr>withoutReadGroups := a, withoutEditGroups := b\<rparr>
     \<and> (a \<noteq> withoutReadGroups p0 \<longrightarrow>
           getPredicateValuesByKey services fs ''notGroup'' \<noteq> [] \<or> hasLength (getOptionalPredicateStringsByKey services fs ''notReadGroupId''))
     \<and> (b \<noteq> withoutEditGroups p0 \<longrightarrow>
           getPredicateValuesByKey services fs ''notGroup'' \<noteq> [] \<or> hasLength (getOptionalPredicateStringsByKey services fs ''notEditGroupId''))"
proof (cases "getPredicateValuesByKey services fs ''notGroup'' = []")
  case True
  with assms have "p = p0
      \<lparr>withoutReadGroups :=
         (if hasLength (getOptionalPredicateStringsByKey services fs ''notReadGroupId'') then getOptionalPredicateStringsByKey services fs ''notReadGroupId''
          else withoutReadGroups p0),
       withoutEditGroups :=
         (if hasLength (getOptionalPredicateStringsByKey services fs ''notEditGroupId'') then getOptionalPredicateStringsByKey services fs ''notEditGroupId''
          else withoutEditGroups p0)\<rparr>"
    by (simp add: setWithoutGroups_def Let_def cond_updates split del: if_split cong: if_cong)
  then show ?thesis
    by (intro exI conjI, assumption) (simp_all split: if_splits)
next
  case False
  with assms have "\<exists>results. p = p0
      \<lparr>withoutReadGroups :=
         (if map group_id (filter (\<lambda>g. \<not> isUpdateGroup services g) results) \<noteq> []
          then Some (join_strings '','' (map group_id (filter (\<lambda>g. \<not> isUpdateGroup services g) results)))
          else withoutReadGroups p0),
       withoutEditGroups :=
         (if map group_id (filter (\<lambda>g. isUpdateGroup services g) results) \<noteq> []
          then Some (join_strings '','' (map group_id (filter (\<lambda>g. isUpdateGroup services g) results)))
          else withoutEditGroups p0)\<rparr>"
    by (auto simp add: setWithoutGroups_def Let_def andThen_Inr cond_updates
        simp del: map_is_Nil_conv split del: if_split cong: if_cong)
  then obtain a b where "p = p0\<lparr>withoutReadGroups := a, withoutEditGroups := b\<rparr>"
    by blast
  with False show ?thesis by blast
qed

lemma date_step:
  "andThen (newDateISO services v) (\<lambda>iso. Inr (f iso)) = Inr q \<Longrightarrow>
   \<exists>iso. toISOString services v = Some iso \<and> q = f iso"
  by (auto simp: andThen_Inr newDateISO_def split: option.splits)

lemma setStartDates_Inr:
  assumes "setStartDates services fs p0 = Inr p"
  shows "\<exists>a b. p = p0\<lparr>startDateTimeBefore := a, startDateTimeAfter := b\<rparr>
     \<and> (getPredicateValuesByKey services fs ''startDateRange'' \<noteq> [] \<longrightarrow>
           a = (if truthy (js_prop (hd (getPredicateValuesByKey services fs ''startDateRange'')) ''to'') then toISOString services (js_prop (hd (getPredicateValuesByKey services fs ''startDateRange'')) ''to'') else startDateTimeBefore p0)
           \<and> b = (if truthy (js_prop (hd (getPredicateValuesByKey services fs ''startDateRange'')) ''from'') then toISOString services (js_prop (hd (getPredicateValuesByKey services fs ''startDateRange'')) ''from'') else startDateTimeAfter p0))
     \<and> (getPredicateValuesByKey services fs ''startDateRange'' = [] \<longrightarrow>
           (a \<noteq> startDateTimeBefore p0 \<longrightarrow> getPredicateValuesByKey services fs ''startDateBefore'' \<noteq> [])
           \<and> (b \<noteq> startDateTimeAfter p0 \<longrightarrow> getPredicateValuesByKey services fs ''startDateAfter'' \<noteq> []))"
proof (cases "getPredicateValuesByKey services fs ''startDateRange'' = []")
  case False
  from assms False obtain p1 where
    s1: "(if truthy (js_prop (hd (getPredicateValuesByKey services fs ''startDateRange'')) ''to'')
          then andThen (newDateISO services (js_prop (hd (getPredicateValuesByKey services fs ''startDateRange'')) ''to'')) (\<lambda>iso. Inr (p0\<lparr>startDateTimeBefore := Some iso\<rparr>))
          else Inr p0) = Inr p1"
    and s2: "(if truthy (js_prop (hd (getPredicateValuesByKey services fs ''startDateRange'')) ''from'')
          then andThen (newDateISO services (js_prop (hd (getPredicateValuesByKey services fs ''startDateRange'')) ''from'')) (\<lambda>iso. Inr (p1\<lparr>startDateTimeAfter := Some iso\<rparr>))
          else Inr p1) = Inr p"
    by (cases "hd (getPredicateValuesByKey services fs ''startDateRange'') = JUndefined \<or> hd (getPredicateValuesByKey services fs ''startDateRange'') = JNull")
      (auto simp: setStartDates_def Let_def andThen_Inr js_member_def simp del: length_0_conv split del: if_split)
  from s1 have e1: "p1 = p0\<lparr>startDateTimeBefore := (if truthy (js_prop (hd (getPredicateValuesByKey services fs ''startDateRange'')) ''to'') then toISOString services (js_prop (hd (getPredicateValuesByKey services fs ''startDateRange'')) ''to'') else startDateTimeBefore p0)\<rparr>"
    by (cases "truthy (js_prop (hd (getPredicateValuesByKey services fs ''startDateRange'')) ''to'')") (auto dest: date_step)
  from s2 have e2: "p = p1\<lparr>startDateTimeAfter := (if truthy (js_prop (hd (getPredicateValuesByKey services fs ''startDateRange'')) ''from'') then toISOString services (js_prop (hd (getPredicateValuesByKey services fs ''startDateRange'')) ''from'') else startDateTimeAfter p1)\<rparr>"
    by (cases "truthy (js_prop (hd (getPredicateValuesByKey services fs ''startDateRange'')) ''from'')") (auto dest: date_step)
  have "p = p0\<lparr>startDateTimeBefore := (if truthy (js_prop (hd (getPredicateValuesByKey services fs ''startDateRange'')) ''to'') then toISOString services (js_prop (hd (getPredicateValuesByKey services fs ''startDateRange'')) ''to'') else startDateTimeBefore p0),
               startDateTimeAfter := (if truthy (js_prop (hd (getPredicateValuesByKey services fs ''startDateRange'')) ''from'') then toISOString services (js_prop (hd (getPredicateValuesByKey services fs ''startDateRange'')) ''from'') else startDateTimeAfter p0)\<rparr>"
    unfolding e2 e1 by (simp split del: if_split cong: if_cong)
  with False show ?thesis by blast
next
  case True
  from assms True obtain p1 where
    s1: "(if getPredicateValuesByKey services fs ''startDateBefore'' \<noteq> []
          then andThen (newDateISO services (hd (getPredicateValuesByKey services fs ''startDateBefore''))) (\<lambda>iso. Inr (p0\<lparr>startDateTimeBefore := Some iso\<rparr>))
          else Inr p0) = Inr p1"
    and s2: "(if getPredicateValuesByKey services fs ''startDateAfter'' \<noteq> []
          then andThen (newDateISO services (hd (getPredicateValuesByKey services fs ''startDateAfter''))) (\<lambda>iso. Inr (p1\<lparr>startDateTimeAfter := Some iso\<rparr>))
          else Inr p1) = Inr p"
    by (auto simp: setStartDates_def Let_def andThen_Inr split del: if_split)
  from s1 obtain a where e1: "p1 = p0\<lparr>startDateTimeBefore := a\<rparr>" and a: "a \<noteq> startDateTimeBefore p0 \<longrightarrow> getPredicateValuesByKey services fs ''startDateBefore'' \<noteq> []"
    by (cases "getPredicateValuesByKey services fs ''startDateBefore'' = []") (auto dest: date_step intro: that [of "startDateTimeBefore p0"])
  from s2 obtain b where e2: "p = p1\<lparr>startDateTimeAfter := b\<rparr>" and b: "b \<noteq> startDateTimeAfter p1 \<longrightarrow> getPredicateValuesByKey services fs ''startDateAfter'' \<noteq> []"
    by (cases "getPredicateValuesByKey services fs ''startDateAfter'' = []") (auto dest: date_step intro: that [of "startDateTimeAfter p1"])
  have "p = p0\<lparr>startDateTimeBefore := a, startDateTimeAfter := b\<rparr>"
    unfolding e2 e1 by simp
  moreover have "b \<noteq> startDateTimeAfter p0 \<longrightarrow> getPredicateValuesByKey services fs ''startDateAfter'' \<noteq> []"
    using b unfolding e1 by simp
  ultimately show ?thesis using True a by blast
qed

lemma setEndDates_Inr:
  assumes "setEndDates services fs p0 = Inr p"
  shows "\<exists>a b. p = p0\<lparr>endDateTimeBefore := a, endDateTimeAfter := b\<rparr>
     \<and> (getPredicateValuesByKey services fs ''endDateRange'' \<noteq> [] \<longrightarrow>
           a = (if truthy (js_prop (hd (getPredicateValuesByKey services fs ''endDateRange'')) ''to'') then toISOString services (js_prop (hd (getPredicateValuesByKey services fs ''endDateRange'')) ''to'') else endDateTimeBefore p0)
           \<and> b = (if truthy (js_prop (hd (getPredicateValuesByKey services fs ''endDateRange'')) ''from'') then toISOString services (js_prop (hd (getPredicateValuesByKey services fs ''endDateRange'')) ''from'') else endDateTimeAfter p0))
     \<and> (getPredicateValuesByKey services fs ''endDateRange'' = [] \<longrightarrow>
           (a \<noteq> endDateTimeBefore p0 \<longrightarrow> getPredicateValuesByKey services fs ''endDateBefore'' \<noteq> [])
           \<and> (b \<noteq> endDateTimeAfter p0 \<longrightarrow> getPredicateValuesByKey services fs ''endDateAfter'' \<noteq> []))"
proof (cases "getPredicateValuesByKey services fs ''endDateRange'' = []")
  case False
  from assms False obtain p1 where
    s1: "(if truthy (js_prop (hd (getPredicateValuesByKey services fs ''endDateRange'')) ''to'')
          then andThen (newDateISO services (js_prop (hd (getPredicateValuesByKey services fs ''endDateRange'')) ''to'')) (\<lambda>iso. Inr (p0\<lparr>endDateTimeBefore := Some iso\<rparr>))
          else Inr p0) = Inr p1"
    and s2: "(if truthy (js_prop (hd (getPredicateValuesByKey services fs ''endDateRange'')) ''from'')
          then andThen (newDateISO services (js_prop (hd (getPredicateValuesByKey services fs ''endDateRange'')) ''from'')) (\<lambda>iso. Inr (p1\<lparr>endDateTimeAfter := Some iso\<rparr>))
          else Inr p1) = Inr p"
    by (cases "hd (getPredicateValuesByKey services fs ''endDateRange'') = JUndefined \<or> hd (getPredicateValuesByKey services fs ''endDateRange'') = JNull")
      (auto simp: setEndDates_def Let_def andThen_Inr js_member_def simp del: length_0_conv split del: if_split)
  from s1 have e1: "p1 = p0\<lparr>endDateTimeBefore := (if truthy (js_prop (hd (getPredicateValuesByKey services fs ''endDateRange'')) ''to'') then toISOString services (js_prop (hd (getPredicateValuesByKey services fs ''endDateRange'')) ''to'') else endDateTimeBefore p0)\<rparr>"
    by (cases "truthy (js_prop (hd (getPredicateValuesByKey services fs ''endDateRange'')) ''to'')") (auto dest: date_step)
  from s2 have e2: "p = p1\<lparr>endDateTimeAfter := (if truthy (js_prop (hd (getPredicateValuesByKey services fs ''endDateRange'')) ''from'') then toISOString services (js_prop (hd (getPredicateValuesByKey services fs ''endDateRange'')) ''from'') else endDateTimeAfter p1)\<rparr>"
    by (cases "truthy (js_prop (hd (getPredicateValuesByKey services fs ''endDateRange'')) ''from'')") (auto dest: date_step)
  have "p = p0\<lparr>endDateTimeBefore := (if truthy (js_prop (hd (getPredicateValuesByKey services fs ''endDateRange'')) ''to'') then toISOString services (js_prop (hd (getPredicateValuesByKey services fs ''endDateRange'')) ''to'') else endDateTimeBefore p0),
               endDateTimeAfter := (if truthy (js_prop (hd (getPredicateValuesByKey services fs ''endDateRange'')) ''from'') then toISOString services (js_prop (hd (getPredicateValuesByKey services fs ''endDateRange'')) ''from'') else endDateTimeAfter p0)\<rparr>"
    unfolding e2 e1 by (simp split del: if_split cong: if_cong)
  with False show ?thesis by blast
next
  case True
  from assms True obtain p1 where
    s1: "(if getPredicateValuesByKey services fs ''endDateBefore'' \<noteq> []
          then andThen (newDateISO services (hd (getPredicateValuesByKey services fs ''endDateBefore''))) (\<lambda>iso. Inr (p0\<lparr>endDateTimeBefore := Some iso\<rparr>))
          else Inr p0) = Inr p1"
    and s2: "(if getPredicateValuesByKey services fs ''endDateAfter'' \<noteq> []
          then andThen (newDateISO services (hd (getPredicateValuesByKey services fs ''endDateAfter''))) (\<lambda>iso. Inr (p1\<lparr>endDateTimeAfter := Some iso\<rparr>))
          else Inr p1) = Inr p"
    by (auto simp: setEndDates_def Let_def andThen_Inr split del: if_split)
  from s1 obtain a where e1: "p1 = p0\<lparr>endDateTimeBefore := a\<rparr>" and a: "a \<noteq> endDateTimeBefore p0 \<longrightarrow> getPredicateValuesByKey services fs ''endDateBefore'' \<noteq> []"
    by (cases "getPredicateValuesByKey services fs ''endDateBefore'' = []") (auto dest: date_step intro: that [of "endDateTimeBefore p0"])
  from s2 obtain b where e2: "p = p1\<lparr>endDateTimeAfter := b\<rparr>" and b: "b \<noteq> endDateTimeAfter p1 \<longrightarrow> getPredicateValuesByKey services fs ''endDateAfter'' \<noteq> []"
    by (cases "getPredicateValuesByKey services fs ''endDateAfter'' = []") (auto dest: date_step intro: that [of "endDateTimeAfter p1"])
  have "p = p0\<lparr>endDateTimeBefore := a, endDateTimeAfter := b\<rparr>"
    unfolding e2 e1 by simp
  moreover have "b \<noteq> endDateTimeAfter p0 \<longrightarrow> getPredicateValuesByKey services fs ''endDateAfter'' \<noteq> []"
    using b unfolding e1 by simp
  ultimately show ?thesis using True a by blast
qed

lemma applyOccurrences_dates:
  "\<exists>a b c d. applyOccurrences services occs i p = p\<lparr>startDateTimeBefore := a, startDateTimeAfter := b, endDateTimeBefore := c, endDateTimeAfter := d\<rparr>
     \<and> (JStr ''inProgress'' \<notin> set occs \<longrightarrow> a = startDateTimeBefore p)
     \<and> (JStr ''upcoming'' \<notin> set occs \<longrightarrow> b = startDateTimeAfter p)
     \<and> (JStr ''past'' \<notin> set occs \<longrightarrow> c = endDateTimeBefore p)
     \<and> (JStr ''inProgress'' \<notin> set occs \<longrightarrow> d = endDateTimeAfter p)"
proof (induction occs arbitrary: i p)
  case Nil
  show ?case
    by (rule exI [of _ "startDateTimeBefore p"], rule exI [of _ "startDateTimeAfter p"],
        rule exI [of _ "endDateTimeBefore p"], rule exI [of _ "endDateTimeAfter p"]) simp
next
  case (Cons occ rest)
  consider (upcoming) "occ = JStr ''upcoming''" | (past) "occ = JStr ''past''"
    | (inProgress) "occ = JStr ''inProgress''"
    | (other) "occ \<noteq> JStr ''upcoming''" "occ \<noteq> JStr ''past''" "occ \<noteq> JStr ''inProgress''"
    by blast
  then show ?case
  proof cases
    case upcoming
    from Cons.IH [of "i + 1" "p\<lparr>startDateTimeAfter := Some (now services i)\<rparr>"] obtain a b c d where
      r: "applyOccurrences services rest (i + 1) (p\<lparr>startDateTimeAfter := Some (now services i)\<rparr>) = (p\<lparr>startDateTimeAfter := Some (now services i)\<rparr>)\<lparr>startDateTimeBefore := a, startDateTimeAfter := b, endDateTimeBefore := c, endDateTimeAfter := d\<rparr>"
      and pa: "JStr ''inProgress'' \<notin> set rest \<longrightarrow> a = startDateTimeBefore (p\<lparr>startDateTimeAfter := Some (now services i)\<rparr>)"
      and pb: "JStr ''upcoming'' \<notin> set rest \<longrightarrow> b = startDateTimeAfter (p\<lparr>startDateTimeAfter := Some (now services i)\<rparr>)"
      and pc: "JStr ''past'' \<notin> set rest \<longrightarrow> c = endDateTimeBefore (p\<lparr>startDateTimeAfter := Some (now services i)\<rparr>)"
      and pd: "JStr ''inProgress'' \<notin> set rest \<longrightarrow> d = endDateTimeAfter (p\<lparr>startDateTimeAfter := Some (now services i)\<rparr>)"
      by blast
    show ?thesis
      apply (rule exI [of _ a], rule exI [of _ b], rule exI [of _ c], rule exI [of _ d])
      using r pa pb pc pd upcoming by simp
  next
    case past
    from Cons.IH [of "i + 1" "p\<lparr>endDateTimeBefore := Some (now services i)\<rparr>"] obtain a b c d where
      r: "applyOccurrences services rest (i + 1) (p\<lparr>endDateTimeBefore := Some (now services i)\<rparr>) = (p\<lparr>endDateTimeBefore := Some (now services i)\<rparr>)\<lparr>startDateTimeBefore := a, startDateTimeAfter := b, endDateTimeBefore := c, endDateTimeAfter := d\<rparr>"
      and pa: "JStr ''inProgress'' \<notin> set rest \<longrightarrow> a = startDateTimeBefore (p\<lparr>endDateTimeBefore := Some (now services i)\<rparr>)"
      and pb: "JStr ''upcoming'' \<notin> set rest \<longrightarrow> b = startDateTimeAfter (p\<lparr>endDateTimeBefore := Some (now services i)\<rparr>)"
      and pc: "JStr ''past'' \<notin> set rest \<longrightarrow> c = endDateTimeBefore (p\<lparr>endDateTimeBefore := Some (now services i)\<rparr>)"
      and pd: "JStr ''inProgress'' \<notin> set rest \<longrightarrow> d = endDateTimeAfter (p\<lparr>endDateTimeBefore := Some (now services i)\<rparr>)"
      by blast
    show ?thesis
      apply (rule exI [of _ a], rule exI [of _ b], rule exI [of _ c], rule exI [of _ d])
      using r pa pb pc pd past by simp
  next
    case inProgress
    from Cons.IH [of "i + 2" "p\<lparr>startDateTimeBefore := Some (now services i), endDateTimeAfter := Some (now services (i + 1))\<rparr>"] obtain a b c d where
      r: "applyOccurrences services rest (i + 2) (p\<lparr>startDateTimeBefore := Some (now services i), endDateTimeAfter := Some (now services (i + 1))\<rparr>) = (p\<lparr>startDateTimeBefore := Some (now services i), endDateTimeAfter := Some (now services (i + 1))\<rparr>)\<lparr>startDateTimeBefore := a, startDateTimeAfter := b, endDateTimeBefore := c, endDateTimeAfter := d\<rparr>"
      and pa: "JStr ''inProgress'' \<notin> set rest \<longrightarrow> a = startDateTimeBefore (p\<lparr>startDateTimeBefore := Some (now services i), endDateTimeAfter := Some (now services (i + 1))\<rparr>)"
      and pb: "JStr ''upcoming'' \<notin> set rest \<longrightarrow> b = startDateTimeAfter (p\<lparr>startDateTimeBefore := Some (now services i), endDateTimeAfter := Some (now services (i + 1))\<rparr>)"
      and pc: "JStr ''past'' \<notin> set rest \<longrightarrow> c = endDateTimeBefore (p\<lparr>startDateTimeBefore := Some (now services i), endDateTimeAfter := Some (now services (i + 1))\<rparr>)"
      and pd: "JStr ''inProgress'' \<notin> set rest \<longrightarrow> d = endDateTimeAfter (p\<lparr>startDateTimeBefore := Some (now services i), endDateTimeAfter := Some (now services (i + 1))\<rparr>)"
      by blast
    show ?thesis
      apply (rule exI [of _ a], rule exI [of _ b], rule exI [of _ c], rule exI [of _ d])
      using r pa pb pc pd inProgress by simp
  next
    case other
    from Cons.IH [of "i" "p"] obtain a b c d where
      r: "applyOccurrences services rest (i) (p) = (p)\<lparr>startDateTimeBefore := a, startDateTimeAfter := b, endDateTimeBefore := c, endDateTimeAfter := d\<rparr>"
      and pa: "JStr ''inProgress'' \<notin> set rest \<longrightarrow> a = startDateTimeBefore (p)"
      and pb: "JStr ''upcoming'' \<notin> set rest \<longrightarrow> b = startDateTimeAfter (p)"
      and pc: "JStr ''past'' \<notin> set rest \<longrightarrow> c = endDateTimeBefore (p)"
      and pd: "JStr ''inProgress'' \<notin> set rest \<longrightarrow> d = endDateTimeAfter (p)"
      by blast
    show ?thesis
      apply (rule exI [of _ a], rule exI [of _ b], rule exI [of _ c], rule exI [of _ d])
      using r pa pb pc pd other by simp
  qed
qed

lemma applyOccurrences_frame:
  shows "access (applyOccurrences services occs i p) = access p"
    and "canEdit (applyOccurrences services occs i p) = canEdit p"
    and "entityIds (applyOccurrences services occs i p) = entityIds p"
    and "entityTypes (applyOccurrences services occs i p) = entityTypes p"
    and "eventIds (applyOccurrences services occs i p) = eventIds p"
    and "title (applyOccurrences services occs i p) = title p"
    and "events_orgId (applyOccurrences services occs i p) = events_orgId p"
    and "categories (applyOccurrences services occs i p) = categories p"
    and "tags (applyOccurrences services occs i p) = tags p"
    and "sharedToGroups (applyOccurrences services occs i p) = sharedToGroups p"
    and "readGroups (applyOccurrences services occs i p) = readGroups p"
    and "editGroups (applyOccurrences services occs i p) = editGroups p"
    and "withoutReadGroups (applyOccurrences services occs i p) = withoutReadGroups p"
    and "withoutEditGroups (applyOccurrences services occs i p) = withoutEditGroups p"
    and "attendanceTypes (applyOccurrences services occs i p) = attendanceTypes p"
    and "createdByIds (applyOccurrences services occs i p) = createdByIds p"
    and "status (applyOccurrences services occs i p) = status p"
  using applyOccurrences_dates [of services occs i p] by auto

lemma applyOccurrences_keep_startDateTimeBefore:
  "JStr ''inProgress'' \<notin> set occs \<Longrightarrow> startDateTimeBefore (applyOccurrences services occs i p) = startDateTimeBefore p"
  using applyOccurrences_dates [of services occs i p] by auto

lemma applyOccurrences_keep_startDateTimeAfter:
  "JStr ''upcoming'' \<notin> set occs \<Longrightarrow> startDateTimeAfter (applyOccurrences services occs i p) = startDateTimeAfter p"
  using applyOccurrences_dates [of services occs i p] by auto

lemma applyOccurrences_keep_endDateTimeBefore:
  "JStr ''past'' \<notin> set occs \<Longrightarrow> endDateTimeBefore (applyOccurrences services occs i p) = endDateTimeBefore p"
  using applyOccurrences_dates [of services occs i p] by auto

lemma applyOccurrences_keep_endDateTimeAfter:
  "JStr ''inProgress'' \<notin> set occs \<Longrightarrow> endDateTimeAfter (applyOccurrences services occs i p) = endDateTimeAfter p"
  using applyOccurrences_dates [of services occs i p] by auto

lemmas applyOccurrences_keep =
  applyOccurrences_keep_startDateTimeBefore
  applyOccurrences_keep_startDateTimeAfter
  applyOccurrences_keep_endDateTimeBefore
  applyOccurrences_keep_endDateTimeAfter

lemma applyOccurrences_now_startDateTimeBefore:
  "JStr ''inProgress'' \<in> set occs \<Longrightarrow> \<exists>k. startDateTimeBefore (applyOccurrences services occs i p) = Some (now services k)"
proof (induction occs arbitrary: i p)
  case Nil
  then show ?case by simp
next
  case (Cons occ rest)
  show ?case
  proof (cases "JStr ''inProgress'' \<in> set rest")
    case True
    then show ?thesis using Cons.IH by simp
  next
    case False
    with Cons.prems have "occ = JStr ''inProgress''" by simp
    then show ?thesis using False by (auto simp add: applyOccurrences_keep)
  qed
qed

lemma applyOccurrences_now_startDateTimeAfter:
  "JStr ''upcoming'' \<in> set occs \<Longrightarrow> \<exists>k. startDateTimeAfter (applyOccurrences services occs i p) = Some (now services k)"
proof (induction occs arbitrary: i p)
  case Nil
  then show ?case by simp
next
  case (Cons occ rest)
  show ?case
  proof (cases "JStr ''upcoming'' \<in> set rest")
    case True
    then show ?thesis using Cons.IH by simp
  next
    case False
    with Cons.prems have "occ = JStr ''upcoming''" by simp
    then show ?thesis using False by (auto simp add: applyOccurrences_keep)
  qed
qed

lemma applyOccurrences_now_endDateTimeBefore:
  "JStr ''past'' \<in> set occs \<Longrightarrow> \<exists>k. endDateTimeBefore (applyOccurrences services occs i p) = Some (now services k)"
proof (induction occs arbitrary: i p)
  case Nil
  then show ?case by simp
next
  case (Cons occ rest)
  show ?case
  proof (cases "JStr ''past'' \<in> set rest")
    case True
    then show ?thesis using Cons.IH by simp
  next
    case False
    with Cons.prems have "occ = JStr ''past''" by simp
    then show ?thesis using False by (auto simp add: applyOccurrences_keep)
  qed
qed

lemma applyOccurrences_now_endDateTimeAfter:
  "JStr ''inProgress'' \<in> set occs \<Longrightarrow> \<exists>k. endDateTimeAfter (applyOccurrences services occs i p) = Some (now services k)"
proof (induction occs arbitrary: i p)
  case Nil
  then show ?case by simp
next
  case (Cons occ rest)
  show ?case
  proof (cases "JStr ''inProgress'' \<in> set rest")
    case True
    then show ?thesis using Cons.IH by simp
  next
    case False
    with Cons.prems have "occ = JStr ''inProgress''" by simp
    then show ?thesis using False by (auto simp add: applyOccurrences_keep)
  qed
qed

lemma processFilters_stages:
  assumes "processFilters services fs requestOptions = Inr r"
  obtains p1 p2 p3 p4 where
    "setMembers services fs noParams = Inr p1"
    "setWithoutGroups services fs requestOptions (setGroups services fs p1) = Inr p2"
    "setStartDates services fs (setStatus services fs p2) = Inr p3"
    "setEndDates services fs p3 = Inr p4"
    "r = applyOccurrences services (getPredicateValuesByKey services fs ''occurrence'') 0 p4"
  using assms unfolding processFilters_def andThen_Inr by auto

lemma processFilters_sampleStatusFilters:
  "processFilters sampleFilterServices sampleStatusFilters () =
     Inr \<lparr>access = Some ''public'', canEdit = None, entityIds = None, entityTypes = None,
             eventIds = None, title = Some (JStr ''picnic''), events_orgId = None,
             categories = None, tags = None, sharedToGroups = None, readGroups = None,
             editGroups = None, withoutReadGroups = None, withoutEditGroups = None,
             attendanceTypes = None, createdByIds = None, status = Some ''planned,canceled'',
             startDateTimeBefore = Some ''2026-06-30T00:00:00.000Z'', startDateTimeAfter = None,
             endDateTimeBefore = None, endDateTimeAfter = None\<rparr>"
  by (simp add: sampleStatusFilters_def processFilters_def setMembers_def setGroups_def setWithoutGroups_def setStatus_def setStartDates_def setEndDates_def andThen_def newDateISO_def js_member_def hasLength_def toLowerCase_def EventStatus_PLANNED_def EventStatus_CANCELED_def sampleFilterServices_def sampleValuesByKey_def json_join_def noParams_def Let_def)

lemma processFilters_sampleRangeFilters:
  "processFilters sampleFilterServices sampleRangeFilters () =
     Inr \<lparr>access = None, canEdit = None, entityIds = None, entityTypes = None,
             eventIds = None, title = None, events_orgId = None,
             categories = None, tags = None, sharedToGroups = None, readGroups = None,
             editGroups = None, withoutReadGroups = None, withoutEditGroups = None,
             attendanceTypes = None, createdByIds = None, status = Some ''planned,canceled'',
             startDateTimeBefore = Some ''2026-12-31T00:00:00.000Z'',
             startDateTimeAfter = Some ''2026-01-01T00:00:00.000Z'',
             endDateTimeBefore = None,
             endDateTimeAfter = Some ''2026-02-01T00:00:00.000Z''\<rparr>"
  by (simp add: sampleRangeFilters_def processFilters_def setMembers_def setGroups_def setWithoutGroups_def setStatus_def setStartDates_def setEndDates_def andThen_def newDateISO_def js_member_def hasLength_def toLowerCase_def EventStatus_PLANNED_def EventStatus_CANCELED_def sampleFilterServices_def sampleValuesByKey_def json_join_def noParams_def Let_def)

text \<open>
  C9. Whenever \<open>processFilters\<close> returns, the \<open>status\<close> of the result is set: it is the
  string of the \<open>status\<close> predicate when that string is not empty, and exactly
  \<open>planned,canceled\<close> when it is empty or undefined. Every other member of the result is
  set only when a predicate it is read from is there: the members read from one predicate
  have that predicate's value or are unset, \<open>readGroups\<close> and \<open>editGroups\<close> have the value
  of \<open>readGroupId\<close> and \<open>editGroupId\<close> when there is no \<open>group\<close> and are unset otherwise,
  \<open>withoutReadGroups\<close> and \<open>withoutEditGroups\<close> need \<open>notGroup\<close> or \<open>notReadGroupId\<close> and
  \<open>notEditGroupId\<close>, and each of the four dates needs its range, its own predicate, or the
  occurrence that sets it.
\<close>

theorem processFilters_status:
  assumes "processFilters services fs requestOptions = Inr r"
  shows "status r = Some (case getOptionalPredicateStringsByKey services fs ''status'' of
                      None \<Rightarrow> ''planned,canceled''
                    | Some s \<Rightarrow> if s = [] then ''planned,canceled'' else s)
     \<and> access r = (if hasLength (getOptionalPredicateStringsByKey services fs ''access'') then getOptionalPredicateStringsByKey services fs ''access'' else None)
     \<and> canEdit r = (if getPredicateValuesByKey services fs ''canEdit'' \<noteq> []
                then Some (ToString (hd (getPredicateValuesByKey services fs ''canEdit''))) else None)
     \<and> entityIds r = (if hasLength (getOptionalPredicateStringsByKey services fs ''entityId'') then getOptionalPredicateStringsByKey services fs ''entityId'' else None)
     \<and> entityTypes r = (if hasLength (getOptionalPredicateStringsByKey services fs ''entityType'') then getOptionalPredicateStringsByKey services fs ''entityType'' else None)
     \<and> eventIds r = (if hasLength (getOptionalPredicateStringsByKey services fs ''id'') then getOptionalPredicateStringsByKey services fs ''id'' else None)
     \<and> title r = (if getPredicateValuesByKey services fs ''term'' \<noteq> [] then Some (hd (getPredicateValuesByKey services fs ''term'')) else None)
     \<and> events_orgId r = (if getPredicateValuesByKey services fs ''orgId'' \<noteq> [] then Some (hd (getPredicateValuesByKey services fs ''orgId'')) else None)
     \<and> categories r = (if hasLength (getOptionalPredicateStringsByKey services fs ''categories'') then getOptionalPredicateStringsByKey services fs ''categories'' else None)
     \<and> tags r = (if hasLength (getOptionalPredicateStringsByKey services fs ''tags'') then getOptionalPredicateStringsByKey services fs ''tags'' else None)
     \<and> sharedToGroups r = (if hasLength (getOptionalPredicateStringsByKey services fs ''group'') then getOptionalPredicateStringsByKey services fs ''group'' else None)
     \<and> readGroups r = (if \<not> hasLength (getOptionalPredicateStringsByKey services fs ''group'') \<and> hasLength (getOptionalPredicateStringsByKey services fs ''readGroupId'')
                   then getOptionalPredicateStringsByKey services fs ''readGroupId'' else None)
     \<and> editGroups r = (if \<not> hasLength (getOptionalPredicateStringsByKey services fs ''group'') \<and> hasLength (getOptionalPredicateStringsByKey services fs ''editGroupId'')
                   then getOptionalPredicateStringsByKey services fs ''editGroupId'' else None)
     \<and> (withoutReadGroups r \<noteq> None \<longrightarrow>
        getPredicateValuesByKey services fs ''notGroup'' \<noteq> [] \<or> hasLength (getOptionalPredicateStringsByKey services fs ''notReadGroupId''))
     \<and> (withoutEditGroups r \<noteq> None \<longrightarrow>
        getPredicateValuesByKey services fs ''notGroup'' \<noteq> [] \<or> hasLength (getOptionalPredicateStringsByKey services fs ''notEditGroupId''))
     \<and> attendanceTypes r = (if hasLength (getOptionalPredicateStringsByKey services fs ''attendanceType'') then getOptionalPredicateStringsByKey services fs ''attendanceType'' else None)
     \<and> createdByIds r = (if hasLength (getOptionalPredicateStringsByKey services fs ''owner'') then getOptionalPredicateStringsByKey services fs ''owner'' else None)
     \<and> (startDateTimeBefore r \<noteq> None \<longrightarrow>
        getPredicateValuesByKey services fs ''startDateRange'' \<noteq> [] \<or> getPredicateValuesByKey services fs ''startDateBefore'' \<noteq> []
        \<or> JStr ''inProgress'' \<in> set (getPredicateValuesByKey services fs ''occurrence''))
     \<and> (startDateTimeAfter r \<noteq> None \<longrightarrow>
        getPredicateValuesByKey services fs ''startDateRange'' \<noteq> [] \<or> getPredicateValuesByKey services fs ''startDateAfter'' \<noteq> []
        \<or> JStr ''upcoming'' \<in> set (getPredicateValuesByKey services fs ''occurrence''))
     \<and> (endDateTimeBefore r \<noteq> None \<longrightarrow>
        getPredicateValuesByKey services fs ''endDateRange'' \<noteq> [] \<or> getPredicateValuesByKey services fs ''endDateBefore'' \<noteq> []
        \<or> JStr ''past'' \<in> set (getPredicateValuesByKey services fs ''occurrence''))
     \<and> (endDateTimeAfter r \<noteq> None \<longrightarrow>
        getPredicateValuesByKey services fs ''endDateRange'' \<noteq> [] \<or> getPredicateValuesByKey services fs ''endDateAfter'' \<noteq> []
        \<or> JStr ''inProgress'' \<in> set (getPredicateValuesByKey services fs ''occurrence''))"
proof -
  from assms obtain p1 p2 p3 p4 where
    m: "setMembers services fs noParams = Inr p1"
    and w: "setWithoutGroups services fs requestOptions (setGroups services fs p1) = Inr p2"
    and s: "setStartDates services fs (setStatus services fs p2) = Inr p3"
    and e: "setEndDates services fs p3 = Inr p4"
    and r: "r = applyOccurrences services (getPredicateValuesByKey services fs ''occurrence'') 0 p4"
    by (rule processFilters_stages)
  note m' = setMembers_Inr [OF m]
  from setWithoutGroups_Inr [OF w] obtain wr we where
    w': "p2 = (setGroups services fs p1)\<lparr>withoutReadGroups := wr, withoutEditGroups := we\<rparr>"
    and wr: "wr \<noteq> withoutReadGroups (setGroups services fs p1) \<longrightarrow>
          getPredicateValuesByKey services fs ''notGroup'' \<noteq> [] \<or> hasLength (getOptionalPredicateStringsByKey services fs ''notReadGroupId'')"
    and we: "we \<noteq> withoutEditGroups (setGroups services fs p1) \<longrightarrow>
          getPredicateValuesByKey services fs ''notGroup'' \<noteq> [] \<or> hasLength (getOptionalPredicateStringsByKey services fs ''notEditGroupId'')"
    by blast
  from setStartDates_Inr [OF s] obtain sb sa where
    s': "p3 = (setStatus services fs p2)\<lparr>startDateTimeBefore := sb, startDateTimeAfter := sa\<rparr>"
    and sb: "sb \<noteq> startDateTimeBefore (setStatus services fs p2) \<longrightarrow>
          getPredicateValuesByKey services fs ''startDateRange'' \<noteq> [] \<or> getPredicateValuesByKey services fs ''startDateBefore'' \<noteq> []"
    and sa: "sa \<noteq> startDateTimeAfter (setStatus services fs p2) \<longrightarrow>
          getPredicateValuesByKey services fs ''startDateRange'' \<noteq> [] \<or> getPredicateValuesByKey services fs ''startDateAfter'' \<noteq> []"
    by blast
  from setEndDates_Inr [OF e] obtain eb ea where
    e': "p4 = p3\<lparr>endDateTimeBefore := eb, endDateTimeAfter := ea\<rparr>"
    and eb: "eb \<noteq> endDateTimeBefore p3 \<longrightarrow>
          getPredicateValuesByKey services fs ''endDateRange'' \<noteq> [] \<or> getPredicateValuesByKey services fs ''endDateBefore'' \<noteq> []"
    and ea: "ea \<noteq> endDateTimeAfter p3 \<longrightarrow>
          getPredicateValuesByKey services fs ''endDateRange'' \<noteq> [] \<or> getPredicateValuesByKey services fs ''endDateAfter'' \<noteq> []"
    by blast
  have q1: "withoutReadGroups (setGroups services fs p1) = None"
    "withoutEditGroups (setGroups services fs p1) = None"
    "startDateTimeBefore (setStatus services fs p2) = None"
    "startDateTimeAfter (setStatus services fs p2) = None"
    "endDateTimeBefore p3 = None" "endDateTimeAfter p3 = None"
    unfolding s' setStatus_eq w' setGroups_eq m' by (simp_all add: noParams_def)
  have p4: "startDateTimeBefore p4 = sb" "startDateTimeAfter p4 = sa"
    "endDateTimeBefore p4 = eb" "endDateTimeAfter p4 = ea"
    unfolding e' s' by simp_all
  have st: "status r = Some (case getOptionalPredicateStringsByKey services fs ''status'' of
                      None \<Rightarrow> ''planned,canceled''
                    | Some s \<Rightarrow> if s = [] then ''planned,canceled'' else s)"
    unfolding r applyOccurrences_frame e' s' setStatus_eq
    by (cases "getOptionalPredicateStringsByKey services fs ''status''") (simp_all add: hasLength_def)
  have ac: "access r = (if hasLength (getOptionalPredicateStringsByKey services fs ''access'') then getOptionalPredicateStringsByKey services fs ''access'' else None)"
    unfolding r applyOccurrences_frame e' s' setStatus_eq w' setGroups_eq m' by (simp add: noParams_def)
  have ce: "canEdit r = (if getPredicateValuesByKey services fs ''canEdit'' \<noteq> []
                then Some (ToString (hd (getPredicateValuesByKey services fs ''canEdit''))) else None)"
    unfolding r applyOccurrences_frame e' s' setStatus_eq w' setGroups_eq m' by (simp add: noParams_def)
  have ei: "entityIds r = (if hasLength (getOptionalPredicateStringsByKey services fs ''entityId'') then getOptionalPredicateStringsByKey services fs ''entityId'' else None)"
    unfolding r applyOccurrences_frame e' s' setStatus_eq w' setGroups_eq m' by (simp add: noParams_def)
  have et: "entityTypes r = (if hasLength (getOptionalPredicateStringsByKey services fs ''entityType'') then getOptionalPredicateStringsByKey services fs ''entityType'' else None)"
    unfolding r applyOccurrences_frame e' s' setStatus_eq w' setGroups_eq m' by (simp add: noParams_def)
  have ev: "eventIds r = (if hasLength (getOptionalPredicateStringsByKey services fs ''id'') then getOptionalPredicateStringsByKey services fs ''id'' else None)"
    unfolding r applyOccurrences_frame e' s' setStatus_eq w' setGroups_eq m' by (simp add: noParams_def)
  have ti: "title r = (if getPredicateValuesByKey services fs ''term'' \<noteq> [] then Some (hd (getPredicateValuesByKey services fs ''term'')) else None)"
    unfolding r applyOccurrences_frame e' s' setStatus_eq w' setGroups_eq m' by (simp add: noParams_def)
  have og: "events_orgId r = (if getPredicateValuesByKey services fs ''orgId'' \<noteq> [] then Some (hd (getPredicateValuesByKey services fs ''orgId'')) else None)"
    unfolding r applyOccurrences_frame e' s' setStatus_eq w' setGroups_eq m' by (simp add: noParams_def)
  have ca: "categories r = (if hasLength (getOptionalPredicateStringsByKey services fs ''categories'') then getOptionalPredicateStringsByKey services fs ''categories'' else None)"
    unfolding r applyOccurrences_frame e' s' setStatus_eq w' setGroups_eq m' by (simp add: noParams_def)
  have ta: "tags r = (if hasLength (getOptionalPredicateStringsByKey services fs ''tags'') then getOptionalPredicateStringsByKey services fs ''tags'' else None)"
    unfolding r applyOccurrences_frame e' s' setStatus_eq w' setGroups_eq m' by (simp add: noParams_def)
  have sg: "sharedToGroups r = (if hasLength (getOptionalPredicateStringsByKey services fs ''group'') then getOptionalPredicateStringsByKey services fs ''group'' else None)"
    unfolding r applyOccurrences_frame e' s' setStatus_eq w' setGroups_eq m' by (simp add: noParams_def)
  have rg: "readGroups r = (if \<not> hasLength (getOptionalPredicateStringsByKey services fs ''group'') \<and> hasLength (getOptionalPredicateStringsByKey services fs ''readGroupId'')
                   then getOptionalPredicateStringsByKey services fs ''readGroupId'' else None)"
    unfolding r applyOccurrences_frame e' s' setStatus_eq w' setGroups_eq m' by (simp add: noParams_def)
  have eg: "editGroups r = (if \<not> hasLength (getOptionalPredicateStringsByKey services fs ''group'') \<and> hasLength (getOptionalPredicateStringsByKey services fs ''editGroupId'')
                   then getOptionalPredicateStringsByKey services fs ''editGroupId'' else None)"
    unfolding r applyOccurrences_frame e' s' setStatus_eq w' setGroups_eq m' by (simp add: noParams_def)
  have wr': "(withoutReadGroups r \<noteq> None \<longrightarrow>
        getPredicateValuesByKey services fs ''notGroup'' \<noteq> [] \<or> hasLength (getOptionalPredicateStringsByKey services fs ''notReadGroupId''))"
    using wr unfolding r applyOccurrences_frame e' s' setStatus_eq w' q1 by simp
  have we': "(withoutEditGroups r \<noteq> None \<longrightarrow>
        getPredicateValuesByKey services fs ''notGroup'' \<noteq> [] \<or> hasLength (getOptionalPredicateStringsByKey services fs ''notEditGroupId''))"
    using we unfolding r applyOccurrences_frame e' s' setStatus_eq w' q1 by simp
  have at: "attendanceTypes r = (if hasLength (getOptionalPredicateStringsByKey services fs ''attendanceType'') then getOptionalPredicateStringsByKey services fs ''attendanceType'' else None)"
    unfolding r applyOccurrences_frame e' s' setStatus_eq w' setGroups_eq m' by (simp add: noParams_def)
  have cb: "createdByIds r = (if hasLength (getOptionalPredicateStringsByKey services fs ''owner'') then getOptionalPredicateStringsByKey services fs ''owner'' else None)"
    unfolding r applyOccurrences_frame e' s' setStatus_eq w' setGroups_eq m' by (simp add: noParams_def)
  have sb': "(startDateTimeBefore r \<noteq> None \<longrightarrow>
        getPredicateValuesByKey services fs ''startDateRange'' \<noteq> [] \<or> getPredicateValuesByKey services fs ''startDateBefore'' \<noteq> []
        \<or> JStr ''inProgress'' \<in> set (getPredicateValuesByKey services fs ''occurrence''))"
  proof (cases "JStr ''inProgress'' \<in> set (getPredicateValuesByKey services fs ''occurrence'')")
    case True
    then show ?thesis by simp
  next
    case False
    have "startDateTimeBefore r = startDateTimeBefore p4"
      unfolding r by (rule applyOccurrences_keep_startDateTimeBefore [OF False])
    then show ?thesis using sb q1 p4 by auto
  qed
  have sa': "(startDateTimeAfter r \<noteq> None \<longrightarrow>
        getPredicateValuesByKey services fs ''startDateRange'' \<noteq> [] \<or> getPredicateValuesByKey services fs ''startDateAfter'' \<noteq> []
        \<or> JStr ''upcoming'' \<in> set (getPredicateValuesByKey services fs ''occurrence''))"
  proof (cases "JStr ''upcoming'' \<in> set (getPredicateValuesByKey services fs ''occurrence'')")
    case True
    then show ?thesis by simp
  next
    case False
    have "startDateTimeAfter r = startDateTimeAfter p4"
      unfolding r by (rule applyOccurrences_keep_startDateTimeAfter [OF False])
    then show ?thesis using sa q1 p4 by auto
  qed
  have eb': "(endDateTimeBefore r \<noteq> None \<longrightarrow>
        getPredicateValuesByKey services fs ''endDateRange'' \<noteq> [] \<or> getPredicateValuesByKey services fs ''endDateBefore'' \<noteq> []
        \<or> JStr ''past'' \<in> set (getPredicateValuesByKey services fs ''occurrence''))"
  proof (cases "JStr ''past'' \<in> set (getPredicateValuesByKey services fs ''occurrence'')")
    case True
    then show ?thesis by simp
  next
    case False
    have "endDateTimeBefore r = endDateTimeBefore p4"
      unfolding r by (rule applyOccurrences_keep_endDateTimeBefore [OF False])
    then show ?thesis using eb q1 p4 by auto
  qed
  have ea': "(endDateTimeAfter r \<noteq> None \<longrightarrow>
        getPredicateValuesByKey services fs ''endDateRange'' \<noteq> [] \<or> getPredicateValuesByKey services fs ''endDateAfter'' \<noteq> []
        \<or> JStr ''inProgress'' \<in> set (getPredicateValuesByKey services fs ''occurrence''))"
  proof (cases "JStr ''inProgress'' \<in> set (getPredicateValuesByKey services fs ''occurrence'')")
    case True
    then show ?thesis by simp
  next
    case False
    have "endDateTimeAfter r = endDateTimeAfter p4"
      unfolding r by (rule applyOccurrences_keep_endDateTimeAfter [OF False])
    then show ?thesis using ea q1 p4 by auto
  qed
  show ?thesis
    by (intro conjI) (fact  st
      ac
      ce
      ei
      et
      ev
      ti
      og
      ca
      ta
      sg
      rg
      eg
      wr'
      we'
      at
      cb
      sb'
      sa'
      eb'
      ea')+
qed

theorem processFilters_status_witness:
  "processFilters sampleFilterServices sampleStatusFilters () =
     Inr \<lparr>access = Some ''public'', canEdit = None, entityIds = None, entityTypes = None,
             eventIds = None, title = Some (JStr ''picnic''), events_orgId = None,
             categories = None, tags = None, sharedToGroups = None, readGroups = None,
             editGroups = None, withoutReadGroups = None, withoutEditGroups = None,
             attendanceTypes = None, createdByIds = None, status = Some ''planned,canceled'',
             startDateTimeBefore = Some ''2026-06-30T00:00:00.000Z'', startDateTimeAfter = None,
             endDateTimeBefore = None, endDateTimeAfter = None\<rparr>
   \<and> getOptionalPredicateStringsByKey sampleFilterServices sampleStatusFilters ''status'' = None
   \<and> status \<lparr>access = Some ''public'', canEdit = None, entityIds = None, entityTypes = None,
             eventIds = None, title = Some (JStr ''picnic''), events_orgId = None,
             categories = None, tags = None, sharedToGroups = None, readGroups = None,
             editGroups = None, withoutReadGroups = None, withoutEditGroups = None,
             attendanceTypes = None, createdByIds = None, status = Some ''planned,canceled'',
             startDateTimeBefore = Some ''2026-06-30T00:00:00.000Z'', startDateTimeAfter = None,
             endDateTimeBefore = None, endDateTimeAfter = None\<rparr> = Some ''planned,canceled''"
proof -
  have n: "getOptionalPredicateStringsByKey sampleFilterServices sampleStatusFilters ''status'' = None"
    by (simp add: sampleFilterServices_def sampleValuesByKey_def sampleStatusFilters_def)
  from processFilters_status [OF processFilters_sampleStatusFilters, THEN conjunct1]
  have "status \<lparr>access = Some ''public'', canEdit = None, entityIds = None, entityTypes = None,
             eventIds = None, title = Some (JStr ''picnic''), events_orgId = None,
             categories = None, tags = None, sharedToGroups = None, readGroups = None,
             editGroups = None, withoutReadGroups = None, withoutEditGroups = None,
             attendanceTypes = None, createdByIds = None, status = Some ''planned,canceled'',
             startDateTimeBefore = Some ''2026-06-30T00:00:00.000Z'', startDateTimeAfter = None,
             endDateTimeBefore = None, endDateTimeAfter = None\<rparr> = Some ''planned,canceled''"
    unfolding n by simp
  with processFilters_sampleStatusFilters n show ?thesis by (intro conjI)
qed

text \<open>
  C3, as the code has it. Whenever \<open>processFilters\<close> returns for filters with a \<open>startDateRange\<close>
  predicate, \<open>startDateTimeBefore\<close> is the ISO form of the range's \<open>to\<close> when that is truthy
  and unset otherwise, and \<open>startDateTimeAfter\<close> is the same of the range's \<open>from\<close>,
  whatever the \<open>startDateBefore\<close> and \<open>startDateAfter\<close> predicates are; unless an occurrence
  overrides the member, \<open>inProgress\<close> for \<open>startDateTimeBefore\<close> and \<open>upcoming\<close> for
  \<open>startDateTimeAfter\<close>, in which case it is a reading of the clock. The same holds of an
  \<open>endDateRange\<close> predicate and \<open>endDateTimeBefore\<close>, \<open>endDateTimeAfter\<close>, with the
  occurrences \<open>past\<close> and \<open>inProgress\<close>.
\<close>

theorem processFilters_dateRange:
  assumes "processFilters services fs requestOptions = Inr r"
  shows "(getPredicateValuesByKey services fs ''startDateRange'' \<noteq> [] \<longrightarrow>
          (if JStr ''inProgress'' \<in> set (getPredicateValuesByKey services fs ''occurrence'')
            then \<exists>k. startDateTimeBefore r = Some (now services k)
            else startDateTimeBefore r = (if truthy (js_prop (hd (getPredicateValuesByKey services fs ''startDateRange'')) ''to'') then toISOString services (js_prop (hd (getPredicateValuesByKey services fs ''startDateRange'')) ''to'') else None))
        \<and> (if JStr ''upcoming'' \<in> set (getPredicateValuesByKey services fs ''occurrence'')
            then \<exists>k. startDateTimeAfter r = Some (now services k)
            else startDateTimeAfter r = (if truthy (js_prop (hd (getPredicateValuesByKey services fs ''startDateRange'')) ''from'') then toISOString services (js_prop (hd (getPredicateValuesByKey services fs ''startDateRange'')) ''from'') else None)))
     \<and> (getPredicateValuesByKey services fs ''endDateRange'' \<noteq> [] \<longrightarrow>
          (if JStr ''past'' \<in> set (getPredicateValuesByKey services fs ''occurrence'')
            then \<exists>k. endDateTimeBefore r = Some (now services k)
            else endDateTimeBefore r = (if truthy (js_prop (hd (getPredicateValuesByKey services fs ''endDateRange'')) ''to'') then toISOString services (js_prop (hd (getPredicateValuesByKey services fs ''endDateRange'')) ''to'') else None))
        \<and> (if JStr ''inProgress'' \<in> set (getPredicateValuesByKey services fs ''occurrence'')
            then \<exists>k. endDateTimeAfter r = Some (now services k)
            else endDateTimeAfter r = (if truthy (js_prop (hd (getPredicateValuesByKey services fs ''endDateRange'')) ''from'') then toISOString services (js_prop (hd (getPredicateValuesByKey services fs ''endDateRange'')) ''from'') else None)))"
proof -
  from assms obtain p1 p2 p3 p4 where
    m: "setMembers services fs noParams = Inr p1"
    and w: "setWithoutGroups services fs requestOptions (setGroups services fs p1) = Inr p2"
    and s: "setStartDates services fs (setStatus services fs p2) = Inr p3"
    and e: "setEndDates services fs p3 = Inr p4"
    and r: "r = applyOccurrences services (getPredicateValuesByKey services fs ''occurrence'') 0 p4"
    by (rule processFilters_stages)
  note m' = setMembers_Inr [OF m]
  from setWithoutGroups_Inr [OF w] obtain wr we where
    w': "p2 = (setGroups services fs p1)\<lparr>withoutReadGroups := wr, withoutEditGroups := we\<rparr>"
    by blast
  from setStartDates_Inr [OF s] obtain sb sa where
    s': "p3 = (setStatus services fs p2)\<lparr>startDateTimeBefore := sb, startDateTimeAfter := sa\<rparr>"
    and sr: "getPredicateValuesByKey services fs ''startDateRange'' \<noteq> [] \<longrightarrow>
           sb = (if truthy (js_prop (hd (getPredicateValuesByKey services fs ''startDateRange'')) ''to'')
                 then toISOString services (js_prop (hd (getPredicateValuesByKey services fs ''startDateRange'')) ''to'')
                 else startDateTimeBefore (setStatus services fs p2))
           \<and> sa = (if truthy (js_prop (hd (getPredicateValuesByKey services fs ''startDateRange'')) ''from'')
                 then toISOString services (js_prop (hd (getPredicateValuesByKey services fs ''startDateRange'')) ''from'')
                 else startDateTimeAfter (setStatus services fs p2))"
    by blast
  from setEndDates_Inr [OF e] obtain eb ea where
    e': "p4 = p3\<lparr>endDateTimeBefore := eb, endDateTimeAfter := ea\<rparr>"
    and er: "getPredicateValuesByKey services fs ''endDateRange'' \<noteq> [] \<longrightarrow>
           eb = (if truthy (js_prop (hd (getPredicateValuesByKey services fs ''endDateRange'')) ''to'')
                 then toISOString services (js_prop (hd (getPredicateValuesByKey services fs ''endDateRange'')) ''to'')
                 else endDateTimeBefore p3)
           \<and> ea = (if truthy (js_prop (hd (getPredicateValuesByKey services fs ''endDateRange'')) ''from'')
                 then toISOString services (js_prop (hd (getPredicateValuesByKey services fs ''endDateRange'')) ''from'')
                 else endDateTimeAfter p3)"
    by blast
  have q1: "startDateTimeBefore (setStatus services fs p2) = None"
    "startDateTimeAfter (setStatus services fs p2) = None"
    "endDateTimeBefore p3 = None" "endDateTimeAfter p3 = None"
    unfolding s' setStatus_eq w' setGroups_eq m' by (simp_all add: noParams_def)
  have p4: "startDateTimeBefore p4 = sb" "startDateTimeAfter p4 = sa"
    "endDateTimeBefore p4 = eb" "endDateTimeAfter p4 = ea"
    unfolding e' s' by simp_all
  have start: "getPredicateValuesByKey services fs ''startDateRange'' \<noteq> [] \<longrightarrow>
          (if JStr ''inProgress'' \<in> set (getPredicateValuesByKey services fs ''occurrence'')
            then \<exists>k. startDateTimeBefore r = Some (now services k)
            else startDateTimeBefore r = (if truthy (js_prop (hd (getPredicateValuesByKey services fs ''startDateRange'')) ''to'') then toISOString services (js_prop (hd (getPredicateValuesByKey services fs ''startDateRange'')) ''to'') else None))
        \<and> (if JStr ''upcoming'' \<in> set (getPredicateValuesByKey services fs ''occurrence'')
            then \<exists>k. startDateTimeAfter r = Some (now services k)
            else startDateTimeAfter r = (if truthy (js_prop (hd (getPredicateValuesByKey services fs ''startDateRange'')) ''from'') then toISOString services (js_prop (hd (getPredicateValuesByKey services fs ''startDateRange'')) ''from'') else None))"
  proof
    assume range: "getPredicateValuesByKey services fs ''startDateRange'' \<noteq> []"
    note v = sr [rule_format, OF range, unfolded q1]
    have sB: "(if JStr ''inProgress'' \<in> set (getPredicateValuesByKey services fs ''occurrence'')
            then \<exists>k. startDateTimeBefore r = Some (now services k)
            else startDateTimeBefore r = (if truthy (js_prop (hd (getPredicateValuesByKey services fs ''startDateRange'')) ''to'') then toISOString services (js_prop (hd (getPredicateValuesByKey services fs ''startDateRange'')) ''to'') else None))"
    proof (cases "JStr ''inProgress'' \<in> set (getPredicateValuesByKey services fs ''occurrence'')")
      case True
      from applyOccurrences_now_startDateTimeBefore [OF True, of services 0 p4] show ?thesis
        using True unfolding r by simp
    next
      case False
      have "startDateTimeBefore r = startDateTimeBefore p4"
        unfolding r by (rule applyOccurrences_keep_startDateTimeBefore [OF False])
      then show ?thesis using False p4 v by (simp split del: if_split cong: if_cong)
    qed
    have sA: "(if JStr ''upcoming'' \<in> set (getPredicateValuesByKey services fs ''occurrence'')
            then \<exists>k. startDateTimeAfter r = Some (now services k)
            else startDateTimeAfter r = (if truthy (js_prop (hd (getPredicateValuesByKey services fs ''startDateRange'')) ''from'') then toISOString services (js_prop (hd (getPredicateValuesByKey services fs ''startDateRange'')) ''from'') else None))"
    proof (cases "JStr ''upcoming'' \<in> set (getPredicateValuesByKey services fs ''occurrence'')")
      case True
      from applyOccurrences_now_startDateTimeAfter [OF True, of services 0 p4] show ?thesis
        using True unfolding r by simp
    next
      case False
      have "startDateTimeAfter r = startDateTimeAfter p4"
        unfolding r by (rule applyOccurrences_keep_startDateTimeAfter [OF False])
      then show ?thesis using False p4 v by (simp split del: if_split cong: if_cong)
    qed
    from sB sA show "(if JStr ''inProgress'' \<in> set (getPredicateValuesByKey services fs ''occurrence'')
            then \<exists>k. startDateTimeBefore r = Some (now services k)
            else startDateTimeBefore r = (if truthy (js_prop (hd (getPredicateValuesByKey services fs ''startDateRange'')) ''to'') then toISOString services (js_prop (hd (getPredicateValuesByKey services fs ''startDateRange'')) ''to'') else None))
        \<and> (if JStr ''upcoming'' \<in> set (getPredicateValuesByKey services fs ''occurrence'')
            then \<exists>k. startDateTimeAfter r = Some (now services k)
            else startDateTimeAfter r = (if truthy (js_prop (hd (getPredicateValuesByKey services fs ''startDateRange'')) ''from'') then toISOString services (js_prop (hd (getPredicateValuesByKey services fs ''startDateRange'')) ''from'') else None))" by (rule conjI)
  qed
  have "end": "getPredicateValuesByKey services fs ''endDateRange'' \<noteq> [] \<longrightarrow>
          (if JStr ''past'' \<in> set (getPredicateValuesByKey services fs ''occurrence'')
            then \<exists>k. endDateTimeBefore r = Some (now services k)
            else endDateTimeBefore r = (if truthy (js_prop (hd (getPredicateValuesByKey services fs ''endDateRange'')) ''to'') then toISOString services (js_prop (hd (getPredicateValuesByKey services fs ''endDateRange'')) ''to'') else None))
        \<and> (if JStr ''inProgress'' \<in> set (getPredicateValuesByKey services fs ''occurrence'')
            then \<exists>k. endDateTimeAfter r = Some (now services k)
            else endDateTimeAfter r = (if truthy (js_prop (hd (getPredicateValuesByKey services fs ''endDateRange'')) ''from'') then toISOString services (js_prop (hd (getPredicateValuesByKey services fs ''endDateRange'')) ''from'') else None))"
  proof
    assume range: "getPredicateValuesByKey services fs ''endDateRange'' \<noteq> []"
    note v = er [rule_format, OF range, unfolded q1]
    have eB: "(if JStr ''past'' \<in> set (getPredicateValuesByKey services fs ''occurrence'')
            then \<exists>k. endDateTimeBefore r = Some (now services k)
            else endDateTimeBefore r = (if truthy (js_prop (hd (getPredicateValuesByKey services fs ''endDateRange'')) ''to'') then toISOString services (js_prop (hd (getPredicateValuesByKey services fs ''endDateRange'')) ''to'') else None))"
    proof (cases "JStr ''past'' \<in> set (getPredicateValuesByKey services fs ''occurrence'')")
      case True
      from applyOccurrences_now_endDateTimeBefore [OF True, of services 0 p4] show ?thesis
        using True unfolding r by simp
    next
      case False
      have "endDateTimeBefore r = endDateTimeBefore p4"
        unfolding r by (rule applyOccurrences_keep_endDateTimeBefore [OF False])
      then show ?thesis using False p4 v by (simp split del: if_split cong: if_cong)
    qed
    have eA: "(if JStr ''inProgress'' \<in> set (getPredicateValuesByKey services fs ''occurrence'')
            then \<exists>k. endDateTimeAfter r = Some (now services k)
            else endDateTimeAfter r = (if truthy (js_prop (hd (getPredicateValuesByKey services fs ''endDateRange'')) ''from'') then toISOString services (js_prop (hd (getPredicateValuesByKey services fs ''endDateRange'')) ''from'') else None))"
    proof (cases "JStr ''inProgress'' \<in> set (getPredicateValuesByKey services fs ''occurrence'')")
      case True
      from applyOccurrences_now_endDateTimeAfter [OF True, of services 0 p4] show ?thesis
        using True unfolding r by simp
    next
      case False
      have "endDateTimeAfter r = endDateTimeAfter p4"
        unfolding r by (rule applyOccurrences_keep_endDateTimeAfter [OF False])
      then show ?thesis using False p4 v by (simp split del: if_split cong: if_cong)
    qed
    from eB eA show "(if JStr ''past'' \<in> set (getPredicateValuesByKey services fs ''occurrence'')
            then \<exists>k. endDateTimeBefore r = Some (now services k)
            else endDateTimeBefore r = (if truthy (js_prop (hd (getPredicateValuesByKey services fs ''endDateRange'')) ''to'') then toISOString services (js_prop (hd (getPredicateValuesByKey services fs ''endDateRange'')) ''to'') else None))
        \<and> (if JStr ''inProgress'' \<in> set (getPredicateValuesByKey services fs ''occurrence'')
            then \<exists>k. endDateTimeAfter r = Some (now services k)
            else endDateTimeAfter r = (if truthy (js_prop (hd (getPredicateValuesByKey services fs ''endDateRange'')) ''from'') then toISOString services (js_prop (hd (getPredicateValuesByKey services fs ''endDateRange'')) ''from'') else None))" by (rule conjI)
  qed
  from start "end" show ?thesis by (rule conjI)
qed

theorem processFilters_dateRange_witness:
  "processFilters sampleFilterServices sampleRangeFilters () =
     Inr \<lparr>access = None, canEdit = None, entityIds = None, entityTypes = None,
             eventIds = None, title = None, events_orgId = None,
             categories = None, tags = None, sharedToGroups = None, readGroups = None,
             editGroups = None, withoutReadGroups = None, withoutEditGroups = None,
             attendanceTypes = None, createdByIds = None, status = Some ''planned,canceled'',
             startDateTimeBefore = Some ''2026-12-31T00:00:00.000Z'',
             startDateTimeAfter = Some ''2026-01-01T00:00:00.000Z'',
             endDateTimeBefore = None,
             endDateTimeAfter = Some ''2026-02-01T00:00:00.000Z''\<rparr>
   \<and> getPredicateValuesByKey sampleFilterServices sampleRangeFilters ''startDateRange''
       = [JObj [(''from'', JStr ''2026-01-01T00:00:00.000Z''), (''to'', JStr ''2026-12-31T00:00:00.000Z'')]]
   \<and> getPredicateValuesByKey sampleFilterServices sampleRangeFilters ''startDateBefore''
       = [JStr ''2026-06-30T00:00:00.000Z'']
   \<and> getPredicateValuesByKey sampleFilterServices sampleRangeFilters ''occurrence'' = []
   \<and> startDateTimeBefore \<lparr>access = None, canEdit = None, entityIds = None, entityTypes = None,
             eventIds = None, title = None, events_orgId = None,
             categories = None, tags = None, sharedToGroups = None, readGroups = None,
             editGroups = None, withoutReadGroups = None, withoutEditGroups = None,
             attendanceTypes = None, createdByIds = None, status = Some ''planned,canceled'',
             startDateTimeBefore = Some ''2026-12-31T00:00:00.000Z'',
             startDateTimeAfter = Some ''2026-01-01T00:00:00.000Z'',
             endDateTimeBefore = None,
             endDateTimeAfter = Some ''2026-02-01T00:00:00.000Z''\<rparr> = Some ''2026-12-31T00:00:00.000Z''
   \<and> startDateTimeAfter \<lparr>access = None, canEdit = None, entityIds = None, entityTypes = None,
             eventIds = None, title = None, events_orgId = None,
             categories = None, tags = None, sharedToGroups = None, readGroups = None,
             editGroups = None, withoutReadGroups = None, withoutEditGroups = None,
             attendanceTypes = None, createdByIds = None, status = Some ''planned,canceled'',
             startDateTimeBefore = Some ''2026-12-31T00:00:00.000Z'',
             startDateTimeAfter = Some ''2026-01-01T00:00:00.000Z'',
             endDateTimeBefore = None,
             endDateTimeAfter = Some ''2026-02-01T00:00:00.000Z''\<rparr> = Some ''2026-01-01T00:00:00.000Z''"
proof -
  have v: "getPredicateValuesByKey sampleFilterServices sampleRangeFilters ''startDateRange''
       = [JObj [(''from'', JStr ''2026-01-01T00:00:00.000Z''), (''to'', JStr ''2026-12-31T00:00:00.000Z'')]]"
    and b: "getPredicateValuesByKey sampleFilterServices sampleRangeFilters ''startDateBefore''
       = [JStr ''2026-06-30T00:00:00.000Z'']"
    and o: "getPredicateValuesByKey sampleFilterServices sampleRangeFilters ''occurrence'' = []"
    by (simp_all add: sampleFilterServices_def sampleValuesByKey_def sampleRangeFilters_def)
  have t: "toISOString sampleFilterServices (JStr ''2026-12-31T00:00:00.000Z'') = Some ''2026-12-31T00:00:00.000Z''"
    "toISOString sampleFilterServices (JStr ''2026-01-01T00:00:00.000Z'') = Some ''2026-01-01T00:00:00.000Z''"
    by (simp_all add: sampleFilterServices_def)
  have ne: "getPredicateValuesByKey sampleFilterServices sampleRangeFilters ''startDateRange'' \<noteq> []"
    unfolding v by simp
  note s = mp [OF processFilters_dateRange [OF processFilters_sampleRangeFilters, THEN conjunct1] ne]
  from s [THEN conjunct1]
  have x: "startDateTimeBefore \<lparr>access = None, canEdit = None, entityIds = None, entityTypes = None,
             eventIds = None, title = None, events_orgId = None,
             categories = None, tags = None, sharedToGroups = None, readGroups = None,
             editGroups = None, withoutReadGroups = None, withoutEditGroups = None,
             attendanceTypes = None, createdByIds = None, status = Some ''planned,canceled'',
             startDateTimeBefore = Some ''2026-12-31T00:00:00.000Z'',
             startDateTimeAfter = Some ''2026-01-01T00:00:00.000Z'',
             endDateTimeBefore = None,
             endDateTimeAfter = Some ''2026-02-01T00:00:00.000Z''\<rparr> = Some ''2026-12-31T00:00:00.000Z''"
    unfolding v o by (simp add: t)
  from s [THEN conjunct2]
  have y: "startDateTimeAfter \<lparr>access = None, canEdit = None, entityIds = None, entityTypes = None,
             eventIds = None, title = None, events_orgId = None,
             categories = None, tags = None, sharedToGroups = None, readGroups = None,
             editGroups = None, withoutReadGroups = None, withoutEditGroups = None,
             attendanceTypes = None, createdByIds = None, status = Some ''planned,canceled'',
             startDateTimeBefore = Some ''2026-12-31T00:00:00.000Z'',
             startDateTimeAfter = Some ''2026-01-01T00:00:00.000Z'',
             endDateTimeBefore = None,
             endDateTimeAfter = Some ''2026-02-01T00:00:00.000Z''\<rparr> = Some ''2026-01-01T00:00:00.000Z''"
    unfolding v o by (simp add: t)
  from processFilters_sampleRangeFilters v b o x y show ?thesis by (intro conjI)
qed

text \<open>
  C3 as stated fails: with a \<open>startDateRange\<close> whose \<open>from\<close> is 1 January 2026
  and the occurrence \<open>upcoming\<close>, \<open>startDateTimeAfter\<close> is the time of the clock, not the
  range's \<open>from\<close>.
\<close>

theorem processFilters_upcoming_overrides_range:
  "getPredicateValuesByKey sampleFilterServices sampleUpcomingFilters ''startDateRange''
     = [JObj [(''from'', JStr ''2026-01-01T00:00:00.000Z''), (''to'', JStr ''2026-12-31T00:00:00.000Z'')]]
   \<and> processFilters sampleFilterServices sampleUpcomingFilters () =
     Inr \<lparr>access = None, canEdit = None, entityIds = None, entityTypes = None,
             eventIds = None, title = None, events_orgId = None,
             categories = None, tags = None, sharedToGroups = None, readGroups = None,
             editGroups = None, withoutReadGroups = None, withoutEditGroups = None,
             attendanceTypes = None, createdByIds = None, status = Some ''planned,canceled'',
             startDateTimeBefore = Some ''2026-12-31T00:00:00.000Z'',
             startDateTimeAfter = Some ''2026-11-03T12:00:00.000Z'',
             endDateTimeBefore = None, endDateTimeAfter = None\<rparr>
   \<and> startDateTimeAfter \<lparr>access = None, canEdit = None, entityIds = None, entityTypes = None,
             eventIds = None, title = None, events_orgId = None,
             categories = None, tags = None, sharedToGroups = None, readGroups = None,
             editGroups = None, withoutReadGroups = None, withoutEditGroups = None,
             attendanceTypes = None, createdByIds = None, status = Some ''planned,canceled'',
             startDateTimeBefore = Some ''2026-12-31T00:00:00.000Z'',
             startDateTimeAfter = Some ''2026-11-03T12:00:00.000Z'',
             endDateTimeBefore = None, endDateTimeAfter = None\<rparr>
     \<noteq> toISOString sampleFilterServices (js_prop (JObj [(''from'', JStr ''2026-01-01T00:00:00.000Z''), (''to'', JStr ''2026-12-31T00:00:00.000Z'')]) ''from'')"
  by (simp add: sampleUpcomingFilters_def processFilters_def setMembers_def setGroups_def setWithoutGroups_def setStatus_def setStartDates_def setEndDates_def andThen_def newDateISO_def js_member_def hasLength_def toLowerCase_def EventStatus_PLANNED_def EventStatus_CANCELED_def sampleFilterServices_def sampleValuesByKey_def json_join_def noParams_def Let_def)

end
